(* ===== verification/Kosik_Prelude.thy ===== *)
theory Kosik_Prelude
  imports Main "HOL-Library.Word"
begin

text \<open>
  Shared vocabulary of the Kosik development.  The Rust sources run in
  debug mode, where an arithmetic underflow of \<open>usize\<close>, a division by
  zero, an out-of-range slice and a failed \<open>assert!\<close> abort the program.
  Every such panic is a value of the datatype \<open>panic\<close>, and a computation
  that may panic returns \<open>'a result = panic + 'a\<close>, the error on the left.
  The theory also holds the checked \<open>usize\<close> operations, the slice
  operation \<open>&xs[i..j]\<close>, and the generic list lemmas the component
  theories share.
\<close>

named_theorems result_simps "equations that evaluate checked Rust operations"

datatype panic =
    Subtract_Overflow
  | Negate_Overflow
  | Division_By_Zero
  | Index_Out_Of_Bounds
  | Assertion_Failed
  | Add_Overflow

type_synonym 'a result = "panic + 'a"

text \<open>Sequencing of two computations that may panic (Rust's unwinding).\<close>

fun bind_result :: "'a result \<Rightarrow> ('a \<Rightarrow> 'b result) \<Rightarrow> 'b result" where
  "bind_result (Inl e) f = Inl e"
| "bind_result (Inr x) f = f x"

text \<open>\<open>a - b\<close> on \<open>usize\<close>: a panic when the result would be negative.\<close>

definition usize_sub :: "nat \<Rightarrow> nat \<Rightarrow> nat result" where
  "usize_sub a b = (if a < b then Inl Subtract_Overflow else Inr (a - b))"

text \<open>\<open>a / b\<close> on \<open>usize\<close>: a panic when \<open>b = 0\<close>.\<close>

definition usize_div :: "nat \<Rightarrow> nat \<Rightarrow> nat result" where
  "usize_div a b = (if b = 0 then Inl Division_By_Zero else Inr (a div b))"

text \<open>The slice \<open>&xs[i..j]\<close>; its bounds are checked by the caller.\<close>

definition slice :: "'a list \<Rightarrow> nat \<Rightarrow> nat \<Rightarrow> 'a list" where
  "slice xs i j = take (j - i) (drop i xs)"

text \<open>A loop over a vector that may panic in its body: the first panic ends it.\<close>

fun map_result :: "('a \<Rightarrow> 'b result) \<Rightarrow> 'a list \<Rightarrow> 'b list result" where
  "map_result f [] = Inr []"
| "map_result f (x # xs) = bind_result (f x) (\<lambda>y. bind_result (map_result f xs) (\<lambda>ys. Inr (y # ys)))"

text \<open>\<open>format!("{}", n)\<close> of an \<open>i32\<close>: decimal digits, a minus sign when negative.\<close>

fun nat_digits :: "nat \<Rightarrow> string" where
  "nat_digits n = (if n < 10 then [char_of (48 + n)] else nat_digits (n div 10) @ [char_of (48 + n mod 10)])"

definition int_to_string :: "int \<Rightarrow> string" where
  "int_to_string i = (if i < 0 then CHR ''-'' # nat_digits (nat (- i)) else nat_digits (nat i))"

text \<open>\<open>a + b\<close> on \<open>i32\<close>: a panic when the sum leaves \<open>[-2^31, 2^31)\<close>.\<close>

definition i32_add :: "int \<Rightarrow> int \<Rightarrow> int result" where
  "i32_add a b = (if a + b < - (2 ^ 31) \<or> 2 ^ 31 \<le> a + b then Inl Add_Overflow else Inr (a + b))"

subsection \<open>Evaluation of the checked operations\<close>

lemma bind_result_Inr_iff [simp]:
  "bind_result m f = Inr y \<longleftrightarrow> (\<exists>x. m = Inr x \<and> f x = Inr y)"
  by (cases m) auto

lemma bind_result_Inl_iff:
  "bind_result m f = Inl e \<longleftrightarrow> m = Inl e \<or> (\<exists>x. m = Inr x \<and> f x = Inl e)"
  by (cases m) auto

lemma bind_result_case: "bind_result m f = (case m of Inl e \<Rightarrow> Inl e | Inr x \<Rightarrow> f x)"
  by (cases m) auto

lemma bind_result_assoc:
  "bind_result (bind_result m f) g = bind_result m (\<lambda>x. bind_result (f x) g)"
  by (cases m) auto

lemma usize_sub_ok [simp, result_simps]: "b \<le> a \<Longrightarrow> usize_sub a b = Inr (a - b)"
  by (simp add: usize_sub_def)

lemma usize_sub_fail [simp, result_simps]: "a < b \<Longrightarrow> usize_sub a b = Inl Subtract_Overflow"
  by (simp add: usize_sub_def)

lemma usize_div_ok [simp, result_simps]: "0 < b \<Longrightarrow> usize_div a b = Inr (a div b)"
  by (simp add: usize_div_def)

lemma usize_div_zero [simp, result_simps]: "usize_div a 0 = Inl Division_By_Zero"
  by (simp add: usize_div_def)

lemma i32_add_ok [simp, result_simps]:
  "- (2 ^ 31) \<le> a + b \<Longrightarrow> a + b < 2 ^ 31 \<Longrightarrow> i32_add a b = Inr (a + b)"
  by (simp add: i32_add_def)

lemma i32_add_fail [result_simps]: "2 ^ 31 \<le> a + b \<Longrightarrow> i32_add a b = Inl Add_Overflow"
  by (simp add: i32_add_def)

subsection \<open>Slices\<close>

lemma length_slice [simp]: "j \<le> length xs \<Longrightarrow> length (slice xs i j) = j - i"
  by (simp add: slice_def)

lemma slice_append_slice:
  "i \<le> j \<Longrightarrow> j \<le> k \<Longrightarrow> slice xs i j @ slice xs j k = slice xs i k"
proof -
  assume ij: "i \<le> j" and jk: "j \<le> k"
  obtain a b where a: "j = i + a" and b: "k = j + b"
    using ij jk le_Suc_ex by blast
  have "take (a + b) (drop i xs) = take a (drop i xs) @ take b (drop (i + a) xs)"
    by (simp add: take_add add.commute)
  then show ?thesis
    using a b by (simp add: slice_def add.assoc)
qed

lemma slice_empty [simp]: "slice xs i i = []"
  by (simp add: slice_def)

lemma slice_Suc: "i < length xs \<Longrightarrow> slice xs i (Suc i) = [xs ! i]"
  by (simp add: slice_def take_Suc_conv_app_nth take_drop drop_take)

lemma slice_whole [simp]: "slice xs 0 (length xs) = xs"
  by (simp add: slice_def)

lemma set_slice_subset: "set (slice xs i j) \<subseteq> set xs"
  by (simp add: slice_def) (meson in_set_dropD in_set_takeD subsetI)

subsection \<open>Lists\<close>

lemma sum_list_map_append_split:
  "sum_list (map f (xs @ ys)) = sum_list (map f xs) + sum_list (map f ys)"
  by simp

lemma last_snoc_update [simp]: "butlast xs @ [f (last xs)] \<noteq> []"
  by simp

lemma upt_split3: "i \<le> (k::nat) \<Longrightarrow> k \<le> l \<Longrightarrow> [i..<l] = [i..<k] @ [k..<l]"
  using upt_add_eq_append [of i k "l - k"] by simp

lemma upt_snoc_pred: "i < (k::nat) \<Longrightarrow> [i..<k] = [i..<k - 1] @ [k - 1]"
  using upt_Suc_append [of i "k - 1"] by simp

lemma slice_map_nth: "j \<le> length xs \<Longrightarrow> slice xs a j = map ((!) xs) [a..<j]"
  by (rule nth_equalityI) (auto simp: slice_def)

lemma concat_map_filter_empty:
  "(\<And>a j. \<not> a < j \<Longrightarrow> g a j = []) \<Longrightarrow>
     concat (map (\<lambda>(a, j). g a j) (filter (\<lambda>(a, j). a < j) W)) = concat (map (\<lambda>(a, j). g a j) W)"
  by (induction W) auto

lemma concat_map_ranges:
  "concat (map (\<lambda>(a, j). concat (map h (map f [a..<j]))) W)
     = concat (map h (map f (concat (map (\<lambda>(a, j). [a..<j]) W))))"
  by (induction W) auto

lemma not_isl_Inr: "\<not> isl r \<Longrightarrow> \<exists>y. r = Inr y"
  by (cases r) auto

end
