(* ===== verification/Tokens.thy ===== *)
theory Tokens
  imports Kosik_Prelude
begin

text \<open>
  The token model of \<^verbatim>\<open>src/text/tokens.rs\<close>.  A token is the generic struct
  \<open>Token<Data>\<close> (a record with the payload, the display flags and the format
  flags); \<open>TokenType\<close> is the closed set of eight token kinds.  The payload of
  every kind but \<open>LineBreak\<close> is a \<open>String\<close>; a HOL character stands for one
  Unicode scalar value, so that \<open>length\<close> is Rust's \<open>chars().count()\<close>.
  Both flag sets are \<open>bitflags\<close> structs over \<open>u32\<close>, modelled as \<open>32 word\<close>
  with \<open>intersects\<close> as a bitwise AND.
\<close>

unbundle bit_operations_syntax

type_synonym display_flags = "32 word"
type_synonym format_flags = "32 word"

subsection \<open>Flags\<close>

definition EM :: display_flags where "EM = 0b00000001"
definition SUB :: display_flags where "SUB = 0b00000010"
definition SUP_flag :: display_flags where "SUP_flag = 0b00000100"

definition FS :: format_flags where "FS = 0b00000001"
definition DLB :: format_flags where "DLB = 0b00000010"
definition MLB :: format_flags where "MLB = 0b00000100"
definition DOB :: format_flags where "DOB = 0b00001000"

text \<open>\<open>bitflags\<close>' \<open>intersects\<close>: some flag is set in both.\<close>

definition intersects :: "32 word \<Rightarrow> 32 word \<Rightarrow> bool" where
  "intersects a b \<longleftrightarrow> a AND b \<noteq> 0"

text \<open>\<open>DisplayFlags::clear\<close> and \<open>FormatFlags::clear\<close> (\<open>self.bits = 0\<close>), used by the
  text parser; \<open>&mut self\<close> becomes the returned flags.\<close>

definition display_clear :: "display_flags \<Rightarrow> display_flags" where
  "display_clear f = 0"

definition format_clear :: "format_flags \<Rightarrow> format_flags" where
  "format_clear f = 0"

lemmas flag_defs = EM_def SUB_def SUP_flag_def FS_def DLB_def MLB_def DOB_def

subsection \<open>Tokens\<close>

record 'd token =
  data :: 'd
  dpy :: display_flags
  frm :: format_flags

datatype token_type =
    Close "string token"
  | LineBreak "unit token"
  | NoteRef "string token"
  | Open "string token"
  | Punct "string token"
  | Space "string token"
  | Symbol "string token"
  | Word "string token"

fun token_length :: "token_type \<Rightarrow> nat" where
  "token_length (Close t) = length (data t)"
| "token_length (LineBreak _) = 0"
| "token_length (NoteRef t) = length (data t)"
| "token_length (Open t) = length (data t)"
| "token_length (Punct t) = length (data t)"
| "token_length (Space t) = length (data t)"
| "token_length (Symbol t) = length (data t)"
| "token_length (Word t) = length (data t)"

fun token_text :: "token_type \<Rightarrow> string" where
  "token_text (Close t) = data t"
| "token_text (LineBreak _) = []"
| "token_text (NoteRef t) = data t"
| "token_text (Open t) = data t"
| "token_text (Punct t) = data t"
| "token_text (Space t) = data t"
| "token_text (Symbol t) = data t"
| "token_text (Word t) = data t"

fun display_flags :: "token_type \<Rightarrow> display_flags" where
  "display_flags (Close t) = dpy t"
| "display_flags (LineBreak t) = dpy t"
| "display_flags (NoteRef t) = dpy t"
| "display_flags (Open t) = dpy t"
| "display_flags (Punct t) = dpy t"
| "display_flags (Space t) = dpy t"
| "display_flags (Symbol t) = dpy t"
| "display_flags (Word t) = dpy t"

fun format_flags :: "token_type \<Rightarrow> format_flags" where
  "format_flags (Close t) = frm t"
| "format_flags (LineBreak t) = frm t"
| "format_flags (NoteRef t) = frm t"
| "format_flags (Open t) = frm t"
| "format_flags (Punct t) = frm t"
| "format_flags (Space t) = frm t"
| "format_flags (Symbol t) = frm t"
| "format_flags (Word t) = frm t"

subsection \<open>Constructors\<close>

text \<open>\<open>From<&str> for Token<PunctData>\<close>: a full stop character gets \<open>FS\<close>.\<close>

definition punct_token :: "string \<Rightarrow> token_type" where
  "punct_token s = Punct \<lparr>data = s, dpy = 0,
     frm = (if s \<in> {''.'', ''?'', ''!'', '':''} then FS else 0)\<rparr>"

text \<open>\<open>From<usize> for Token<SpaceData>\<close>: \<open>n\<close> spaces, a discretionary break
  that is discarded when the line is broken there.\<close>

definition space_token :: "nat \<Rightarrow> token_type" where
  "space_token n = Space \<lparr>data = replicate n (CHR '' ''), dpy = 0, frm = DLB OR DOB\<rparr>"

definition symbol_token :: "string \<Rightarrow> token_type" where
  "symbol_token s = Symbol \<lparr>data = s, dpy = 0, frm = 0\<rparr>"

definition word_token :: "string \<Rightarrow> token_type" where
  "word_token s = Word \<lparr>data = s, dpy = 0, frm = 0\<rparr>"

text \<open>The \<open>Br\<close> element becomes a mandatory break in the reader
  (\<^verbatim>\<open>src/document/reader.rs\<close>, \<open>resume_text_element\<close>).\<close>

definition line_break_token :: token_type where
  "line_break_token = LineBreak \<lparr>data = (), dpy = 0, frm = MLB\<rparr>"

subsection \<open>Flag algebra\<close>

lemma intersects_zero [simp]: "\<not> intersects 0 f" "\<not> intersects f 0"
  by (simp_all add: intersects_def)

lemma intersects_clear [simp]: "\<not> intersects (display_clear f) g" "\<not> intersects (format_clear f) g"
  by (simp_all add: display_clear_def format_clear_def)

lemma intersects_flags [simp]:
  "intersects DLB DLB" "intersects MLB MLB" "intersects DOB DOB"
  "\<not> intersects DLB MLB" "\<not> intersects DOB MLB" "\<not> intersects FS MLB"
  "\<not> intersects FS DLB" "\<not> intersects MLB DLB"
  "intersects (DLB OR DOB) DLB" "intersects (DLB OR DOB) DOB"
  "\<not> intersects (DLB OR DOB) MLB"
  by (simp_all add: intersects_def flag_defs)

lemmas token_simps [simp] =
  punct_token_def space_token_def symbol_token_def word_token_def line_break_token_def

subsection \<open>The token contract\<close>

text \<open>
  The contract the line breakers rely on (spec section 3): a mandatory break has
  no width.  The only token the program creates with \<open>MLB\<close> is the reader's
  line break, which keeps it.
\<close>

definition token_wf :: "token_type \<Rightarrow> bool" where
  "token_wf t \<longleftrightarrow> (intersects (format_flags t) MLB \<longrightarrow> token_length t = 0)"

lemma token_wf_constructors:
  "token_wf line_break_token" "token_wf (space_token n)" "token_wf (word_token s)"
  "token_wf (symbol_token s)" "token_wf (punct_token s)"
  by (simp_all add: token_wf_def)

lemma length_space_token [simp]: "token_length (space_token n) = n"
  by simp

end
