(* ===== verification/Text_Lines.thy ===== *)
theory Text_Lines
  imports Tokens
begin

text \<open>
  Lines and segments of \<^verbatim>\<open>src/text.rs\<close>.  A \<open>Segment\<close> holds the plain text of a
  run of tokens and the PostScript that shows it; a \<open>Line\<close> is a start column, its
  segments and the labels of the note references on it.  \<open>Line::from(&[TokenType])\<close>
  cuts the token slice at every change of display state (the vector
  \<open>state_changes\<close>) and converts every non-empty window into a segment.  The
  PostScript string syntax reserves \<open>(\<close>, \<open>)\<close> and the backslash, which the
  conversions escape with a backslash.
\<close>

record segment =
  seg_text :: string
  ps :: string

record line =
  column :: nat
  segments :: "segment list"
  note_refs :: "string list"

text \<open>\<open>Line::length\<close> and \<open>Line::ps\<close>.\<close>

definition line_length :: "line \<Rightarrow> nat" where
  "line_length l = sum_list (map (\<lambda>s. length (seg_text s)) (segments l))"

definition line_ps :: "line \<Rightarrow> string" where
  "line_ps l = concat (map ps (segments l))"

subsection \<open>PostScript escaping of a whole string\<close>

abbreviation backslash :: char where
  "backslash \<equiv> CHR 0x5C"

text \<open>\<open>Regex::replace_all\<close> of a one-character pattern by a literal replacement.\<close>

definition replace_all :: "char \<Rightarrow> string \<Rightarrow> string \<Rightarrow> string" where
  "replace_all c r s = concat (map (\<lambda>x. if x = c then r else [x]) s)"

text \<open>The three replacements of \<open>From<String> for Segment\<close>, in the source's order.\<close>

definition ps_escape :: "string \<Rightarrow> string" where
  "ps_escape s =
     replace_all (CHR '')'') [backslash, CHR '')'']
       (replace_all (CHR ''('') [backslash, CHR ''(''] (replace_all backslash [backslash, backslash] s))"

definition segment_of_string :: "string \<Rightarrow> segment" where
  "segment_of_string s = \<lparr>seg_text = s, ps = ''('' @ ps_escape s @ '') show ''\<rparr>"

definition line_of_segment :: "segment \<Rightarrow> line" where
  "line_of_segment sg = \<lparr>column = 0, segments = [sg], note_refs = []\<rparr>"

subsection \<open>A segment from a run of tokens\<close>

text \<open>Only the single-character tokens \<open>)\<close>, \<open>(\<close> and \<open>\\\<close> are escaped.\<close>

fun token_ps :: "token_type \<Rightarrow> string" where
  "token_ps (Close t) = (if data t = '')'' then [backslash, CHR '')''] else data t)"
| "token_ps (LineBreak _) = []"
| "token_ps (NoteRef t) = data t"
| "token_ps (Open t) = (if data t = ''('' then [backslash, CHR ''(''] else data t)"
| "token_ps (Punct t) = data t"
| "token_ps (Space t) = data t"
| "token_ps (Symbol t) = (if data t = [backslash] then [backslash, backslash] else data t)"
| "token_ps (Word t) = data t"

definition first_display_flags :: "token_type list \<Rightarrow> display_flags" where
  "first_display_flags ts = (case ts of [] \<Rightarrow> 0 | t # _ \<Rightarrow> display_flags t)"

definition segment_of_tokens :: "token_type list \<Rightarrow> segment" where
  "segment_of_tokens ts =
     (let d = first_display_flags ts in
      \<lparr>seg_text = concat (map token_text ts),
       ps = (if intersects d SUB then ''0 -6 rmoveto ''
             else if intersects d SUP_flag then ''0 6 rmoveto '' else [])
            @ ''('' @ concat (map token_ps ts) @ '') ''
            @ (if intersects d EM then ''ushow '' else ''show '')
            @ (if intersects d SUB then ''0 6 rmoveto ''
               else if intersects d SUP_flag then ''0 -6 rmoveto '' else [])\<rparr>)"

subsection \<open>A line from a token slice\<close>

text \<open>
  The loop over the tokens: the index of every token whose display state differs
  from the current one; a line break never changes the state.
\<close>

fun state_changes :: "display_flags \<Rightarrow> nat \<Rightarrow> token_type list \<Rightarrow> nat list" where
  "state_changes d i [] = []"
| "state_changes d i (LineBreak _ # ts) = state_changes d (Suc i) ts"
| "state_changes d i (t # ts) =
     (if d \<noteq> display_flags t then i # state_changes (display_flags t) (Suc i) ts
      else state_changes d (Suc i) ts)"

fun note_refs_of :: "token_type list \<Rightarrow> string list" where
  "note_refs_of [] = []"
| "note_refs_of (NoteRef t # ts) = data t # note_refs_of ts"
| "note_refs_of (_ # ts) = note_refs_of ts"

text \<open>
  The loop over \<open>windows(2)\<close> of a vector of cut indices: \<open>j - i\<close> is a
  \<open>usize\<close> subtraction and \<open>&xs[i..j]\<close> a checked slice; empty windows are
  skipped.
\<close>

fun run_slices :: "'a list \<Rightarrow> nat list \<Rightarrow> 'a list list result" where
  "run_slices xs (i # j # rest) =
     (if j < i then Inl Subtract_Overflow
      else if 0 < j - i then
        (if length xs < j then Inl Index_Out_Of_Bounds
         else map_sum id (Cons (slice xs i j)) (run_slices xs (j # rest)))
      else run_slices xs (j # rest))"
| "run_slices xs _ = Inr []"

definition line_of_tokens :: "token_type list \<Rightarrow> line result" where
  "line_of_tokens ts =
     map_sum id
       (\<lambda>runs. \<lparr>column = 0, segments = map segment_of_tokens runs, note_refs = note_refs_of ts\<rparr>)
       (run_slices ts (0 # state_changes (first_display_flags ts) 0 ts @ [length ts]))"

text \<open>The plain text of a line, the concatenation of its segments' texts.\<close>

definition line_text :: "line \<Rightarrow> string" where
  "line_text l = concat (map seg_text (segments l))"

subsection \<open>PostScript string literals\<close>

text \<open>
  The reading of a PostScript string body restricted to the escapes the program
  writes: a backslash before \<open>\\\<close>, \<open>(\<close> or \<open>)\<close> stands for that
  character.  A body is \<^emph>\<open>safe\<close> when none of the three reserved characters
  occurs unescaped, so that the literal ends where the program means it to.
\<close>

definition ps_reserved :: "char \<Rightarrow> bool" where
  "ps_reserved c \<longleftrightarrow> c = backslash \<or> c = CHR ''('' \<or> c = CHR '')''"

fun ps_unescape :: "string \<Rightarrow> string" where
  "ps_unescape (c # d # s) =
     (if c = backslash \<and> ps_reserved d then d # ps_unescape s else c # ps_unescape (d # s))"
| "ps_unescape s = s"

fun ps_safe :: "string \<Rightarrow> bool" where
  "ps_safe [] = True"
| "ps_safe (c # s) =
     (if c = backslash then (case s of d # s' \<Rightarrow> ps_reserved d \<and> ps_safe s' | [] \<Rightarrow> False)
      else \<not> ps_reserved c \<and> ps_safe s)"

subsection \<open>Lemmas: escaping\<close>

lemma replace_all_Nil [simp]: "replace_all c r [] = []"
  by (simp add: replace_all_def)

lemma replace_all_Cons [simp]:
  "replace_all c r (x # s) = (if x = c then r else [x]) @ replace_all c r s"
  by (simp add: replace_all_def)

lemma replace_all_append [simp]:
  "replace_all c r (s @ t) = replace_all c r s @ replace_all c r t"
  by (simp add: replace_all_def)

lemma ps_escape_Nil [simp]: "ps_escape [] = []"
  by (simp add: ps_escape_def)

lemma ps_escape_Cons [simp]:
  "ps_escape (x # s) = (if ps_reserved x then [backslash, x] else [x]) @ ps_escape s"
  by (auto simp: ps_escape_def ps_reserved_def)

lemma ps_unescape_escaped [simp]:
  "ps_reserved x \<Longrightarrow> ps_unescape (backslash # x # s) = x # ps_unescape s"
  by simp

lemma ps_unescape_plain [simp]:
  "\<not> ps_reserved x \<Longrightarrow> ps_unescape (x # s) = x # ps_unescape s"
  by (cases s) (auto simp: ps_reserved_def)

subsection \<open>Lemmas: the windows loop and the state changes\<close>

lemma run_slices_sorted:
  assumes "sorted (i # js)" and "last (i # js) \<le> length xs"
  shows "\<exists>ss. run_slices xs (i # js) = Inr ss \<and> concat ss = slice xs i (last (i # js))
           \<and> [] \<notin> set ss"
  using assms
proof (induction js arbitrary: i)
  case Nil
  then show ?case by simp
next
  case (Cons j rest)
  have ij: "i \<le> j" and jl: "j \<le> last (j # rest)" and srt: "sorted (j # rest)"
    using Cons.prems(1) by (auto simp: last_in_set)
  have bound: "last (j # rest) \<le> length xs"
    using Cons.prems(2) by simp
  obtain ss where ss: "run_slices xs (j # rest) = Inr ss"
    and cat: "concat ss = slice xs j (last (j # rest))" and ne: "[] \<notin> set ss"
    using Cons.IH [OF srt bound] by blast
  have jlen: "j \<le> length xs" using jl bound by simp
  show ?case
  proof (cases "i < j")
    case True
    have "slice xs i j \<noteq> []" using True jlen by (simp add: slice_def)
    then show ?thesis
      using True ij jl jlen ss cat ne by (simp add: slice_append_slice)
  next
    case False
    then show ?thesis using ij jlen ss cat ne by simp
  qed
qed

lemma state_changes_bounds:
  "k \<in> set (state_changes d i ts) \<Longrightarrow> i \<le> k \<and> k < i + length ts"
  by (induction d i ts rule: state_changes.induct) (auto split: if_splits)

lemma sorted_state_changes: "sorted (state_changes d i ts)"
  by (induction d i ts rule: state_changes.induct) (auto dest: state_changes_bounds)

lemma cut_points_sorted:
  "sorted (0 # state_changes d 0 ts @ [length ts])"
  using sorted_state_changes [of d 0 ts] state_changes_bounds [of _ d 0 ts]
  by (auto simp: sorted_append less_imp_le)

lemma length_token_text [simp]: "length (token_text t) = token_length t"
  by (cases t) simp_all

subsection \<open>Lemmas: a line built from tokens\<close>

text \<open>\<open>Line::from\<close> never panics, and its segments hold the tokens' text in order.\<close>

lemma line_of_tokens_Inr:
  "\<exists>l. line_of_tokens ts = Inr l
     \<and> concat (map seg_text (segments l)) = concat (map token_text ts)
     \<and> note_refs l = note_refs_of ts \<and> column l = 0"
proof -
  let ?cs = "0 # state_changes (first_display_flags ts) 0 ts @ [length ts]"
  obtain ss where ss: "run_slices ts ?cs = Inr ss" and cat: "concat ss = slice ts 0 (length ts)"
    using run_slices_sorted [of 0 "state_changes (first_display_flags ts) 0 ts @ [length ts]" ts]
      cut_points_sorted by auto
  have "concat (map seg_text (map segment_of_tokens ss)) = concat (map token_text (concat ss))"
    by (induction ss) (simp_all add: segment_of_tokens_def Let_def)
  then show ?thesis
    using ss cat by (simp add: line_of_tokens_def)
qed

lemma line_of_tokens_length:
  "line_of_tokens ts = Inr l \<Longrightarrow> line_length l = sum_list (map token_length ts)"
proof -
  assume l: "line_of_tokens ts = Inr l"
  then have "concat (map seg_text (segments l)) = concat (map token_text ts)"
    using line_of_tokens_Inr [of ts] by auto
  then have "length (concat (map seg_text (segments l))) = length (concat (map token_text ts))"
    by simp
  then show ?thesis
    by (simp add: line_length_def length_concat comp_def)
qed

lemma line_of_tokens_segments_ne:
  assumes "ts \<noteq> []" and "line_of_tokens ts = Inr l"
  shows "segments l \<noteq> []"
proof -
  let ?cs = "0 # state_changes (first_display_flags ts) 0 ts @ [length ts]"
  obtain ss where ss: "run_slices ts ?cs = Inr ss" and cat: "concat ss = slice ts 0 (length ts)"
    using run_slices_sorted [of 0 "state_changes (first_display_flags ts) 0 ts @ [length ts]" ts]
      cut_points_sorted by auto
  then have "ss \<noteq> []" using assms(1) by auto
  then show ?thesis using ss assms(2) by (auto simp: line_of_tokens_def)
qed

subsection \<open>Lemmas: safe literals\<close>

lemma ps_escape_roundtrip: "ps_unescape (ps_escape s) = s"
proof (induction s)
  case (Cons x s)
  then show ?case
    by (cases "ps_reserved x") simp_all
qed simp

lemma ps_escape_safe: "ps_safe (ps_escape s)"
  by (induction s) (auto simp: ps_reserved_def)

lemma ps_safe_escape_pair:
  "ps_safe (backslash # s) \<Longrightarrow> \<exists>d s'. s = d # s' \<and> ps_reserved d \<and> ps_safe s'"
  by (cases s) simp_all

lemma ps_safe_append: "ps_safe a \<Longrightarrow> ps_safe (a @ b) = ps_safe b"
proof (induction a rule: ps_safe.induct)
  case (2 c s)
  show ?case
  proof (cases "c = backslash")
    case True
    then obtain d s' where s: "s = d # s'" and d: "ps_reserved d" and s': "ps_safe s'"
      using "2.prems" ps_safe_escape_pair by blast
    show ?thesis
      using "2.IH"(1) [OF True s s'] True s d by simp
  next
    case False
    then show ?thesis
      using "2.prems" "2.IH"(2) [OF False] by simp
  qed
qed simp

lemma ps_unescape_append:
  "ps_safe a \<Longrightarrow> ps_unescape (a @ b) = ps_unescape a @ ps_unescape b"
proof (induction a rule: ps_safe.induct)
  case (2 c s)
  show ?case
  proof (cases "c = backslash")
    case True
    then obtain d s' where s: "s = d # s'" and d: "ps_reserved d" and s': "ps_safe s'"
      using "2.prems" ps_safe_escape_pair by blast
    show ?thesis
      using "2.IH"(1) [OF True s s'] True s d by simp
  next
    case False
    then have "\<not> ps_reserved c" and "ps_safe s"
      using "2.prems" by simp_all
    then show ?thesis
      using "2.IH"(2) [OF False] by simp
  qed
qed simp

lemma plain_string_ps:
  "\<forall>c\<in>set s. \<not> ps_reserved c \<Longrightarrow> ps_safe s \<and> ps_unescape s = s"
  by (induction s) (auto simp: ps_reserved_def)

text \<open>
  The tokenizer's side of the contract: a token's text holds no reserved
  character, or it is one of the three one-character tokens that
  \<open>From<&[TokenType]> for Segment\<close> escapes.
\<close>

definition token_escapable :: "token_type \<Rightarrow> bool" where
  "token_escapable t \<longleftrightarrow>
     (\<forall>c\<in>set (token_text t). \<not> ps_reserved c)
     \<or> (case t of Close d \<Rightarrow> data d = '')'' | Open d \<Rightarrow> data d = ''(''
         | Symbol d \<Rightarrow> data d = [backslash] | _ \<Rightarrow> False)"

lemma plain_not_single:
  "\<forall>c\<in>set s. \<not> ps_reserved c \<Longrightarrow> ps_reserved c0 \<Longrightarrow> s \<noteq> [c0]"
  by auto
lemma reserved_chars [simp]:
  "ps_reserved backslash" "ps_reserved (CHR ''('')" "ps_reserved (CHR '')'')"
  by (simp_all add: ps_reserved_def)
lemma token_ps_plain:
  "\<forall>c\<in>set (token_text t). \<not> ps_reserved c \<Longrightarrow> token_ps t = token_text t"
  by (cases t) (simp_all add: plain_not_single)
lemma token_ps_escapable:
  assumes "token_escapable t"
  shows "ps_safe (token_ps t) \<and> ps_unescape (token_ps t) = token_text t"
proof (cases "\<forall>c\<in>set (token_text t). \<not> ps_reserved c")
  case True
  then show ?thesis
    using token_ps_plain plain_string_ps by simp
next
  case False
  with assms have "case t of Close d \<Rightarrow> data d = '')'' | Open d \<Rightarrow> data d = ''(''
         | Symbol d \<Rightarrow> data d = [backslash] | _ \<Rightarrow> False"
    by (simp add: token_escapable_def)
  then show ?thesis
    by (cases t) simp_all
qed
lemma tokens_ps_escapable:
  "list_all token_escapable ts \<Longrightarrow>
     ps_safe (concat (map token_ps ts)) \<and> ps_unescape (concat (map token_ps ts)) = concat (map token_text ts)"
proof (induction ts)
  case (Cons t ts)
  then have t: "ps_safe (token_ps t) \<and> ps_unescape (token_ps t) = token_text t"
    using token_ps_escapable by simp
  with Cons show ?case
    by (simp add: ps_safe_append ps_unescape_append)
qed simp

text \<open>A body with a parenthesis and no backslash before it is not safe, whatever
  follows.\<close>

lemma ps_unsafe_paren:
  "backslash \<notin> set a \<Longrightarrow> CHR ''('' \<in> set a \<or> CHR '')'' \<in> set a \<Longrightarrow> \<not> ps_safe (a @ r)"
  by (induction a) auto

subsection \<open>Properties: a line from tokens\<close>

text \<open>
  C12.  \<open>Line::from(&[TokenType])\<close> never panics; the line starts at column 0,
  its text is the tokens' text in order, its length is the sum of the token lengths,
  and it lists the labels of its note references in order.
\<close>

theorem line_of_tokens_total:
  "\<exists>l. line_of_tokens ts = Inr l \<and> column l = 0
     \<and> line_text l = concat (map token_text ts)
     \<and> line_length l = sum_list (map token_length ts)
     \<and> note_refs l = note_refs_of ts"
  using line_of_tokens_Inr [of ts] line_of_tokens_length [of ts] by (auto simp: line_text_def)

subsection \<open>Properties: the PostScript of a segment\<close>

text \<open>
  C19.  Escaping round trip: \<open>Segment::from(String)\<close> writes a PostScript
  literal whose body is safe (every parenthesis and backslash escaped) and reads
  back, under PostScript's escapes, as the segment's own text.
\<close>

theorem segment_of_string_ps:
  "\<exists>b. ps (segment_of_string s) = ''('' @ b @ '') show ''
     \<and> ps_safe b \<and> ps_unescape b = seg_text (segment_of_string s)"
  by (simp add: segment_of_string_def ps_escape_safe ps_escape_roundtrip)

text \<open>
  C20.  Round trip of a token segment: when every token keeps the
  tokenizer's contract, the body \<open>From<&[TokenType]> for Segment\<close> writes is safe
  and reads back as the concatenated text of the tokens.
\<close>

theorem token_segment_ps_roundtrip:
  "list_all token_escapable ts \<Longrightarrow>
     ps_safe (concat (map token_ps ts)) \<and> ps_unescape (concat (map token_ps ts)) = concat (map token_text ts)"
  by (rule tokens_ps_escapable)

theorem token_segment_ps_roundtrip_witness:
  "list_all token_escapable [Open \<lparr>data = ''('', dpy = 0, frm = 0\<rparr>, word_token ''x'',
       Close \<lparr>data = '')'', dpy = 0, frm = 0\<rparr>]
   \<and> ps_unescape (concat (map token_ps [Open \<lparr>data = ''('', dpy = 0, frm = 0\<rparr>, word_token ''x'',
       Close \<lparr>data = '')'', dpy = 0, frm = 0\<rparr>])) = ''(x)''"
proof -
  have h: "list_all token_escapable [Open \<lparr>data = ''('', dpy = 0, frm = 0\<rparr>, word_token ''x'',
       Close \<lparr>data = '')'', dpy = 0, frm = 0\<rparr>]"
    by (simp add: token_escapable_def ps_reserved_def)
  show ?thesis
    using h token_segment_ps_roundtrip [OF h] by simp
qed

text \<open>
  C21.  The contract is not enforced for note references: the label of a
  note reference comes from the \<open>label\<close> attribute of a footnote element and is
  written into the PostScript literal unescaped, so a label with a parenthesis (and
  no backslash) makes the body of any segment it ends up in unsafe, whatever tokens
  keeping the contract precede it and whatever follows.
\<close>

theorem note_label_ps_unsafe:
  assumes "list_all token_escapable ts1" "backslash \<notin> set label"
    and "CHR ''('' \<in> set label \<or> CHR '')'' \<in> set label"
  shows "\<not> ps_safe (concat (map token_ps (ts1 @ NoteRef \<lparr>data = label, dpy = d, frm = f\<rparr> # ts2)))"
proof -
  have "ps_safe (concat (map token_ps ts1))"
    using tokens_ps_escapable [OF assms(1)] by simp
  moreover have "\<not> ps_safe (label @ concat (map token_ps ts2))"
    using ps_unsafe_paren [OF assms(2,3)] .
  ultimately show ?thesis
    by (simp add: ps_safe_append)
qed

theorem note_label_ps_unsafe_witness:
  "list_all token_escapable [word_token ''see''] \<and> backslash \<notin> set ''1)''
   \<and> (CHR ''('' \<in> set ''1)'' \<or> CHR '')'' \<in> set ''1)'')
   \<and> \<not> ps_safe (concat (map token_ps ([word_token ''see''] @ NoteRef \<lparr>data = ''1)'', dpy = SUP_flag, frm = 0\<rparr>
        # [word_token ''x''])))"
proof -
  have h1: "list_all token_escapable [word_token ''see'']"
    by (simp add: token_escapable_def ps_reserved_def)
  have h2: "backslash \<notin> set ''1)''"
    by simp
  have h3: "CHR ''('' \<in> set ''1)'' \<or> CHR '')'' \<in> set ''1)''"
    by simp
  show ?thesis
    using h1 h2 h3 note_label_ps_unsafe [OF h1 h2 h3, of SUP_flag 0 "[word_token ''x'']"] by blast
qed

end
