(* ===== verification/Blocks.thy ===== *)
theory Blocks
  imports Text_Lines
begin

text \<open>
  The data the compositor consumes and produces, from \<^verbatim>\<open>src/document.rs\<close>: the
  layout constants (columns and rows of the fixed typewriter page), the block tag,
  the line spacing, the \<open>Block\<close> (lines plus spacing metadata and the footnotes
  it declares, each a list of blocks), the \<open>Page\<close> (number, row capacity, content
  rows and footer rows, \<open>None\<close> being a blank row), and the two row counts
  \<open>Block::count_lines\<close> and \<open>count_lines(&BlockList)\<close>.  A block nests blocks
  through its footnotes, so it is a datatype with selectors rather than a record.
\<close>

subsection \<open>Layout constants\<close>

definition INDENT :: nat where "INDENT = 5"
definition LEFT_MARGIN :: nat where "LEFT_MARGIN = 10"
definition RIGHT_MARGIN :: nat where "RIGHT_MARGIN = 74"
definition SLUG_LINE :: nat where "SLUG_LINE = 62"
definition TOP_LINE :: nat where "TOP_LINE = 59"
definition MIDDLE_LINE :: nat where "MIDDLE_LINE = 27"
definition BOTTOM_LINE :: nat where "BOTTOM_LINE = 6"
definition PART_SKIP :: nat where "PART_SKIP = 5"
definition CHAPTER_SKIP :: nat where "CHAPTER_SKIP = 11"
definition SECTION_SKIP :: nat where "SECTION_SKIP = 5"

lemmas layout_constants =
  INDENT_def LEFT_MARGIN_def RIGHT_MARGIN_def SLUG_LINE_def TOP_LINE_def MIDDLE_LINE_def
  BOTTOM_LINE_def PART_SKIP_def CHAPTER_SKIP_def SECTION_SKIP_def

subsection \<open>Blocks and pages\<close>

datatype tag = Contact | Head | ToC

datatype line_spacing = Single | Double

text \<open>\<open>From<&str> for LineSpacing\<close>.\<close>

definition line_spacing_of_string :: "string \<Rightarrow> line_spacing" where
  "line_spacing_of_string s = (if s = ''double'' then Double else Single)"

datatype block =
  Block
    (lines: "line list")
    (footnotes: "(string \<times> block list) list")
    (line_spacing: line_spacing)
    (padding_before: int)
    (padding_after: nat)
    (tag: "tag option")

definition default_block :: block where
  "default_block = Block [] [] Single 0 0 None"

record page =
  number :: int
  height :: nat
  page_lines :: "line option list"
  footer :: "line option list"

subsection \<open>Row counts\<close>

text \<open>\<open>Block::count_lines\<close>: \<open>2n - 1\<close> rows double spaced, a \<open>usize\<close> subtraction
  that panics on a double-spaced block without lines.\<close>

definition block_count_lines :: "block \<Rightarrow> nat result" where
  "block_count_lines b =
     (case line_spacing b of
        Double \<Rightarrow> usize_sub (length (lines b) * 2) 1
      | Single \<Rightarrow> Inr (length (lines b)))"

text \<open>\<open>count_lines(&BlockList)\<close>: the blocks' rows and, between two blocks, the
  larger of the paddings, unless the later block forces a page break.\<close>

fun count_lines_loop :: "nat \<Rightarrow> nat \<Rightarrow> nat \<Rightarrow> block list \<Rightarrow> nat result" where
  "count_lines_loop i n lpa [] = Inr n"
| "count_lines_loop i n lpa (b # bs) =
     (let n1 = (if 0 < i \<and> 0 \<le> padding_before b then n + max (nat (padding_before b)) lpa else n)
      in bind_result (block_count_lines b)
           (\<lambda>c. count_lines_loop (Suc i) (n1 + c) (padding_after b) bs))"

definition count_lines :: "block list \<Rightarrow> nat result" where
  "count_lines bs = count_lines_loop 0 0 0 bs"

subsection \<open>Lemmas\<close>

lemma block_count_lines_Single [simp]:
  "line_spacing b = Single \<Longrightarrow> block_count_lines b = Inr (length (lines b))"
  by (simp add: block_count_lines_def)

lemma block_count_lines_Double [simp]:
  "line_spacing b = Double \<Longrightarrow> lines b \<noteq> [] \<Longrightarrow>
     block_count_lines b = Inr (2 * length (lines b) - 1)"
  by (simp add: block_count_lines_def usize_sub_def mult.commute)

lemma block_count_lines_Double_empty:
  "line_spacing b = Double \<Longrightarrow> lines b = [] \<Longrightarrow> block_count_lines b = Inl Subtract_Overflow"
  by (simp add: block_count_lines_def)

end
