(* ===== verification/Line_Breaking.thy ===== *)
theory Line_Breaking
  imports Blocks
begin

text \<open>
  The three line breakers of \<^verbatim>\<open>src/text.rs\<close>.  Each walks the tokens once and
  records \<open>splits\<close>, pairs of an index and a flag that says whether the token
  before the index is dropped; the windows of consecutive splits are then cut out
  of the token slice and turned into lines, empty windows skipped.  Fill breaks a
  discretionary break when the lookahead \<open>next_word_fits\<close> fails, balance when
  the line reaches the even cutoff, hang like fill but with the budget shortened by
  \<open>INDENT\<close> after the first break and an indent segment before every later line.
  The walk of the tokens is a recursion over the remaining tokens with the index
  \<open>i\<close> and the accumulated width \<open>x\<close> as parameters.
\<close>

subsection \<open>The lookahead\<close>

text \<open>The \<open>while j < tokens.len()\<close> loop of \<open>next_word_fits\<close>, over the tokens
  after \<open>i\<close>, with the accumulated width \<open>u\<close>.\<close>

fun nwf_scan :: "nat \<Rightarrow> token_type list \<Rightarrow> nat \<Rightarrow> bool" where
  "nwf_scan line_len [] u = (u \<le> line_len)"
| "nwf_scan line_len (t # ts) u =
     (if intersects (format_flags t) MLB then u \<le> line_len
      else if intersects (format_flags t) DLB then
        (if intersects (format_flags t) DOB then u \<le> line_len
         else u + token_length t \<le> line_len)
      else nwf_scan line_len ts (u + token_length t))"

text \<open>\<open>tokens[i]\<close> panics out of range.\<close>

definition next_word_fits :: "token_type list \<Rightarrow> nat \<Rightarrow> nat \<Rightarrow> nat \<Rightarrow> bool result" where
  "next_word_fits tokens line_len i x =
     (if i < length tokens
      then Inr (nwf_scan line_len (drop (Suc i) tokens) (x + token_length (tokens ! i)))
      else Inl Index_Out_Of_Bounds)"

subsection \<open>Cutting lines out of the splits\<close>

text \<open>
  The \<open>windows(2)\<close> loop shared by the three breakers: \<open>split[1].0 - 1\<close> and
  \<open>j - i\<close> are \<open>usize\<close> subtractions, \<open>&tokens[i..j]\<close> a checked slice.  The
  function \<open>f\<close> is applied to every line after the first pushed (\<open>emitted\<close> is
  \<open>!lines.is_empty()\<close>): the identity for fill and balance, the indent for hang.
\<close>

fun split_lines ::
  "(line \<Rightarrow> line) \<Rightarrow> bool \<Rightarrow> token_type list \<Rightarrow> (nat \<times> bool) list \<Rightarrow> line list result" where
  "split_lines f emitted tokens ((i, _) # (k, d) # rest) =
     (if d \<and> k = 0 then Inl Subtract_Overflow
      else
        (let j = (if d then k - 1 else k) in
         if j < i then Inl Subtract_Overflow
         else if 0 < j - i then
           (if length tokens < j then Inl Index_Out_Of_Bounds
            else bind_result (line_of_tokens (slice tokens i j))
                   (\<lambda>l. map_sum id (Cons (if emitted then f l else l))
                          (split_lines f True tokens ((k, d) # rest))))
         else split_lines f emitted tokens ((k, d) # rest)))"
| "split_lines f emitted tokens _ = Inr []"

subsection \<open>Fill\<close>

fun fill_splits :: "nat \<Rightarrow> token_type list \<Rightarrow> nat \<Rightarrow> nat \<Rightarrow> (nat \<times> bool) list" where
  "fill_splits line_len [] i x = []"
| "fill_splits line_len (t # ts) i x =
     (if intersects (format_flags t) MLB then (Suc i, True) # fill_splits line_len ts (Suc i) 0
      else if intersects (format_flags t) DLB then
        (if \<not> nwf_scan line_len ts (x + token_length t)
         then (Suc i, intersects (format_flags t) DOB) # fill_splits line_len ts (Suc i) 0
         else fill_splits line_len ts (Suc i) (x + token_length t))
      else fill_splits line_len ts (Suc i) (x + token_length t))"

definition linebreak_fill :: "token_type list \<Rightarrow> nat \<Rightarrow> line list result" where
  "linebreak_fill tokens line_len =
     split_lines (\<lambda>l. l) False tokens
       ((0, False) # fill_splits line_len tokens 0 0 @ [(length tokens, False)])"

subsection \<open>Balance\<close>

fun balance_splits :: "nat \<Rightarrow> token_type list \<Rightarrow> nat \<Rightarrow> nat \<Rightarrow> (nat \<times> bool) list" where
  "balance_splits cutoff [] i x = []"
| "balance_splits cutoff (t # ts) i x =
     (if intersects (format_flags t) MLB then (Suc i, True) # balance_splits cutoff ts (Suc i) 0
      else if intersects (format_flags t) DLB then
        (if cutoff \<le> x + token_length t
         then (Suc i, intersects (format_flags t) DOB) # balance_splits cutoff ts (Suc i) 0
         else balance_splits cutoff ts (Suc i) (x + token_length t))
      else balance_splits cutoff ts (Suc i) (x + token_length t))"

text \<open>\<open>text_length / line_len\<close> panics on a zero width; \<open>height\<close> is at least one,
  so the second division cannot.\<close>

definition linebreak_balance :: "token_type list \<Rightarrow> nat \<Rightarrow> line list result" where
  "linebreak_balance tokens line_len =
     (let text_length = sum_list (map token_length tokens) in
      bind_result (usize_div text_length line_len)
        (\<lambda>q. let height = q + 1; cutoff = text_length div height in
             split_lines (\<lambda>l. l) False tokens
               ((0, False) # balance_splits cutoff tokens 0 0 @ [(length tokens, False)])))"

subsection \<open>Hang\<close>

text \<open>
  \<open>n\<close> is \<open>splits.len()\<close>; after the push that makes it 2 the budget is cut by
  \<open>min(INDENT, line_len - 1)\<close>, whose inner subtraction panics on a zero
  budget (the outer one cannot underflow).
\<close>

fun hang_splits :: "nat \<Rightarrow> nat \<Rightarrow> token_type list \<Rightarrow> nat \<Rightarrow> nat \<Rightarrow> (nat \<times> bool) list result" where
  "hang_splits line_len n [] i x = Inr []"
| "hang_splits line_len n (t # ts) i x =
     (if intersects (format_flags t) MLB
      then map_sum id (Cons (Suc i, True)) (hang_splits line_len (Suc n) ts (Suc i) 0)
      else if intersects (format_flags t) DLB then
        (if \<not> nwf_scan line_len ts (x + token_length t) then
           (if Suc n = 2 then
              bind_result (usize_sub line_len 1)
                (\<lambda>m. map_sum id (Cons (Suc i, intersects (format_flags t) DOB))
                       (hang_splits (line_len - min INDENT m) (Suc n) ts (Suc i) 0))
            else map_sum id (Cons (Suc i, intersects (format_flags t) DOB))
                   (hang_splits line_len (Suc n) ts (Suc i) 0))
         else hang_splits line_len n ts (Suc i) (x + token_length t))
      else hang_splits line_len n ts (Suc i) (x + token_length t))"

definition indent_segment :: segment where
  "indent_segment = segment_of_string (replicate INDENT (CHR '' ''))"

definition add_indent :: "line \<Rightarrow> line" where
  "add_indent l = l\<lparr>segments := indent_segment # segments l\<rparr>"

definition linebreak_hang :: "token_type list \<Rightarrow> nat \<Rightarrow> line list result" where
  "linebreak_hang tokens first_line_length =
     bind_result (hang_splits first_line_length 1 tokens 0 0)
       (\<lambda>sp. split_lines add_indent False tokens ((0, False) # sp @ [(length tokens, False)]))"


subsection \<open>Auxiliary definitions for the proofs\<close>

text \<open>
  The windows a split list cuts (\<open>window_ranges\<close>), the condition under which the
  windows loop cannot panic (\<open>splits_ok\<close>), the positions it drops
  (\<open>discarded\<close>), the break tokens that may be dropped (\<open>discard_token\<close>), and
  the end of the first line fill cuts from a position (\<open>fill_first_end\<close>).
\<close>

fun splits_ok :: "nat \<Rightarrow> (nat \<times> bool) list \<Rightarrow> bool" where
  "splits_ok n ((i, _) # (k, d) # rest) = (i \<le> k \<and> (d \<longrightarrow> i < k) \<and> splits_ok n ((k, d) # rest))"
| "splits_ok n [(i, _)] = (i \<le> n)"
| "splits_ok n [] = True"

fun window_ranges :: "(nat \<times> bool) list \<Rightarrow> (nat \<times> nat) list" where
  "window_ranges ((i, _) # (k, d) # rest) = (i, if d then k - 1 else k) # window_ranges ((k, d) # rest)"
| "window_ranges _ = []"

definition window_line :: "token_type list \<Rightarrow> nat \<times> nat \<Rightarrow> line" where
  "window_line tokens r = projr (line_of_tokens (slice tokens (fst r) (snd r)))"

fun apply_rest :: "(line \<Rightarrow> line) \<Rightarrow> bool \<Rightarrow> line list \<Rightarrow> line list" where
  "apply_rest f e [] = []"
| "apply_rest f e (l # ls) = (if e then f l else l) # map f ls"

definition discarded :: "(nat \<times> bool) list \<Rightarrow> nat set" where
  "discarded sp = {k - 1 |k. (k, True) \<in> set (tl sp)}"

definition discard_token :: "token_type \<Rightarrow> bool" where
  "discard_token t \<longleftrightarrow> intersects (format_flags t) MLB
     \<or> (intersects (format_flags t) DLB \<and> intersects (format_flags t) DOB)"

definition fill_first_end :: "nat \<Rightarrow> token_type list \<Rightarrow> nat \<Rightarrow> nat \<Rightarrow> nat" where
  "fill_first_end w ts i x =
     (case fill_splits w ts i x of [] \<Rightarrow> i + length ts | (k, d) # _ \<Rightarrow> if d then k - 1 else k)"

subsection \<open>Lemmas: the windows of a split list\<close>


lemma splits_ok_le: "splits_ok n ((k, d) # rest) \<Longrightarrow> (k', d') \<in> set rest \<Longrightarrow> k \<le> k'"
  by (induction n "(k, d) # rest" arbitrary: k d rest rule: splits_ok.induct) force+

lemma splits_ok_bound: "splits_ok n ((k, d) # rest) \<Longrightarrow> k \<le> n"
  by (induction n "(k, d) # rest" arbitrary: k d rest rule: splits_ok.induct) auto

lemma splits_ok_discard_gt:
  "splits_ok n ((k, d) # rest) \<Longrightarrow> (k', True) \<in> set rest \<Longrightarrow> k < k'"
  by (induction n "(k, d) # rest" arbitrary: k d rest rule: splits_ok.induct) force+

lemma line_of_tokens_window:
  "line_of_tokens (slice tokens a j) = Inr (window_line tokens (a, j))"
  using line_of_tokens_Inr [of "slice tokens a j"] by (auto simp: window_line_def)

lemma split_lines_eq:
  "splits_ok (length tokens) sp \<Longrightarrow>
     split_lines f e tokens sp
       = Inr (apply_rest f e (map (window_line tokens) (filter (\<lambda>(a, j). a < j) (window_ranges sp))))"
proof (induction f e tokens sp rule: split_lines.induct)
  case (1 f e tokens i uu k d rest)
  have ok: "i \<le> k" "d \<longrightarrow> i < k" "splits_ok (length tokens) ((k, d) # rest)"
    using "1.prems" by simp_all
  have kn: "k \<le> length tokens"
    using ok(3) splits_ok_bound by blast
  let ?j = "if d then k - 1 else k"
  have ij: "i \<le> ?j" and jn: "?j \<le> length tokens" and dk: "d \<longrightarrow> 0 < k"
    using ok kn by auto
  show ?case
  proof (cases "i < ?j")
    case True
    have "split_lines f True tokens ((k, d) # rest)
       = Inr (apply_rest f True (map (window_line tokens) (filter (\<lambda>(a, j). a < j) (window_ranges ((k, d) # rest)))))"
      using "1.IH"(1) [of ?j] True ok(3) jn dk by (simp add: Let_def not_less)
    then show ?thesis
      using True ok jn by (cases "filter (\<lambda>(a, j). a < j) (window_ranges ((k, d) # rest))")
        (auto simp: Let_def line_of_tokens_window)
  next
    case False
    then have "?j = i" using ij by simp
    then show ?thesis
      using "1.IH"(2) [of ?j] False ok dk by (simp add: Let_def)
  qed
qed simp_all

lemma filter_upt_no_discard:
  assumes "\<forall>p\<in>D. k \<le> p"
  shows "filter (\<lambda>p. p \<notin> D) [i..<k] = [i..<k]"
proof -
  have "\<forall>p\<in>set [i..<k]. p \<notin> D"
    using assms by fastforce
  then show ?thesis
    by (rule filter_True)
qed

lemma window_ranges_upt:
  "splits_ok n sp \<Longrightarrow> sp \<noteq> [] \<Longrightarrow>
     concat (map (\<lambda>(a, j). [a..<j]) (window_ranges sp))
       = filter (\<lambda>p. p \<notin> discarded sp) [fst (hd sp)..<fst (last sp)]"
proof (induction sp rule: window_ranges.induct)
  case (1 i uu k d rest)
  let ?D' = "discarded ((k, d) # rest)"
  let ?D = "discarded ((i, uu) # (k, d) # rest)"
  let ?l = "fst (last ((k, d) # rest))"
  have ok: "i \<le> k" "d \<longrightarrow> i < k" "splits_ok n ((k, d) # rest)"
    using "1.prems" by simp_all
  have kl: "k \<le> ?l"
  proof -
    obtain a b where ab: "last ((k, d) # rest) = (a, b)"
      by (cases "last ((k, d) # rest)")
    have "last ((k, d) # rest) \<in> set ((k, d) # rest)"
      by (rule last_in_set) simp
    then have "(a, b) = (k, d) \<or> (a, b) \<in> set rest"
      using ab by simp
    then have "k \<le> a"
      using splits_ok_le [OF ok(3)] by auto
    then show ?thesis
      using ab by simp
  qed
  have D'ge: "\<forall>p\<in>?D'. k \<le> p"
    using splits_ok_discard_gt [OF ok(3)] by (fastforce simp: discarded_def)
  have D: "?D = (if d then {k - 1} else {}) \<union> ?D'"
    by (auto simp: discarded_def)
  have IH: "concat (map (\<lambda>(a, j). [a..<j]) (window_ranges ((k, d) # rest)))
      = filter (\<lambda>p. p \<notin> ?D') [k..<?l]"
    using "1.IH" ok(3) by simp
  have split: "[i..<?l] = [i..<k] @ [k..<?l]"
    using ok(1) kl by (rule upt_split3)
  have hi: "filter (\<lambda>p. p \<notin> ?D) [k..<?l] = filter (\<lambda>p. p \<notin> ?D') [k..<?l]"
  proof (rule filter_cong [OF refl])
    fix p
    assume "p \<in> set [k..<?l]"
    then have "k \<le> p" by simp
    then show "(p \<notin> ?D) = (p \<notin> ?D')"
      using D ok(2) by (cases d) auto
  qed
  have lo: "filter (\<lambda>p. p \<notin> ?D) [i..<k] = [i..<(if d then k - 1 else k)]"
  proof (cases d)
    case True
    then have "[i..<k] = [i..<k - 1] @ [k - 1]"
      using ok(2) upt_snoc_pred by blast
    moreover have "filter (\<lambda>p. p \<notin> ?D) [i..<k - 1] = [i..<k - 1]"
    proof (rule filter_upt_no_discard)
      show "\<forall>p\<in>?D. k - 1 \<le> p"
        using D D'ge True by force
    qed
    ultimately show ?thesis using True D by simp
  next
    case False
    then show ?thesis using D D'ge by (simp add: filter_upt_no_discard)
  qed
  show ?case
    using IH split hi lo by simp
qed simp_all


subsection \<open>Lemmas: fill\<close>


lemma fill_splits_bounds:
  "(k, d) \<in> set (fill_splits w ts i x) \<Longrightarrow> i < k \<and> k \<le> i + length ts"
  by (induction w ts i x rule: fill_splits.induct) (fastforce split: if_splits)+

lemma fill_splits_sorted: "sorted_wrt (\<lambda>a b. fst a < fst b) (fill_splits w ts i x)"
  by (induction w ts i x rule: fill_splits.induct) (auto dest: fill_splits_bounds)

lemma fill_splits_discard:
  "(k, True) \<in> set (fill_splits w ts i x) \<Longrightarrow> discard_token (ts ! (k - Suc i))"
proof (induction w ts i x rule: fill_splits.induct)
  case (2 w t ts i x)
  show ?case
  proof (cases "k = Suc i")
    case True
    with "2.prems" fill_splits_bounds [of k True w ts "Suc i"] show ?thesis
      by (auto simp: discard_token_def split: if_splits)
  next
    case False
    with "2.prems" have "(k, True) \<in> set (fill_splits w ts (Suc i) (if intersects (format_flags t) MLB
         \<or> (intersects (format_flags t) DLB \<and> \<not> nwf_scan w ts (x + token_length t)) then 0 else x + token_length t))"
      by (auto split: if_splits)
    moreover have "Suc i < k"
      using "2.prems" False by (auto dest: fill_splits_bounds split: if_splits)
    ultimately show ?thesis
      using "2.IH" by (auto simp: nth_Cons' split: if_splits)
  qed
qed simp

lemma fill_splits_mlb:
  "p < length ts \<Longrightarrow> intersects (format_flags (ts ! p)) MLB \<Longrightarrow>
     (i + Suc p, True) \<in> set (fill_splits w ts i x)"
proof (induction w ts i x arbitrary: p rule: fill_splits.induct)
  case (2 w t ts i x)
  show ?case
  proof (cases p)
    case 0
    with "2.prems" show ?thesis by simp
  next
    case (Suc q)
    with "2.prems" have "q < length ts" "intersects (format_flags (ts ! q)) MLB" by simp_all
    with "2.IH" Suc show ?thesis by (auto split: if_splits)
  qed
qed simp

lemma splits_ok_close:
  "sorted_wrt (\<lambda>a b. fst a < fst b) sp \<Longrightarrow> (\<forall>(k, d)\<in>set sp. i < k \<and> k \<le> n) \<Longrightarrow> i \<le> n \<Longrightarrow>
     splits_ok n ((i, d0) # sp @ [(n, False)])"
proof (induction sp arbitrary: i d0)
  case (Cons s sp)
  obtain k d where s: "s = (k, d)" by (cases s)
  have "splits_ok n ((k, d) # sp @ [(n, False)])"
    using Cons.prems s by (intro Cons.IH) auto
  then show ?case
    using Cons.prems s by auto
qed simp

lemma fill_splits_ok:
  "splits_ok (length ts) ((0, False) # fill_splits w ts 0 0 @ [(length ts, False)])"
  by (rule splits_ok_close) (auto simp: fill_splits_sorted dest: fill_splits_bounds)

lemma window_ranges_bound:
  "splits_ok n sp \<Longrightarrow> (a, j) \<in> set (window_ranges sp) \<Longrightarrow> j \<le> n"
  by (induction sp rule: window_ranges.induct) (auto dest: splits_ok_bound split: if_splits)

lemma apply_rest_id [simp]: "apply_rest (\<lambda>l. l) e ls = ls"
  by (cases ls) simp_all

lemma window_line_text:
  "line_text (window_line ts r) = concat (map token_text (slice ts (fst r) (snd r)))"
  using line_of_tokens_Inr [of "slice ts (fst r) (snd r)"]
  by (auto simp: window_line_def line_text_def)

lemma windows_text:
  assumes ok: "splits_ok (length ts) sp" and ne: "sp \<noteq> []"
  shows "concat (map line_text (map (window_line ts) (filter (\<lambda>(a, j). a < j) (window_ranges sp))))
       = concat (map (\<lambda>k. token_text (ts ! k)) (filter (\<lambda>p. p \<notin> discarded sp) [fst (hd sp)..<fst (last sp)]))"
proof -
  let ?W = "window_ranges sp"
  have "concat (map line_text (map (window_line ts) (filter (\<lambda>(a, j). a < j) ?W)))
      = concat (map (\<lambda>(a, j). concat (map token_text (slice ts a j))) (filter (\<lambda>(a, j). a < j) ?W))"
    by (simp add: window_line_text comp_def split_def)
  also have "\<dots> = concat (map (\<lambda>(a, j). concat (map token_text (slice ts a j))) ?W)"
    by (rule concat_map_filter_empty) (simp add: slice_def)
  also have "\<dots> = concat (map (\<lambda>(a, j). concat (map token_text (map ((!) ts) [a..<j]))) ?W)"
    using window_ranges_bound [OF ok] by (auto intro!: arg_cong [where f = concat] simp: slice_map_nth)
  also have "\<dots> = concat (map (\<lambda>k. token_text (ts ! k)) (concat (map (\<lambda>(a, j). [a..<j]) ?W)))"
    using concat_map_ranges [of token_text "(!) ts" ?W] by (simp add: comp_def)
  also have "\<dots> = concat (map (\<lambda>k. token_text (ts ! k))
      (filter (\<lambda>p. p \<notin> discarded sp) [fst (hd sp)..<fst (last sp)]))"
    using window_ranges_upt [OF ok ne] by simp
  finally show ?thesis .
qed

lemma fill_discarded:
  "discarded ((0, False) # fill_splits w ts 0 0 @ [(length ts, False)])
     = {k - 1 |k. (k, True) \<in> set (fill_splits w ts 0 0)}"
  by (auto simp: discarded_def)

lemma windows_segments_ne:
  assumes ok: "splits_ok (length ts) sp"
  shows "\<forall>l\<in>set (map (window_line ts) (filter (\<lambda>(a, j). a < j) (window_ranges sp))). segments l \<noteq> []"
proof
  fix l
  assume "l \<in> set (map (window_line ts) (filter (\<lambda>(a, j). a < j) (window_ranges sp)))"
  then obtain a j where aj: "(a, j) \<in> set (window_ranges sp)" "a < j" and l: "l = window_line ts (a, j)"
    by auto
  have "j \<le> length ts" using window_ranges_bound [OF ok aj(1)] .
  then have "slice ts a j \<noteq> []" using aj(2) by (simp add: slice_def)
  then show "segments l \<noteq> []"
    using l line_of_tokens_segments_ne line_of_tokens_window by blast
qed

text \<open>
  C2.  Fill covers its input: it never panics, the lines' text is the tokens'
  text in order with only some break tokens left out, each of them a mandatory
  break or a discretionary break marked discard-on-break, every mandatory break is
  left out, and no line is empty.
\<close>

theorem linebreak_fill_covers:
  "\<exists>ls ks. linebreak_fill ts w = Inr ls
     \<and> (\<forall>k\<in>ks. k < length ts \<and> discard_token (ts ! k))
     \<and> (\<forall>k<length ts. intersects (format_flags (ts ! k)) MLB \<longrightarrow> k \<in> ks)
     \<and> concat (map line_text ls)
         = concat (map (\<lambda>k. token_text (ts ! k)) (filter (\<lambda>k. k \<notin> ks) [0..<length ts]))
     \<and> (\<forall>l\<in>set ls. segments l \<noteq> [])"
proof -
  let ?sp = "(0, False) # fill_splits w ts 0 0 @ [(length ts, False)]"
  let ?ls = "map (window_line ts) (filter (\<lambda>(a, j). a < j) (window_ranges ?sp))"
  have ok: "splits_ok (length ts) ?sp" by (rule fill_splits_ok)
  have eq: "linebreak_fill ts w = Inr ?ls"
    using split_lines_eq [OF ok] by (simp add: linebreak_fill_def)
  have ks: "\<forall>k\<in>discarded ?sp. k < length ts \<and> discard_token (ts ! k)"
  proof
    fix k
    assume "k \<in> discarded ?sp"
    then obtain k' where k': "(k', True) \<in> set (fill_splits w ts 0 0)" and "k = k' - 1"
      by (auto simp: fill_discarded)
    then show "k < length ts \<and> discard_token (ts ! k)"
      using fill_splits_discard [OF k'] fill_splits_bounds [OF k'] by auto
  qed
  have mlb: "\<forall>k<length ts. intersects (format_flags (ts ! k)) MLB \<longrightarrow> k \<in> discarded ?sp"
  proof (intro allI impI)
    fix k
    assume "k < length ts" and "intersects (format_flags (ts ! k)) MLB"
    then have "(Suc k, True) \<in> set (fill_splits w ts 0 0)"
      using fill_splits_mlb [of k ts 0 w 0] by simp
    then show "k \<in> discarded ?sp"
      unfolding fill_discarded by force
  qed
  have cover: "concat (map line_text ?ls)
      = concat (map (\<lambda>k. token_text (ts ! k)) (filter (\<lambda>k. k \<notin> discarded ?sp) [0..<length ts]))"
    using windows_text [OF ok] by simp
  show ?thesis
    using eq ks mlb cover windows_segments_ne [OF ok] by blast
qed


theorem linebreak_fill_covers_witness:
  "intersects (format_flags ([word_token ''foo'', line_break_token, word_token ''bar''] ! 1)) MLB
   \<and> (\<exists>ls ks. linebreak_fill [word_token ''foo'', line_break_token, word_token ''bar''] 80 = Inr ls
        \<and> 1 \<in> ks
        \<and> concat (map line_text ls) = concat (map (\<lambda>k. token_text ([word_token ''foo'', line_break_token, word_token ''bar''] ! k))
                                          (filter (\<lambda>k. k \<notin> ks) [0..<length [word_token ''foo'', line_break_token, word_token ''bar'']])))"
proof -
  let ?ts = "[word_token ''foo'', line_break_token, word_token ''bar'']"
  have mlb: "intersects (format_flags (?ts ! 1)) MLB"
    by simp
  obtain ls ks where ls: "linebreak_fill ?ts 80 = Inr ls"
    and mk: "\<forall>k<length ?ts. intersects (format_flags (?ts ! k)) MLB \<longrightarrow> k \<in> ks"
    and cv: "concat (map line_text ls) = concat (map (\<lambda>k. token_text (?ts ! k)) (filter (\<lambda>k. k \<notin> ks) [0..<length ?ts]))"
    using linebreak_fill_covers [of ?ts 80] by blast
  have "1 \<in> ks"
  proof -
    have "1 < length ?ts" by simp
    then show ?thesis using mk mlb by blast
  qed
  then show ?thesis
    using mlb ls cv by blast
qed

subsection \<open>Lemmas: the first line of a fill\<close>


lemma fill_splits_restart:
  "fill_splits w ts i x = (k, d) # rest \<Longrightarrow> rest = fill_splits w (drop (k - i) ts) k 0"
proof (induction w ts i x arbitrary: k d rest rule: fill_splits.induct)
  case (2 w t ts i x)
  show ?case
  proof (cases "intersects (format_flags t) MLB
      \<or> (intersects (format_flags t) DLB \<and> \<not> nwf_scan w ts (x + token_length t))")
    case True
    then show ?thesis using "2.prems" by (auto split: if_splits)
  next
    case False
    then have eq: "fill_splits w ts (Suc i) (x + token_length t) = (k, d) # rest"
      using "2.prems" by (auto split: if_splits)
    then have "(k, d) \<in> set (fill_splits w ts (Suc i) (x + token_length t))"
      by simp
    then have "Suc i < k"
      using fill_splits_bounds by blast
    moreover have "rest = fill_splits w (drop (k - Suc i) ts) k 0"
      using "2.IH" eq False by (auto split: if_splits)
    ultimately show ?thesis
      by (simp add: Suc_diff_Suc [symmetric])
  qed
qed simp

lemma fill_first_end_bounds: "i \<le> fill_first_end w ts i x \<and> fill_first_end w ts i x \<le> i + length ts"
proof (cases "fill_splits w ts i x")
  case (Cons s rest)
  obtain k d where s: "s = (k, d)" by (cases s)
  then have "i < k \<and> k \<le> i + length ts"
    using Cons fill_splits_bounds [of k d w ts i x] by simp
  then show ?thesis
    using Cons s by (auto simp: fill_first_end_def)
qed (simp add: fill_first_end_def)

lemma fill_first_end_Cons:
  "fill_first_end w (t # ts) i x =
     (if intersects (format_flags t) MLB then i
      else if intersects (format_flags t) DLB \<and> \<not> nwf_scan w ts (x + token_length t)
      then (if intersects (format_flags t) DOB then i else Suc i)
      else fill_first_end w ts (Suc i) (x + token_length t))"
  by (simp add: fill_first_end_def split: list.split)

lemma take_first_end:
  "Suc i \<le> e \<Longrightarrow> take (e - i) (t # ts) = t # take (e - Suc i) ts"
  by (simp add: Suc_diff_Suc [symmetric])

text \<open>Once the lookahead has passed, the rest of the line fits.\<close>

lemma fill_first_end_fits:
  "nwf_scan w ts x \<Longrightarrow> x + sum_list (map token_length (take (fill_first_end w ts i x - i) ts)) \<le> w"
proof (induction w ts i x rule: fill_splits.induct)
  case (1 w i x)
  then show ?case by (simp add: fill_first_end_def)
next
  case (2 w t ts i x)
  let ?e = "fill_first_end w ts (Suc i) (x + token_length t)"
  show ?case
  proof (cases "intersects (format_flags t) MLB
      \<or> (intersects (format_flags t) DLB \<and> \<not> nwf_scan w ts (x + token_length t))")
    case True
    then show ?thesis
      using "2.prems" by (auto simp: fill_first_end_Cons split: if_splits)
  next
    case False
    then have nwf: "nwf_scan w ts (x + token_length t)"
      using "2.prems" by (auto split: if_splits)
    have e: "Suc i \<le> ?e" using fill_first_end_bounds by blast
    have "x + token_length t + sum_list (map token_length (take (?e - Suc i) ts)) \<le> w"
      using "2.IH" nwf False by (auto split: if_splits)
    then show ?thesis
      using False e by (simp add: fill_first_end_Cons take_first_end)
  qed
qed

text \<open>A discretionary break before the last token of a line means the line fits.\<close>

lemma fill_first_end_overflow:
  "p + 1 < fill_first_end w ts i x - i \<Longrightarrow> intersects (format_flags (ts ! p)) DLB \<Longrightarrow>
     x + sum_list (map token_length (take (fill_first_end w ts i x - i) ts)) \<le> w"
proof (induction w ts i x arbitrary: p rule: fill_splits.induct)
  case (1 w i x)
  then show ?case by (simp add: fill_first_end_def)
next
  case (2 w t ts i x)
  let ?e = "fill_first_end w ts (Suc i) (x + token_length t)"
  show ?case
  proof (cases "intersects (format_flags t) MLB
      \<or> (intersects (format_flags t) DLB \<and> \<not> nwf_scan w ts (x + token_length t))")
    case True
    then show ?thesis
      using "2.prems"(1) by (auto simp: fill_first_end_Cons split: if_splits)
  next
    case False
    have e: "Suc i \<le> ?e" using fill_first_end_bounds by blast
    have end_eq: "fill_first_end w (t # ts) i x = ?e"
      using False by (auto simp: fill_first_end_Cons)
    have "x + token_length t + sum_list (map token_length (take (?e - Suc i) ts)) \<le> w"
    proof (cases p)
      case 0
      then have "intersects (format_flags t) DLB" using "2.prems"(2) by simp
      then have "nwf_scan w ts (x + token_length t)" using False by simp
      then show ?thesis by (rule fill_first_end_fits)
    next
      case (Suc q)
      then have q: "q + 1 < ?e - Suc i" "intersects (format_flags (ts ! q)) DLB"
        using "2.prems" end_eq by simp_all
      show ?thesis
        using "2.IH" q False by (auto split: if_splits)
    qed
    then show ?thesis
      using end_eq e by (simp add: take_first_end)
  qed
qed

lemma fill_windows:
  "a \<le> length ts \<Longrightarrow>
   (b, j) \<in> set (window_ranges ((a, d0) # fill_splits w (drop a ts) a 0 @ [(length ts, False)])) \<Longrightarrow>
   j = fill_first_end w (drop b ts) b 0"
proof (induction "length ts - a" arbitrary: a d0 rule: less_induct)
  case less
  show ?case
  proof (cases "fill_splits w (drop a ts) a 0")
    case Nil
    then show ?thesis
      using less.prems by (auto simp: fill_first_end_def)
  next
    case (Cons s rest)
    obtain k d where s: "s = (k, d)" by (cases s)
    have kb: "a < k \<and> k \<le> length ts"
      using Cons s fill_splits_bounds [of k d w "drop a ts" a 0] less.prems(1) by simp
    have rest: "rest = fill_splits w (drop k ts) k 0"
      using fill_splits_restart [of w "drop a ts" a 0 k d rest] Cons s kb by simp
    have first: "fill_first_end w (drop a ts) a 0 = (if d then k - 1 else k)"
      using Cons s by (simp add: fill_first_end_def)
    from less.prems(2) have "(b, j) = (a, if d then k - 1 else k)
        \<or> (b, j) \<in> set (window_ranges ((k, d) # fill_splits w (drop k ts) k 0 @ [(length ts, False)]))"
      using Cons s rest by simp
    then show ?thesis
    proof
      assume "(b, j) = (a, if d then k - 1 else k)"
      then show ?thesis using first by simp
    next
      assume mem: "(b, j) \<in> set (window_ranges ((k, d) # fill_splits w (drop k ts) k 0 @ [(length ts, False)]))"
      have "length ts - k < length ts - a" using kb by arith
      then show ?thesis
        using less.hyps [of k d] kb mem by blast
    qed
  qed
qed

lemma sum_slice:
  "sum_list (map token_length (slice ts a j)) = sum_list (map token_length (take (j - a) (drop a ts)))"
  by (simp add: slice_def)

text \<open>
  C1.  Fill never exceeds the budget except for an unbreakable unit: a line
  longer than the budget is cut from a run of tokens with no discretionary break
  before its last token.
\<close>

theorem linebreak_fill_overflow:
  assumes fill: "linebreak_fill ts w = Inr ls" and l: "l \<in> set ls" and long: "w < line_length l"
  shows "\<exists>a j. a < j \<and> j \<le> length ts \<and> line_of_tokens (slice ts a j) = Inr l
           \<and> (\<forall>p. a \<le> p \<and> p + 1 < j \<longrightarrow> \<not> intersects (format_flags (ts ! p)) DLB)"
proof -
  let ?sp = "(0, False) # fill_splits w ts 0 0 @ [(length ts, False)]"
  have ok: "splits_ok (length ts) ?sp" by (rule fill_splits_ok)
  have "ls = map (window_line ts) (filter (\<lambda>(a, j). a < j) (window_ranges ?sp))"
    using fill split_lines_eq [OF ok] by (simp add: linebreak_fill_def)
  with l obtain a j where w: "(a, j) \<in> set (window_ranges ?sp)" and aj: "a < j"
    and lw: "l = window_line ts (a, j)"
    by auto
  have jn: "j \<le> length ts" using window_ranges_bound [OF ok w] .
  have j: "j = fill_first_end w (drop a ts) a 0"
    using fill_windows [of 0 ts a j False w] w by simp
  have line: "line_of_tokens (slice ts a j) = Inr l"
    using lw line_of_tokens_window by simp
  have len: "line_length l = sum_list (map token_length (take (j - a) (drop a ts)))"
    using line_of_tokens_length [OF line] by (simp add: sum_slice)
  have "\<forall>p. a \<le> p \<and> p + 1 < j \<longrightarrow> \<not> intersects (format_flags (ts ! p)) DLB"
  proof (intro allI impI notI)
    fix p
    assume p: "a \<le> p \<and> p + 1 < j" and dlb: "intersects (format_flags (ts ! p)) DLB"
    have "(p - a) + 1 < fill_first_end w (drop a ts) a 0 - a" using p j by linarith
    moreover have "intersects (format_flags (drop a ts ! (p - a))) DLB"
      using dlb p jn by simp
    ultimately have "0 + sum_list (map token_length (take (fill_first_end w (drop a ts) a 0 - a) (drop a ts))) \<le> w"
      by (rule fill_first_end_overflow)
    then show False using len long j by simp
  qed
  then show ?thesis using aj jn line by blast
qed

theorem linebreak_fill_overflow_witness:
  "linebreak_fill [word_token ''manuscript''] 4
     = Inr [\<lparr>column = 0, segments = [\<lparr>seg_text = ''manuscript'', ps = ''(manuscript) show ''\<rparr>], note_refs = []\<rparr>]
   \<and> (4::nat) < line_length \<lparr>column = 0, segments = [\<lparr>seg_text = ''manuscript'', ps = ''(manuscript) show ''\<rparr>], note_refs = []\<rparr>
   \<and> (\<exists>a j. a < j \<and> j \<le> length [word_token ''manuscript''] \<and> line_of_tokens (slice [word_token ''manuscript''] a j)
        = Inr \<lparr>column = 0, segments = [\<lparr>seg_text = ''manuscript'', ps = ''(manuscript) show ''\<rparr>], note_refs = []\<rparr>
        \<and> (\<forall>p. a \<le> p \<and> p + 1 < j \<longrightarrow> \<not> intersects (format_flags ([word_token ''manuscript''] ! p)) DLB))"
proof -
  let ?l = "\<lparr>column = 0, segments = [\<lparr>seg_text = ''manuscript'', ps = ''(manuscript) show ''\<rparr>], note_refs = []\<rparr>"
  have f: "linebreak_fill [word_token ''manuscript''] 4 = Inr [?l]"
    by code_simp
  have long: "(4::nat) < line_length ?l"
    by (simp add: line_length_def)
  have "?l \<in> set [?l]" by simp
  from linebreak_fill_overflow [OF f this long] f long show ?thesis
    by blast
qed

end
