(* ===== verification/Lookahead_Loop.thy ===== *)
theory Lookahead_Loop
  imports Line_Breaking "HOL-Library.While_Combinator"
begin

text \<open>
  The lookahead \<open>next_word_fits\<close> of \<^verbatim>\<open>src/text.rs\<close> as it is written: a
  \<open>while j < tokens.len()\<close> loop over the index \<open>j\<close> and the width \<open>u\<close>, whose body
  either returns or advances.  The loop is \<open>while_option\<close> on the state
  \<open>(j, u, returned)\<close>, where \<open>returned\<close> is the value of a \<open>return\<close> taken in the
  body (the loop stops when it is set); \<open>None\<close> from \<open>while_option\<close> would be a loop
  that never ends.  The theorem shows that the loop always ends, with the value of the
  structural recursion \<open>nwf_scan\<close> that the line breakers are modelled with.
\<close>

type_synonym nwf_state = "nat \<times> nat \<times> bool option"

definition nwf_cond :: "token_type list \<Rightarrow> nwf_state \<Rightarrow> bool" where
  "nwf_cond tokens s = (case s of (j, u, r) \<Rightarrow> r = None \<and> j < length tokens)"

definition nwf_body :: "token_type list \<Rightarrow> nat \<Rightarrow> nwf_state \<Rightarrow> nwf_state" where
  "nwf_body tokens line_len s =
     (case s of (j, u, r) \<Rightarrow>
        (let frm = format_flags (tokens ! j); len = token_length (tokens ! j)
         in if intersects frm MLB then (j, u, Some (u \<le> line_len))
            else if intersects frm DLB then
              (if intersects frm DOB then (j, u, Some (u \<le> line_len))
               else (j, u, Some (u + len \<le> line_len)))
            else (Suc j, u + len, None)))"

text \<open>The value returned: the body's \<open>return\<close>, or \<open>u <= line_length\<close> after the loop.\<close>

definition nwf_result :: "nat \<Rightarrow> nwf_state \<Rightarrow> bool" where
  "nwf_result line_len s = (case s of (j, u, r) \<Rightarrow> (case r of Some b \<Rightarrow> b | None \<Rightarrow> u \<le> line_len))"

definition next_word_fits_while :: "token_type list \<Rightarrow> nat \<Rightarrow> nat \<Rightarrow> nat \<Rightarrow> bool result option" where
  "next_word_fits_while tokens line_len i x =
     (if i < length tokens
      then map_option (\<lambda>s. Inr (nwf_result line_len s))
             (while_option (nwf_cond tokens) (nwf_body tokens line_len) (Suc i, x + token_length (tokens ! i), None))
      else Some (Inl Index_Out_Of_Bounds))"

subsection \<open>Lemmas\<close>

lemma nwf_stop: "while_option (nwf_cond tokens) (nwf_body tokens line_len) (j, u, Some b) = Some (j, u, Some b)"
  by (subst while_option_unfold) (simp add: nwf_cond_def)

lemma nwf_while_scan:
  "\<exists>s. while_option (nwf_cond tokens) (nwf_body tokens line_len) (j, u, None) = Some s
     \<and> nwf_result line_len s = nwf_scan line_len (drop j tokens) u"
proof (induction "length tokens - j" arbitrary: j u)
  case 0
  then show ?case
    by (subst while_option_unfold) (simp add: nwf_cond_def nwf_result_def)
next
  case (Suc k)
  then have j: "j < length tokens" and k: "k = length tokens - Suc j" by simp_all
  have drop: "drop j tokens = tokens ! j # drop (Suc j) tokens"
    using j by (simp add: Cons_nth_drop_Suc)
  have unfold: "while_option (nwf_cond tokens) (nwf_body tokens line_len) (j, u, None)
      = while_option (nwf_cond tokens) (nwf_body tokens line_len) (nwf_body tokens line_len (j, u, None))"
    using j by (subst while_option_unfold) (simp add: nwf_cond_def)
  show ?case
    using Suc.hyps(1) [OF k, of "u + token_length (tokens ! j)"]
    by (simp add: unfold drop nwf_body_def Let_def nwf_stop nwf_result_def)
qed

subsection \<open>Properties\<close>

text \<open>C29: the \<open>while\<close> loop of \<open>next_word_fits\<close> terminates on every input: for
  every token list, budget, index and width it returns, and its value is that of the
  structural recursion \<open>nwf_scan\<close> (an index out of range panics in both).\<close>

theorem next_word_fits_while_terminates:
  "next_word_fits_while tokens line_len i x = Some (next_word_fits tokens line_len i x)"
proof (cases "i < length tokens")
  case True
  obtain s where s: "while_option (nwf_cond tokens) (nwf_body tokens line_len) (Suc i, x + token_length (tokens ! i), None) = Some s"
    and r: "nwf_result line_len s = nwf_scan line_len (drop (Suc i) tokens) (x + token_length (tokens ! i))"
    using nwf_while_scan by blast
  show ?thesis
    using True by (simp add: next_word_fits_while_def next_word_fits_def s r)
next
  case False
  then show ?thesis by (simp add: next_word_fits_while_def next_word_fits_def)
qed

end
