(* ===== verification/Elements.thy ===== *)
theory Elements
  imports Blocks
begin

text \<open>
  The element tree of \<^verbatim>\<open>src/document.rs\<close>: the reader builds it from the XML
  manuscript, the formatter turns it into blocks.  \<open>ElementType\<close> is a datatype
  with one constructor per variant; the generic wrappers \<open>ContainerElement\<close>
  (attributes and child elements), \<open>TextElement\<close> (attributes, tokens and the
  footnote elements set aside) and \<open>EmptyElement\<close> (attributes only) become the
  constructor's arguments, and every attribute struct with more than one field is a
  record.  Five variants are renamed with a suffix because HOL or an earlier theory
  already has the name (\<open>Head\<close> and \<open>Contact\<close> are block tags, \<open>NoteRef\<close> a
  token kind, \<open>Sup\<close> the lattice supremum, \<open>P\<close> a common variable name).

  The navigation helpers and the slug-line text extraction (\<open>short_title\<close>,
  \<open>short_author_name\<close>) are modelled with \<open>String::to_uppercase\<close>, a Unicode
  case mapping of the standard library, as the parameter \<open>upper\<close>.
\<close>

subsection \<open>Attribute structs\<close>

record chapter_attrs =
  chapter_number :: int
  chapter_spacing :: line_spacing
  chapter_depth :: int

record footnote_attrs =
  footnote_label :: string
  footnote_spacing :: line_spacing

record li_attrs =
  li_number :: "int option"
  li_spacing :: line_spacing

record manuscript_attrs =
  ms_first_page :: int
  ms_word_count :: nat
  ms_has_structure :: bool

record ol_attrs =
  ol_start_no :: int
  ol_spacing :: line_spacing

record p_attrs =
  p_indent :: nat
  p_spacing :: line_spacing
  p_left_margin :: nat
  p_right_margin :: nat

record part_attrs =
  part_number :: int
  part_spacing :: line_spacing
  part_depth :: int

record section_attrs =
  section_number :: int
  section_spacing :: line_spacing
  section_padding_before :: int
  section_depth :: int

subsection \<open>The element tree\<close>

datatype element =
    Attribution line_spacing "token_type list" "element list"
  | Authors line_spacing "element list"
  | Backmatter string "element list"
  | BibRef line_spacing "token_type list" "element list"
  | Blockquote line_spacing "element list"
  | Body "element list"
  | Br
  | Chapter chapter_attrs "token_type list" "element list"
  | Contact_elem line_spacing "token_type list" "element list"
  | Div
  | Em "token_type list" "element list"
  | Footnote footnote_attrs "element list"
  | Frontmatter string "element list"
  | Gn "token_type list" "element list"
  | Head_elem "element list"
  | Li li_attrs "element list"
  | Manuscript manuscript_attrs "element list"
  | NoteRef_elem string
  | Ol ol_attrs "element list"
  | P_elem p_attrs "token_type list" "element list"
  | PageBreak
  | Part part_attrs "token_type list" "element list"
  | Person "element list"
  | Prefix "token_type list" "element list"
  | Section section_attrs "token_type list" "element list"
  | Sn "token_type list" "element list"
  | Sub "token_type list" "element list"
  | Subtitle line_spacing "token_type list" "element list"
  | Suffix bool "token_type list" "element list"
  | Sup_elem "token_type list" "element list"
  | Title line_spacing "token_type list" "element list"
  | Ul line_spacing "element list"

subsection \<open>Navigation\<close>

text \<open>\<open>ContainerElement<Authors>::first_sn\<close>: the surname of the first person that
  has one, scanning the people in order and each person's children in order.\<close>

fun person_sn :: "element list \<Rightarrow> (token_type list \<times> element list) option" where
  "person_sn [] = None"
| "person_sn (Sn ts fns # _) = Some (ts, fns)"
| "person_sn (_ # cs) = person_sn cs"

fun first_sn :: "element list \<Rightarrow> (token_type list \<times> element list) option" where
  "first_sn [] = None"
| "first_sn (Person cs # rest) = (case person_sn cs of Some sn \<Rightarrow> Some sn | None \<Rightarrow> first_sn rest)"
| "first_sn (_ # rest) = first_sn rest"

text \<open>\<open>ContainerElement<Head>::title\<close> and \<open>::authors\<close>, \<open>ContainerElement<Manuscript>::head\<close>
  and \<open>::body\<close>: the first child of the kind.\<close>

fun head_title :: "element list \<Rightarrow> (line_spacing \<times> token_type list \<times> element list) option" where
  "head_title [] = None"
| "head_title (Title sp ts fns # _) = Some (sp, ts, fns)"
| "head_title (_ # cs) = head_title cs"

fun head_authors :: "element list \<Rightarrow> (line_spacing \<times> element list) option" where
  "head_authors [] = None"
| "head_authors (Authors sp cs # _) = Some (sp, cs)"
| "head_authors (_ # cs) = head_authors cs"

fun manuscript_head :: "element list \<Rightarrow> element list option" where
  "manuscript_head [] = None"
| "manuscript_head (Head_elem cs # _) = Some cs"
| "manuscript_head (_ # cs) = manuscript_head cs"

fun manuscript_body :: "element list \<Rightarrow> element list option" where
  "manuscript_body [] = None"
| "manuscript_body (Body cs # _) = Some cs"
| "manuscript_body (_ # cs) = manuscript_body cs"

subsection \<open>Slug-line text\<close>

text \<open>The token copy both slug-line functions make: display flags cleared, words
  upper-cased, line breaks and note references dropped.\<close>

fun slug_token :: "(string \<Rightarrow> string) \<Rightarrow> token_type \<Rightarrow> token_type list" where
  "slug_token upper (Close t) = [Close (t\<lparr>dpy := 0\<rparr>)]"
| "slug_token upper (LineBreak _) = []"
| "slug_token upper (NoteRef _) = []"
| "slug_token upper (Open t) = [Open (t\<lparr>dpy := 0\<rparr>)]"
| "slug_token upper (Punct t) = [Punct (t\<lparr>dpy := 0\<rparr>)]"
| "slug_token upper (Space t) = [Space (t\<lparr>dpy := 0\<rparr>)]"
| "slug_token upper (Symbol t) = [Symbol (t\<lparr>dpy := 0\<rparr>)]"
| "slug_token upper (Word t) = [Word (t\<lparr>data := upper (data t), dpy := 0\<rparr>)]"

text \<open>The plain text \<open>short_title\<close> records for the same tokens (mixed case).\<close>

fun plain_text :: "token_type \<Rightarrow> string" where
  "plain_text (LineBreak _) = []"
| "plain_text (NoteRef _) = []"
| "plain_text t = token_text t"

text \<open>The scan of \<open>short_title\<close> for the index of the first line break of a
  balanced title: a mandatory break, or the first discretionary break at which the
  text so far reaches the cutoff (after it unless it is discarded).\<close>

fun title_break :: "nat \<Rightarrow> nat \<Rightarrow> nat \<Rightarrow> token_type list \<Rightarrow> nat" where
  "title_break cutoff i x [] = i"
| "title_break cutoff i x (t # ts) =
     (if intersects (format_flags t) MLB then i
      else if intersects (format_flags t) DLB then
        (if cutoff \<le> x + token_length t
         then (if intersects (format_flags t) DOB then i else Suc i)
         else title_break cutoff (Suc i) (x + token_length t) ts)
      else title_break cutoff (Suc i) (x + token_length t) ts)"

definition ellipsis_token :: token_type where
  "ellipsis_token = Punct \<lparr>data = ''. . .'', dpy = 0, frm = DLB\<rparr>"

text \<open>\<open>TextElement<Title>::short_title\<close>.\<close>

definition short_title :: "(string \<Rightarrow> string) \<Rightarrow> token_type list \<Rightarrow> segment option" where
  "short_title upper ts =
     (let line_len = RIGHT_MARGIN - LEFT_MARGIN - 4 * INDENT;
          text_length = sum_list (map token_length ts);
          line_count = text_length div line_len + 1;
          cutoff = text_length div line_count;
          n = length ts;
          j = title_break cutoff 0 0 ts
      in if 0 < j then
           (let toks = concat (map (slug_token upper) (take j ts));
                plain = concat (map plain_text (take j ts));
                toks' = (if j < n then toks @ [space_token 1, ellipsis_token] else toks);
                plain' = (if j < n then plain @ '' . . .'' else plain)
            in Some ((segment_of_tokens toks')\<lparr>seg_text := plain'\<rparr>))
         else None)"

text \<open>\<open>ContainerElement<Authors>::short_author_name\<close>.\<close>

definition short_author_name :: "(string \<Rightarrow> string) \<Rightarrow> element list \<Rightarrow> segment option" where
  "short_author_name upper people =
     (case first_sn people of
        Some (ts, _) \<Rightarrow> Some (segment_of_tokens (concat (map (slug_token upper) ts)))
      | None \<Rightarrow> None)"

text \<open>\<open>ContainerElement<Manuscript>::short_title\<close> and \<open>::short_author_name\<close>.\<close>

definition manuscript_short_title :: "(string \<Rightarrow> string) \<Rightarrow> element list \<Rightarrow> segment option" where
  "manuscript_short_title upper cs =
     Option.bind (manuscript_head cs) (\<lambda>h.
       Option.bind (head_title h) (\<lambda>(_, ts, _). short_title upper ts))"

definition manuscript_short_author_name :: "(string \<Rightarrow> string) \<Rightarrow> element list \<Rightarrow> segment option" where
  "manuscript_short_author_name upper cs =
     Option.bind (manuscript_head cs) (\<lambda>h.
       Option.bind (head_authors h) (\<lambda>(_, people). short_author_name upper people))"

end
