(* ===== verification/Compositor.thy ===== *)
theory Compositor
  imports Blocks
begin

text \<open>
  The page compositor of \<^verbatim>\<open>src/document/compositor.rs\<close>.  Its state is the
  \<open>Compositor\<close> struct: the set-aside contact block, the growing page list, the
  table of pending footnotes (a \<open>HashMap\<close>, here a map), the numbering state and the
  padding-after of the last block.  Every method that mutates \<open>self\<close> is a function
  from the state to \<open>compositor result\<close>; \<open>cur_page()\<close>'s \<open>assert!\<close>, the
  \<open>usize\<close> subtractions and the \<open>i32\<close> negation are the error branches.  The
  remainders the code computes in \<open>i32\<close> are computed in \<open>int\<close> (page and footer
  lengths stay far below \<open>2^31\<close>).
\<close>

record compositor =
  contact :: "block option"
  pages :: "page list"
  footnote_table :: "string \<rightharpoonup> block list"
  first_page :: int
  next_page_no :: int
  has_structure :: bool
  last_padding_after :: nat

definition compositor_new :: "int \<Rightarrow> bool \<Rightarrow> compositor" where
  "compositor_new fp hs =
     \<lparr>contact = None, pages = [], footnote_table = Map.empty, first_page = fp,
      next_page_no = -1, has_structure = hs, last_padding_after = 0\<rparr>"

subsection \<open>Pages\<close>

text \<open>\<open>start_a_new_page\<close> pushes a page numbered \<open>next_page_no\<close>, then increments the
  \<open>i32\<close> counter, which panics at \<open>i32::MAX\<close>.\<close>

definition start_a_new_page :: "compositor \<Rightarrow> compositor result" where
  "start_a_new_page c =
     (let c1 = c\<lparr>pages := pages c @ [\<lparr>number = next_page_no c, height = TOP_LINE - BOTTOM_LINE + 1,
                                      page_lines = [], footer = []\<rparr>]\<rparr>
      in bind_result (i32_add (next_page_no c1) 1) (\<lambda>n. Inr (c1\<lparr>next_page_no := n\<rparr>)))"

text \<open>\<open>cur_page()\<close> asserts that a page exists and borrows the last one.\<close>

definition cur_page :: "compositor \<Rightarrow> page result" where
  "cur_page c = (if pages c = [] then Inl Assertion_Failed else Inr (last (pages c)))"

definition update_cur_page :: "(page \<Rightarrow> page) \<Rightarrow> compositor \<Rightarrow> compositor result" where
  "update_cur_page f c =
     (if pages c = [] then Inl Assertion_Failed
      else Inr (c\<lparr>pages := butlast (pages c) @ [f (last (pages c))]\<rparr>))"

definition push_line :: "line option \<Rightarrow> page \<Rightarrow> page" where
  "push_line x p = p\<lparr>page_lines := page_lines p @ [x]\<rparr>"

definition push_footer :: "line option \<Rightarrow> page \<Rightarrow> page" where
  "push_footer x p = p\<lparr>footer := footer p @ [x]\<rparr>"

subsection \<open>Footnotes\<close>

text \<open>The rows the footnotes referenced by a line need: a separator row before every
  label after the first pending one, and \<open>count_lines\<close> of every pending footnote.\<close>

fun footer_height :: "(string \<rightharpoonup> block list) \<Rightarrow> nat \<Rightarrow> nat \<Rightarrow> string list \<Rightarrow> nat result" where
  "footer_height tbl j fh [] = Inr fh"
| "footer_height tbl j fh (label # labels) =
     (let fh1 = (if 0 < j then fh + 1 else fh) in
      case tbl label of
        Some fn \<Rightarrow> bind_result (count_lines fn) (\<lambda>n. footer_height tbl (Suc j) (fh1 + n) labels)
      | None \<Rightarrow> footer_height tbl j fh1 labels)"

text \<open>The rows of one footnote: every line, and a blank row after it when its block
  is double spaced, unless it is the last line of the last block.\<close>

fun place_footnote_lines ::
  "nat \<Rightarrow> nat \<Rightarrow> line_spacing \<Rightarrow> nat \<Rightarrow> nat \<Rightarrow> line list \<Rightarrow> page \<Rightarrow> page" where
  "place_footnote_lines j m sp k n [] p = p"
| "place_footnote_lines j m sp k n (l # ls) p =
     (let p1 = push_footer (Some l) p;
          p2 = (if (j < m - 1 \<or> k < n - 1) \<and> sp = Double then push_footer None p1 else p1)
      in place_footnote_lines j m sp (Suc k) n ls p2)"

fun place_footnote :: "nat \<Rightarrow> nat \<Rightarrow> block list \<Rightarrow> page \<Rightarrow> page" where
  "place_footnote j m [] p = p"
| "place_footnote j m (b # bs) p =
     place_footnote (Suc j) m bs
       (place_footnote_lines j m (line_spacing b) 0 (length (lines b)) (lines b) p)"

text \<open>Every referenced footnote still pending is removed from the table and appended
  to the footer, after a blank row when the footer is not empty.\<close>

fun place_footnotes ::
  "string list \<Rightarrow> (string \<rightharpoonup> block list) \<Rightarrow> page \<Rightarrow> (string \<rightharpoonup> block list) \<times> page" where
  "place_footnotes [] tbl p = (tbl, p)"
| "place_footnotes (label # labels) tbl p =
     (case tbl label of
        None \<Rightarrow> place_footnotes labels tbl p
      | Some blocks \<Rightarrow>
          (let p1 = (if footer p \<noteq> [] then push_footer None p else p)
           in place_footnotes labels (tbl(label := None)) (place_footnote 0 (length blocks) blocks p1)))"

subsection \<open>Composing lines and blocks\<close>

text \<open>The two remainders of \<open>compose_block\<close>: before the footnotes of a line are
  placed, and before the line itself.\<close>

definition footnote_room :: "page \<Rightarrow> nat \<Rightarrow> int" where
  "footnote_room p fh =
     int (height p) - int (length (page_lines p)) - 1 - int fh - 2
     - (if footer p \<noteq> [] then 1 + int (length (footer p)) else 0)"

definition line_room :: "page \<Rightarrow> int" where
  "line_room p =
     int (height p) - int (length (page_lines p)) - 1
     - (if footer p \<noteq> [] then int (length (footer p)) + 2 else 0)"

text \<open>The footnote phase of one line of \<open>compose_block\<close>.\<close>

definition compose_footnotes :: "line \<Rightarrow> compositor \<Rightarrow> compositor result" where
  "compose_footnotes l c =
     (if note_refs l = [] then Inr c
      else bind_result (footer_height (footnote_table c) 0 0 (note_refs l)) (\<lambda>fh.
           bind_result (cur_page c) (\<lambda>p.
             bind_result (if footnote_room p fh < 1 then start_a_new_page c else Inr c) (\<lambda>c1.
             bind_result (cur_page c1) (\<lambda>p1.
               let (tbl, p2) = place_footnotes (note_refs l) (footnote_table c1) p1 in
               update_cur_page (\<lambda>_. p2) (c1\<lparr>footnote_table := tbl\<rparr>))))))"

text \<open>One iteration of the line loop of \<open>compose_block\<close>: footnotes, the second
  remainder check, the line, and the blank row of double spacing.\<close>

definition compose_line :: "line_spacing \<Rightarrow> nat \<Rightarrow> nat \<Rightarrow> line \<Rightarrow> compositor \<Rightarrow> compositor result" where
  "compose_line sp page_height i l c =
     bind_result (compose_footnotes l c) (\<lambda>c2.
     bind_result (cur_page c2) (\<lambda>p.
       bind_result (if line_room p < 1 then start_a_new_page c2 else Inr c2) (\<lambda>c3.
       bind_result (update_cur_page (push_line (Some l)) c3) (\<lambda>c4.
       bind_result (cur_page c4) (\<lambda>p4.
         if i < page_height - 1 \<and> sp = Double then
           bind_result (usize_sub (height p4) (length (page_lines p4))) (\<lambda>r.
             if 1 < r then update_cur_page (push_line None) c4 else Inr c4)
         else Inr c4)))))"

fun compose_lines :: "line_spacing \<Rightarrow> nat \<Rightarrow> nat \<Rightarrow> line list \<Rightarrow> compositor \<Rightarrow> compositor result" where
  "compose_lines sp h i [] c = Inr c"
| "compose_lines sp h i (l # ls) c = bind_result (compose_line sp h i l c) (compose_lines sp h (Suc i) ls)"

definition compose_block :: "block \<Rightarrow> compositor \<Rightarrow> compositor result" where
  "compose_block b c =
     compose_lines (line_spacing b) (length (lines b)) 0 (lines b)
       (c\<lparr>footnote_table := fold (\<lambda>(label, fn) t. t(label \<mapsto> fn)) (footnotes b) (footnote_table c)\<rparr>)"

text \<open>The loop \<open>for _ in 0..padding { self.cur_page().lines.push(None) }\<close>.\<close>

fun pad_rows :: "nat \<Rightarrow> compositor \<Rightarrow> compositor result" where
  "pad_rows 0 c = Inr c"
| "pad_rows (Suc n) c = bind_result (update_cur_page (push_line None) c) (pad_rows n)"

text \<open>\<open>compose\<close>: a negative padding-before forces a page and leaves
  \<open>|padding_before| - 1\<close> rows; the padding applied is the larger of the block's
  and the last block's padding-after.  The page is started before the negation, which
  overflows on \<open>i32::MIN\<close>.\<close>

definition compose :: "block \<Rightarrow> compositor \<Rightarrow> compositor result" where
  "compose b c =
     bind_result
       (if padding_before b < 0
        then bind_result (start_a_new_page c) (\<lambda>c0.
               if padding_before b = - (2 ^ 31) then Inl Negate_Overflow
               else Inr (- padding_before b - 1, c0\<lparr>last_padding_after := 0\<rparr>))
        else Inr (padding_before b, c))
       (\<lambda>(pb, c1).
          let padding = max (nat pb) (last_padding_after c1)
          in bind_result (pad_rows padding (c1\<lparr>last_padding_after := padding_after b\<rparr>))
               (compose_block b))"

subsection \<open>Table of contents\<close>

definition toc_header :: line where
  "toc_header =
     (let center = LEFT_MARGIN + (RIGHT_MARGIN - LEFT_MARGIN) div 2;
          s = segment_of_string ''Table of Contents''; n = length (seg_text s)
      in \<lparr>column = center - n div 2 - n mod 2, segments = [s], note_refs = []\<rparr>)"

text \<open>The dot leader appended to the first line of a ToC entry: the spaces left
  between the entry and the page number (three \<open>usize\<close> subtractions), one or two
  spaces by the parity of the entry, dots in pairs, a space before an even-width
  page number.\<close>

definition toc_entry_line :: "int \<Rightarrow> line \<Rightarrow> line result" where
  "toc_entry_line page_no l =
     (let line_len = RIGHT_MARGIN - LEFT_MARGIN + 1; n = line_length l;
          page_no_string = int_to_string page_no; p = length page_no_string
      in bind_result (usize_sub line_len n) (\<lambda>r.
         bind_result (usize_sub r p) (\<lambda>spaces.
         bind_result (usize_sub spaces (if n mod 2 = 1 then 1 else 2)) (\<lambda>spaces_remaining.
           let before_pad = (if n mod 2 = 1 then '' '' else ''  '');
               after_pad = (if p mod 2 = 0 then '' '' else []);
               dots = concat (replicate (spaces_remaining div 2) ''. '')
           in Inr (l\<lparr>segments := segments l @
                      [segment_of_string (before_pad @ dots @ after_pad @ page_no_string)]\<rparr>)))))"

fun compose_toc_entries :: "(int \<times> block) list \<Rightarrow> compositor \<Rightarrow> compositor result" where
  "compose_toc_entries [] c = Inr c"
| "compose_toc_entries ((page_no, b) # rest) c =
     (case lines b of
        [] \<Rightarrow> compose_toc_entries rest c
      | l # ls \<Rightarrow>
          bind_result (toc_entry_line page_no l) (\<lambda>l'.
            let b' = Block (l' # ls) (footnotes b) (line_spacing b) (padding_before b) (padding_after b) (tag b)
            in bind_result (cur_page c) (\<lambda>p.
               bind_result (block_count_lines b') (\<lambda>cnt.
                 let remainder = int (height p) - int (length (page_lines p)) - 1 - 1
                 in bind_result (if remainder < int cnt
                                 then bind_result (start_a_new_page c) (\<lambda>c0. Inr (c0\<lparr>last_padding_after := 0\<rparr>))
                                 else Inr c) (\<lambda>c1.
                    bind_result (compose b' c1) (compose_toc_entries rest))))))"

definition compose_toc :: "(int \<times> block) list \<Rightarrow> compositor \<Rightarrow> compositor result" where
  "compose_toc toc c =
     bind_result (compose (Block [toc_header] [] Single (-1) CHAPTER_SKIP (Some ToC)) (c\<lparr>next_page_no := -1\<rparr>))
       (compose_toc_entries toc)"

subsection \<open>The run\<close>

text \<open>The block loop of \<open>run\<close>: contact blocks are set aside, head-matter is composed,
  ToC entries are recorded with the current page number.\<close>

fun run_blocks ::
  "block list \<Rightarrow> compositor \<times> (int \<times> block) list \<Rightarrow> (compositor \<times> (int \<times> block) list) result" where
  "run_blocks [] st = Inr st"
| "run_blocks (b # bs) (c, toc) =
     (case tag b of
        Some Contact \<Rightarrow> run_blocks bs (c\<lparr>contact := Some b\<rparr>, toc)
      | Some Head \<Rightarrow> bind_result (compose b c) (\<lambda>c'. run_blocks bs (c', toc))
      | Some ToC \<Rightarrow> bind_result (cur_page c) (\<lambda>p. run_blocks bs (c, toc @ [(number p, b)]))
      | None \<Rightarrow> bind_result (compose b c) (\<lambda>c'. run_blocks bs (c', toc)))"

definition run :: "block list \<Rightarrow> compositor \<Rightarrow> compositor result" where
  "run blocks c =
     bind_result
       (if pages c = []
        then (if has_structure c
              then bind_result (start_a_new_page c) (\<lambda>c0. Inr (c0\<lparr>next_page_no := first_page c\<rparr>))
              else start_a_new_page (c\<lparr>next_page_no := first_page c\<rparr>))
        else Inr c) (\<lambda>c1.
     bind_result (run_blocks blocks (c1, []))
       (\<lambda>(c2, toc). if toc \<noteq> [] then compose_toc toc c2 else Inr c2))"

end
