(* ===== verification/Lut.thy ===== *)
theory Lut
  imports Kosik_Prelude
begin

text \<open>
  The Roman numeral table of \<^verbatim>\<open>src/lut.rs\<close>: the whitespace-separated words
  of a data file, looked up by a 1-based index.  Reading the file is I/O; the model
  takes its text.  A HOL character is one Latin-1 code point, and in that range
  \<open>char::is_whitespace\<close> (Unicode \<open>White_Space\<close>) holds exactly for tab to carriage
  return, space, NEL (U+0085) and no-break space (U+00A0).
\<close>

record roman_numerals =
  numerals :: "string list"

definition is_whitespace :: "char \<Rightarrow> bool" where
  "is_whitespace c \<longleftrightarrow> (let k = (of_char c :: nat) in (9 \<le> k \<and> k \<le> 13) \<or> k = 32 \<or> k = 133 \<or> k = 160)"

text \<open>\<open>str::split_whitespace\<close>, the current word kept reversed.\<close>

fun split_ws :: "string \<Rightarrow> string \<Rightarrow> string list" where
  "split_ws cur [] = (if cur = [] then [] else [rev cur])"
| "split_ws cur (c # cs) =
     (if is_whitespace c then (if cur = [] then split_ws [] cs else rev cur # split_ws [] cs)
      else split_ws (c # cur) cs)"

definition split_whitespace :: "string \<Rightarrow> string list" where
  "split_whitespace s = split_ws [] s"

definition roman_numerals_new :: "string \<Rightarrow> roman_numerals" where
  "roman_numerals_new text = \<lparr>numerals = split_whitespace text\<rparr>"

text \<open>\<open>RomanNumerals::numeral\<close>.\<close>

definition numeral_of :: "roman_numerals \<Rightarrow> nat \<Rightarrow> string option" where
  "numeral_of rn i = (if 1 \<le> i \<and> i < length (numerals rn) then Some (numerals rn ! (i - 1)) else None)"

subsection \<open>Lemmas\<close>

lemma split_ws_word:
  "\<forall>c\<in>set w. \<not> is_whitespace c \<Longrightarrow> split_ws cur (w @ rest) = split_ws (rev w @ cur) rest"
  by (induction w arbitrary: cur) auto

lemma is_whitespace_newline [simp]: "is_whitespace (CHR 0x0A)"
  by (simp add: is_whitespace_def)

lemma split_whitespace_lines:
  "\<forall>w\<in>set ws. w \<noteq> [] \<and> (\<forall>c\<in>set w. \<not> is_whitespace c) \<Longrightarrow>
     split_whitespace (concat (map (\<lambda>w. w @ [CHR 0x0A]) ws)) = ws"
proof (induction ws)
  case (Cons w ws)
  then show ?case
    using split_ws_word [of w "[]" "CHR 0x0A # concat (map (\<lambda>w. w @ [CHR 0x0A]) ws)"]
    by (simp add: split_whitespace_def)
qed (simp add: split_whitespace_def)

subsection \<open>The lookup range\<close>

text \<open>A numeral file with one entry per line is read back as its entries, and
  \<open>numeral(i)\<close> returns entry \<open>i\<close> for \<open>1 <= i < n\<close>, but \<open>None\<close> for \<open>i = n\<close>:
  the bound \<open>i < len\<close> makes the last entry unreachable, although the documentation
  gives the range as 1 to the number of lines.\<close>

theorem numeral_table_lookup:
  assumes "\<forall>w\<in>set ws. w \<noteq> [] \<and> (\<forall>c\<in>set w. \<not> is_whitespace c)"
  shows "numerals (roman_numerals_new (concat (map (\<lambda>w. w @ [CHR 0x0A]) ws))) = ws
    \<and> (\<forall>i. 1 \<le> i \<and> i < length ws \<longrightarrow>
          numeral_of (roman_numerals_new (concat (map (\<lambda>w. w @ [CHR 0x0A]) ws))) i = Some (ws ! (i - 1)))
    \<and> numeral_of (roman_numerals_new (concat (map (\<lambda>w. w @ [CHR 0x0A]) ws))) (length ws) = None"
  using split_whitespace_lines [OF assms] by (simp add: roman_numerals_new_def numeral_of_def)

theorem numeral_table_lookup_witness:
  "numerals (roman_numerals_new (concat (map (\<lambda>w. w @ [CHR 0x0A]) [''I'', ''II'', ''III'']))) = [''I'', ''II'', ''III'']
   \<and> numeral_of (roman_numerals_new (concat (map (\<lambda>w. w @ [CHR 0x0A]) [''I'', ''II'', ''III'']))) 2 = Some ''II''
   \<and> numeral_of (roman_numerals_new (concat (map (\<lambda>w. w @ [CHR 0x0A]) [''I'', ''II'', ''III'']))) 3 = None"
proof -
  have h: "\<forall>w\<in>set [''I'', ''II'', ''III'']. w \<noteq> [] \<and> (\<forall>c\<in>set w. \<not> is_whitespace c)"
    by (simp add: is_whitespace_def)
  note l = numeral_table_lookup [OF h]
  have "numeral_of (roman_numerals_new (concat (map (\<lambda>w. w @ [CHR 0x0A]) [''I'', ''II'', ''III'']))) 2
      = Some ([''I'', ''II'', ''III''] ! (2 - 1))"
    using spec [OF conjunct1 [OF conjunct2 [OF l]], of 2] by simp
  then show ?thesis
    using conjunct1 [OF l] conjunct2 [OF conjunct2 [OF l]] by (simp add: eval_nat_numeral)
qed

end
