(* ===== verification/Formatter.thy ===== *)
theory Formatter
  imports Elements Line_Breaking Compositor Lut
begin

text \<open>
  The formatter of \<^verbatim>\<open>src/document/formatter.rs\<close> and its macro
  \<open>format_toc_entry!\<close> (\<^verbatim>\<open>formatter/macros.rs\<close>): one function per
  \<open>From\<close> conversion of an element to a \<open>Block\<close> or a \<open>BlockList\<close>, in the order
  of the source.  Each calls one of the line breakers and then sets the columns of the
  lines; the breakers' panics, the \<open>usize\<close> subtractions of the centring and
  margin arithmetic, and the \<open>u32\<close> addition of the section letter are the error
  values of the result.  The Roman numeral table is a parameter.
\<close>

subsection \<open>Columns\<close>

definition center :: nat where
  "center = LEFT_MARGIN + (RIGHT_MARGIN - LEFT_MARGIN) div 2"

text \<open>\<open>line.column = center - n / 2 - n % 2\<close>, two \<open>usize\<close> subtractions.\<close>

definition center_line :: "line \<Rightarrow> line result" where
  "center_line l =
     (let n = line_length l in
      bind_result (usize_sub center (n div 2)) (\<lambda>a.
      bind_result (usize_sub a (n mod 2)) (\<lambda>col. Inr (l\<lparr>column := col\<rparr>))))"

definition set_column :: "nat \<Rightarrow> line \<Rightarrow> line" where
  "set_column col l = l\<lparr>column := col\<rparr>"

definition prepend_segment :: "segment \<Rightarrow> line \<Rightarrow> line" where
  "prepend_segment s l = l\<lparr>segments := s # segments l\<rparr>"

definition spaces :: "nat \<Rightarrow> string" where
  "spaces n = replicate n (CHR '' '')"

text \<open>The width of the centred headings and of the balanced head matter.\<close>

definition narrow_width :: nat where
  "narrow_width = RIGHT_MARGIN - LEFT_MARGIN - 4 * INDENT + 1"

definition full_width :: nat where
  "full_width = RIGHT_MARGIN - LEFT_MARGIN + 1"

subsection \<open>Footnotes and paragraphs\<close>

text \<open>\<open>From<TextElement<P>> for Block\<close>, \<open>format_footnotes\<close> and its loop over
  the paragraphs of one footnote are mutually recursive: a paragraph formats the
  footnotes set aside in it.  The first paragraph of a footnote loses its indent and
  starts with the label, superscript, right-aligned in \<open>INDENT - 1\<close> columns
  (\<open>n -= chars - 1\<close>, taken only for labels longer than one byte, underflows for
  labels of more than five characters).\<close>

function (sequential) format_footnotes :: "element list \<Rightarrow> (string \<times> block list) list result"
  and footnote_blocks :: "string \<Rightarrow> nat \<Rightarrow> element list \<Rightarrow> block list result"
  and p_block :: "p_attrs \<Rightarrow> token_type list \<Rightarrow> element list \<Rightarrow> block result" where
  "format_footnotes [] = Inr []"
| "format_footnotes (Footnote a cs # es) =
     bind_result (footnote_blocks (footnote_label a) 0 cs) (\<lambda>bs.
     bind_result (format_footnotes es) (\<lambda>rest. Inr ((footnote_label a, bs) # rest)))"
| "format_footnotes (_ # es) = format_footnotes es"
| "footnote_blocks label i [] = Inr []"
| "footnote_blocks label i (P_elem a ts fns # cs) =
     (if i = 0 then
        bind_result (if 1 < length label then usize_sub (INDENT - 1) (length label - 1) else Inr (INDENT - 1))
          (\<lambda>n. bind_result (p_block (a\<lparr>p_indent := 0\<rparr>)
                  (Word \<lparr>data = spaces n @ label, dpy = SUP_flag, frm = 0\<rparr> # ts) fns) (\<lambda>b.
               bind_result (footnote_blocks label (Suc i) cs) (\<lambda>bs. Inr (b # bs))))
      else
        bind_result (p_block a ts fns) (\<lambda>b.
        bind_result (footnote_blocks label (Suc i) cs) (\<lambda>bs. Inr (b # bs))))"
| "footnote_blocks label i (_ # cs) = footnote_blocks label (Suc i) cs"
| "p_block a ts fns =
     (let tokens = (if 0 < p_indent a then space_token (p_indent a) # ts else ts) in
      bind_result (usize_sub (p_right_margin a) (p_left_margin a)) (\<lambda>d.
      bind_result (linebreak_fill tokens (d + 1)) (\<lambda>ls.
      bind_result (format_footnotes fns) (\<lambda>fs.
        Inr (Block (map (set_column (p_left_margin a)) ls) fs (p_spacing a) 0
               (if p_spacing a = Double then 1 else 0) None)))))"
  by pat_completeness auto

termination
  by (relation "measure (\<lambda>x. case x of Inl es \<Rightarrow> size_list size es
       | Inr (Inl (_, _, cs)) \<Rightarrow> size_list size cs
       | Inr (Inr (_, _, fns)) \<Rightarrow> Suc (size_list size fns))") auto

subsection \<open>The ToC entry macro\<close>

text \<open>\<open>format_toc_entry!(elem, tag)\<close>: the heading's tokens without note
  references, filled to the width left by the entry's indent (by depth), the first line
  prefixed with the tag and a full stop, the others indented.\<close>

definition toc_indent :: "int \<Rightarrow> nat" where
  "toc_indent depth = (if depth = 2 then INDENT * 3 else if depth = 1 then INDENT * 2 else INDENT)"

fun not_note_ref :: "token_type \<Rightarrow> bool" where
  "not_note_ref (NoteRef _) = False"
| "not_note_ref _ = True"

fun toc_entry_lines :: "nat \<Rightarrow> string \<Rightarrow> nat \<Rightarrow> line list \<Rightarrow> line list" where
  "toc_entry_lines indent tag_str i [] = []"
| "toc_entry_lines indent tag_str i (l # ls) =
     (if 0 < i then prepend_segment (segment_of_string (spaces indent)) (set_column LEFT_MARGIN l)
      else prepend_segment
             (segment_of_string (spaces (indent - INDENT) @ tag_str @ ''. ''
                @ (if 0 < int INDENT - int (length tag_str) - 2 then spaces (INDENT - length tag_str - 2) else [])))
             (set_column LEFT_MARGIN l))
     # toc_entry_lines indent tag_str (Suc i) ls"

definition format_toc_entry :: "int \<Rightarrow> token_type list \<Rightarrow> string \<Rightarrow> block result" where
  "format_toc_entry depth ts tag_str =
     (let indent = toc_indent depth;
          line_len = RIGHT_MARGIN - LEFT_MARGIN - INDENT * 2 - indent
      in bind_result (linebreak_fill (filter not_note_ref ts) line_len) (\<lambda>ls.
           Inr (Block (toc_entry_lines indent tag_str 0 ls) [] Single 0 1 (Some ToC))))"

text \<open>\<open>format_toc_entry!(label)\<close>: a one-line entry for front and back matter.\<close>

definition format_toc_label :: "string \<Rightarrow> block" where
  "format_toc_label label =
     Block [\<lparr>column = LEFT_MARGIN, segments = [segment_of_string label], note_refs = []\<rparr>] [] Single 0 1 (Some ToC)"

subsection \<open>Text elements\<close>

text \<open>The conversions of the text elements other than \<open>P\<close>, each the breaker it
  uses, the columns it sets and the block metadata it fixes.\<close>

definition balanced_centered :: "token_type list \<Rightarrow> line list result" where
  "balanced_centered ts = bind_result (linebreak_balance ts narrow_width) (map_result center_line)"

definition attribution_block :: "line_spacing \<Rightarrow> token_type list \<Rightarrow> element list \<Rightarrow> block result" where
  "attribution_block sp ts fns =
     bind_result (linebreak_balance ts narrow_width) (\<lambda>ls.
     bind_result (map_result (\<lambda>l. bind_result (usize_sub RIGHT_MARGIN (line_length l))
                                 (\<lambda>col. Inr (set_column col l))) ls) (\<lambda>ls'.
     bind_result (format_footnotes fns) (\<lambda>fs. Inr (Block ls' fs sp 1 1 None))))"

definition bibref_block :: "line_spacing \<Rightarrow> token_type list \<Rightarrow> element list \<Rightarrow> block result" where
  "bibref_block sp ts fns =
     bind_result (linebreak_hang ts full_width) (\<lambda>ls.
     bind_result (format_footnotes fns) (\<lambda>fs. Inr (Block (map (set_column LEFT_MARGIN) ls) fs sp 0 1 None)))"

definition chapter_blocks :: "chapter_attrs \<Rightarrow> token_type list \<Rightarrow> element list \<Rightarrow> block list result" where
  "chapter_blocks a ts fns =
     (let tag_str = int_to_string (chapter_number a);
          headline = line_of_segment (segment_of_string (''Chapter '' @ tag_str))
      in bind_result (center_line headline) (\<lambda>h.
         let head = Block [h] [] Single (-1) (if ts \<noteq> [] then 2 else CHAPTER_SKIP) None in
         if ts \<noteq> [] then
           bind_result (balanced_centered ts) (\<lambda>ls.
           bind_result (format_footnotes fns) (\<lambda>fs.
           bind_result (format_toc_entry (chapter_depth a) ts tag_str) (\<lambda>toc.
             Inr [head, Block ls fs (chapter_spacing a) 0 CHAPTER_SKIP None, toc])))
         else Inr [head]))"

definition contact_block :: "line_spacing \<Rightarrow> token_type list \<Rightarrow> element list \<Rightarrow> block result" where
  "contact_block sp ts fns =
     bind_result (linebreak_fill ts ((RIGHT_MARGIN - LEFT_MARGIN) div 2 + 1)) (\<lambda>ls.
     bind_result (format_footnotes fns) (\<lambda>fs.
       Inr (Block (map (set_column LEFT_MARGIN) ls) fs sp 0 2 (Some Contact))))"

text \<open>\<open>Em\<close>, \<open>Gn\<close>, \<open>Prefix\<close>, \<open>Sn\<close>, \<open>Sub\<close> and \<open>Sup\<close> have the same
  body: a full-width fill at the left margin, single spaced, without padding; the name
  parts are tagged as head matter.\<close>

definition em_block :: "token_type list \<Rightarrow> element list \<Rightarrow> block result" where
  "em_block ts fns =
     bind_result (linebreak_fill ts full_width) (\<lambda>ls.
     bind_result (format_footnotes fns) (\<lambda>fs.
       Inr (Block (map (set_column LEFT_MARGIN) ls) fs Single 0 0 None)))"

definition gn_block :: "token_type list \<Rightarrow> element list \<Rightarrow> block result" where
  "gn_block ts fns =
     bind_result (linebreak_fill ts full_width) (\<lambda>ls.
     bind_result (format_footnotes fns) (\<lambda>fs.
       Inr (Block (map (set_column LEFT_MARGIN) ls) fs Single 0 0 (Some Head))))"

definition part_tag :: "roman_numerals \<Rightarrow> int \<Rightarrow> string" where
  "part_tag rn n =
     (case numeral_of rn (if n < 0 then nat (2 ^ 64 + n) else nat n) of
        Some r \<Rightarrow> r
      | None \<Rightarrow> int_to_string n)"

definition part_blocks :: "roman_numerals \<Rightarrow> part_attrs \<Rightarrow> token_type list \<Rightarrow> element list \<Rightarrow> block list result" where
  "part_blocks rn a ts fns =
     (let tag_str = part_tag rn (part_number a);
          headline = line_of_segment (segment_of_string (''Part '' @ tag_str))
      in bind_result (center_line headline) (\<lambda>h.
         bind_result
           (if ts \<noteq> [] then
              bind_result (linebreak_balance ts narrow_width) (\<lambda>ls0.
              bind_result (map_result center_line ls0) (\<lambda>ls.
              bind_result (format_footnotes fns) (\<lambda>fs.
              bind_result (format_toc_entry (part_depth a) ts tag_str) (\<lambda>toc.
                Inr (1 + 2 + length ls0, [Block ls fs (part_spacing a) 1 PART_SKIP None, toc])))))
            else Inr (1, []))
           (\<lambda>(height, blocks).
              bind_result (usize_sub MIDDLE_LINE height) (\<lambda>d.
                Inr (Block [h] [] Single (- int (d + 1)) (if ts \<noteq> [] then 2 else PART_SKIP) None # blocks)))))"

definition prefix_block :: "token_type list \<Rightarrow> element list \<Rightarrow> block result" where
  "prefix_block ts fns =
     bind_result (linebreak_fill ts full_width) (\<lambda>ls.
     bind_result (format_footnotes fns) (\<lambda>fs.
       Inr (Block (map (set_column LEFT_MARGIN) ls) fs Single 0 0 (Some Head))))"

text \<open>The section letter: \<open>char::from_u32('@' as u32 + number as u32)\<close>, the
  \<open>u32\<close> addition overflowing for numbers from -64 to -1.  Code points 256 and above
  are not characters of the model; for them, as for numbers that give no character,
  the tag is the decimal number.\<close>

definition section_tag :: "int \<Rightarrow> string result" where
  "section_tag n =
     (let u = (if n < 0 then 2 ^ 32 + n else n) in
      if 2 ^ 32 \<le> 64 + u then Inl Add_Overflow
      else if 64 + u < 256 then Inr [char_of (nat (64 + u))]
      else Inr (int_to_string n))"

definition section_blocks :: "section_attrs \<Rightarrow> token_type list \<Rightarrow> element list \<Rightarrow> block list result" where
  "section_blocks a ts fns =
     bind_result (section_tag (section_number a)) (\<lambda>tag_str.
     bind_result (center_line (line_of_segment (segment_of_string (''Section '' @ tag_str)))) (\<lambda>h.
       let head = Block [h] [] Single (section_padding_before a) (if ts \<noteq> [] then 2 else SECTION_SKIP) None in
       if ts \<noteq> [] then
         bind_result (balanced_centered ts) (\<lambda>ls.
         bind_result (format_footnotes fns) (\<lambda>fs.
         bind_result (format_toc_entry (section_depth a) ts tag_str) (\<lambda>toc.
           Inr [head, Block ls fs (section_spacing a) 1 SECTION_SKIP None, toc])))
       else Inr [head]))"

definition sn_block :: "token_type list \<Rightarrow> element list \<Rightarrow> block result" where
  "sn_block ts fns =
     bind_result (linebreak_fill ts full_width) (\<lambda>ls.
     bind_result (format_footnotes fns) (\<lambda>fs.
       Inr (Block (map (set_column LEFT_MARGIN) ls) fs Single 0 0 (Some Head))))"

definition sub_block :: "token_type list \<Rightarrow> element list \<Rightarrow> block result" where
  "sub_block ts fns =
     bind_result (linebreak_fill ts full_width) (\<lambda>ls.
     bind_result (format_footnotes fns) (\<lambda>fs.
       Inr (Block (map (set_column LEFT_MARGIN) ls) fs Single 0 0 None)))"

definition subtitle_block :: "line_spacing \<Rightarrow> token_type list \<Rightarrow> element list \<Rightarrow> block result" where
  "subtitle_block sp ts fns =
     bind_result (balanced_centered ts) (\<lambda>ls.
     bind_result (format_footnotes fns) (\<lambda>fs. Inr (Block ls fs sp 0 2 (Some Head))))"

definition suffix_block :: "bool \<Rightarrow> token_type list \<Rightarrow> element list \<Rightarrow> block result" where
  "suffix_block comma ts fns =
     (let tokens = (if comma then punct_token '','' # space_token 1 # ts else ts) in
      bind_result (linebreak_fill tokens full_width) (\<lambda>ls.
      bind_result (format_footnotes fns) (\<lambda>fs.
        Inr (Block (map (set_column LEFT_MARGIN) ls) fs Single 0 0 (Some Head)))))"

definition sup_block :: "token_type list \<Rightarrow> element list \<Rightarrow> block result" where
  "sup_block ts fns =
     bind_result (linebreak_fill ts full_width) (\<lambda>ls.
     bind_result (format_footnotes fns) (\<lambda>fs.
       Inr (Block (map (set_column LEFT_MARGIN) ls) fs Single 0 0 None)))"

definition title_block :: "line_spacing \<Rightarrow> token_type list \<Rightarrow> element list \<Rightarrow> block result" where
  "title_block sp ts fns =
     bind_result (balanced_centered ts) (\<lambda>ls.
     bind_result (format_footnotes fns) (\<lambda>fs. Inr (Block ls fs sp 0 2 (Some Head))))"

subsection \<open>Empty elements\<close>

definition br_block :: block where
  "br_block = Block [\<lparr>column = LEFT_MARGIN, segments = [\<lparr>seg_text = [], ps = ''() show ''\<rparr>], note_refs = []\<rparr>]
     [] Single 0 0 None"

definition div_block :: block where
  "div_block = Block [\<lparr>column = center, segments = [\<lparr>seg_text = ''#'', ps = ''(#) show ''\<rparr>], note_refs = []\<rparr>]
     [] Single 1 1 None"

definition noteref_block :: "string \<Rightarrow> block" where
  "noteref_block label = Block [\<lparr>column = LEFT_MARGIN, segments = [segment_of_string label], note_refs = []\<rparr>]
     [] Single 0 0 None"

definition pagebreak_block :: block where
  "pagebreak_block = Block [] [] Single (-1) 0 None"

subsection \<open>Container elements\<close>

text \<open>Block fields set after the conversion.\<close>

definition with_padding_after :: "nat \<Rightarrow> block \<Rightarrow> block" where
  "with_padding_after n b = Block (lines b) (footnotes b) (line_spacing b) (padding_before b) n (tag b)"

definition with_padding_before :: "int \<Rightarrow> block \<Rightarrow> block" where
  "with_padding_before n b = Block (lines b) (footnotes b) (line_spacing b) n (padding_after b) (tag b)"

definition with_lines :: "line list \<Rightarrow> block \<Rightarrow> block" where
  "with_lines ls b = Block ls (footnotes b) (line_spacing b) (padding_before b) (padding_after b) (tag b)"

text \<open>\<open>From<ContainerElement<Person>> for (TokenList, ElementList)\<close>: the name
  parts joined by single spaces, note references as superscript tokens, a comma
  before a suffix that asks for one, and the footnotes set aside on the way.\<close>

fun person_child :: "nat \<Rightarrow> element \<Rightarrow> token_type list \<times> element list" where
  "person_child i (Footnote a cs) =
     ([NoteRef \<lparr>data = footnote_label a, dpy = SUP_flag, frm = 0\<rparr>], [Footnote a cs])"
| "person_child i (Gn ts fns) = ((if 0 < i then [space_token 1] else []) @ ts, fns)"
| "person_child i (NoteRef_elem label) = ([NoteRef \<lparr>data = label, dpy = SUP_flag, frm = 0\<rparr>], [])"
| "person_child i (Prefix ts fns) = ((if 0 < i then [space_token 1] else []) @ ts, fns)"
| "person_child i (Sn ts fns) = ((if 0 < i then [space_token 1] else []) @ ts, fns)"
| "person_child i (Suffix comma ts fns) =
     ((if comma then [punct_token '',''] else []) @ (if 0 < i then [space_token 1] else []) @ ts, fns)"
| "person_child i _ = ([], [])"

fun person_tokens :: "nat \<Rightarrow> element list \<Rightarrow> token_type list \<times> element list" where
  "person_tokens i [] = ([], [])"
| "person_tokens i (c # cs) =
     (let (ts0, fs0) = person_child i c; (ts, fs) = person_tokens (Suc i) cs in (ts0 @ ts, fs0 @ fs))"

text \<open>\<open>From<ContainerElement<Authors>> for Block\<close>: ``by'' and the people's
  names, separated by commas and ``and'' before the last.\<close>

fun authors_tokens :: "nat \<Rightarrow> nat \<Rightarrow> element list \<Rightarrow> token_type list \<times> element list" where
  "authors_tokens n i [] = ([], [])"
| "authors_tokens n i (c # cs) =
     (let sep = (if 0 < i then (if i = n - 1 then [space_token 1, word_token ''and'', space_token 1]
                                else [symbol_token '','', space_token 1]) else []);
          (ts0, fs0) = (case c of Person pcs \<Rightarrow> person_tokens 0 pcs | _ \<Rightarrow> ([], []));
          (ts, fs) = authors_tokens n (Suc i) cs
      in (sep @ ts0 @ ts, fs0 @ fs))"

definition authors_block :: "line_spacing \<Rightarrow> element list \<Rightarrow> block result" where
  "authors_block sp cs =
     (let (ts, fns) = authors_tokens (length cs) 0 cs in
      bind_result (balanced_centered ([word_token ''by'', space_token 1] @ ts)) (\<lambda>ls.
      bind_result (format_footnotes fns) (\<lambda>fs. Inr (Block ls fs sp 2 2 (Some Head)))))"

definition person_blocks :: "element list \<Rightarrow> block list result" where
  "person_blocks cs =
     (let (ts, fns) = person_tokens 0 cs in
      bind_result (balanced_centered ts) (\<lambda>ls.
      bind_result (format_footnotes fns) (\<lambda>fs. Inr [Block ls fs Single 3 3 (Some Head)])))"

text \<open>\<open>From<ContainerElement<Blockquote>> for BlockList\<close>: its paragraphs, the
  last child's with one blank row after it.\<close>

fun blockquote_loop :: "nat \<Rightarrow> nat \<Rightarrow> element list \<Rightarrow> block list result" where
  "blockquote_loop p_count i [] = Inr []"
| "blockquote_loop p_count i (P_elem a ts fns # cs) =
     bind_result (p_block a ts fns) (\<lambda>b.
     bind_result (blockquote_loop p_count (Suc i) cs) (\<lambda>bs.
       Inr ((if i = p_count - 1 then with_padding_after 1 b else b) # bs)))"
| "blockquote_loop p_count i (PageBreak # cs) =
     bind_result (blockquote_loop p_count (Suc i) cs) (\<lambda>bs. Inr (pagebreak_block # bs))"
| "blockquote_loop p_count i (_ # cs) = blockquote_loop p_count (Suc i) cs"

definition blockquote_blocks :: "element list \<Rightarrow> block list result" where
  "blockquote_blocks cs = blockquote_loop (length cs) 0 cs"

text \<open>\<open>From<ContainerElement<Li>> for BlockList\<close>: the item label (the number
  and a full stop, or an asterisk) padded to \<open>INDENT\<close> columns after an
  \<open>INDENT\<close>-wide margin, where \<open>max(INDENT - w - 2, 0)\<close> is a \<open>usize\<close>
  subtraction that underflows for labels of four or more characters; each paragraph's
  lines are moved left by two indents and prefixed with the label (first line of the
  first child) or with two indents of spaces.\<close>

definition li_prefix :: "int option \<Rightarrow> string result" where
  "li_prefix num =
     (case num of
        Some n \<Rightarrow>
          (let label = int_to_string n; w = length label in
           bind_result (usize_sub INDENT w) (\<lambda>a. bind_result (usize_sub a 2) (\<lambda>k.
             Inr (if 0 < max k 0 then spaces INDENT @ label @ ''. '' @ spaces (max k 0)
                  else spaces INDENT @ label @ ''. ''))))
      | None \<Rightarrow>
          (let k = max (INDENT - 2) 0 in
           Inr (if 0 < k then spaces INDENT @ ''* '' @ spaces k else spaces INDENT @ ''* '')))"

fun li_lines :: "string \<Rightarrow> nat \<Rightarrow> nat \<Rightarrow> line list \<Rightarrow> line list result" where
  "li_lines prefix i j [] = Inr []"
| "li_lines prefix i j (l # ls) =
     bind_result (usize_sub (column l) (INDENT * 2)) (\<lambda>c.
     bind_result (li_lines prefix i (Suc j) ls) (\<lambda>ls'.
       Inr (prepend_segment (segment_of_string (if i = 0 \<and> j = 0 then prefix else spaces (INDENT * 2)))
              (l\<lparr>column := c\<rparr>) # ls')))"

fun li_loop :: "string \<Rightarrow> nat \<Rightarrow> nat \<Rightarrow> element list \<Rightarrow> block list result" where
  "li_loop prefix p_count i [] = Inr []"
| "li_loop prefix p_count i (P_elem a ts fns # cs) =
     bind_result (p_block (if i = 0 then a\<lparr>p_indent := 0\<rparr> else a) ts fns) (\<lambda>b.
     bind_result (li_lines prefix i 0 (lines b)) (\<lambda>ls.
     bind_result (li_loop prefix p_count (Suc i) cs) (\<lambda>bs.
       let b' = with_lines ls b in
       Inr ((if i = p_count - 1 then with_padding_after 1 b' else b') # bs))))"
| "li_loop prefix p_count i (PageBreak # cs) =
     bind_result (li_loop prefix p_count (Suc i) cs) (\<lambda>bs. Inr (pagebreak_block # bs))"
| "li_loop prefix p_count i (_ # cs) = li_loop prefix p_count (Suc i) cs"

definition li_blocks :: "li_attrs \<Rightarrow> element list \<Rightarrow> block list result" where
  "li_blocks a cs = bind_result (li_prefix (li_number a)) (\<lambda>prefix. li_loop prefix (length cs) 0 cs)"

text \<open>\<open>From<ContainerElement<Ol>>\<close> and \<open>From<ContainerElement<Ul>>\<close>: the
  items' blocks and page breaks.\<close>

fun ol_blocks :: "element list \<Rightarrow> block list result" where
  "ol_blocks [] = Inr []"
| "ol_blocks (Li a cs # es) = bind_result (li_blocks a cs) (\<lambda>bs. bind_result (ol_blocks es) (\<lambda>rest. Inr (bs @ rest)))"
| "ol_blocks (PageBreak # es) = bind_result (ol_blocks es) (\<lambda>rest. Inr (pagebreak_block # rest))"
| "ol_blocks (_ # es) = ol_blocks es"

fun ul_blocks :: "element list \<Rightarrow> block list result" where
  "ul_blocks [] = Inr []"
| "ul_blocks (Li a cs # es) = bind_result (li_blocks a cs) (\<lambda>bs. bind_result (ul_blocks es) (\<lambda>rest. Inr (bs @ rest)))"
| "ul_blocks (PageBreak # es) = bind_result (ul_blocks es) (\<lambda>rest. Inr (pagebreak_block # rest))"
| "ul_blocks (_ # es) = ul_blocks es"

text \<open>\<open>From<ContainerElement<Body>> for BlockList\<close>: the blocks of the body's
  children in order; other kinds of child are skipped.\<close>

fun body_blocks :: "roman_numerals \<Rightarrow> element list \<Rightarrow> block list result" where
  "body_blocks rn [] = Inr []"
| "body_blocks rn (c # cs) =
     bind_result
       (case c of
          Attribution sp ts fns \<Rightarrow> map_sum id (\<lambda>b. [b]) (attribution_block sp ts fns)
        | Blockquote sp es \<Rightarrow> blockquote_blocks es
        | Br \<Rightarrow> Inr [br_block]
        | Chapter a ts fns \<Rightarrow> chapter_blocks a ts fns
        | Div \<Rightarrow> Inr [div_block]
        | Ol a es \<Rightarrow> ol_blocks es
        | P_elem a ts fns \<Rightarrow> map_sum id (\<lambda>b. [b]) (p_block a ts fns)
        | PageBreak \<Rightarrow> Inr [pagebreak_block]
        | Part a ts fns \<Rightarrow> part_blocks rn a ts fns
        | Section a ts fns \<Rightarrow> section_blocks a ts fns
        | Ul sp es \<Rightarrow> ul_blocks es
        | _ \<Rightarrow> Inr [])
       (\<lambda>bs. bind_result (body_blocks rn cs) (\<lambda>rest. Inr (bs @ rest)))"

text \<open>The loops over the children of back and front matter: as in the body, without
  chapters, parts and sections, and with bibliography entries in the back matter only.\<close>

fun backmatter_loop :: "element list \<Rightarrow> block list result" where
  "backmatter_loop [] = Inr []"
| "backmatter_loop (c # cs) =
     bind_result
       (case c of
          Attribution sp ts fns \<Rightarrow> map_sum id (\<lambda>b. [b]) (attribution_block sp ts fns)
        | BibRef sp ts fns \<Rightarrow> map_sum id (\<lambda>b. [b]) (bibref_block sp ts fns)
        | Blockquote sp es \<Rightarrow> blockquote_blocks es
        | Br \<Rightarrow> Inr [br_block]
        | Div \<Rightarrow> Inr [div_block]
        | Ol a es \<Rightarrow> ol_blocks es
        | P_elem a ts fns \<Rightarrow> map_sum id (\<lambda>b. [b]) (p_block a ts fns)
        | PageBreak \<Rightarrow> Inr [pagebreak_block]
        | Ul sp es \<Rightarrow> ul_blocks es
        | _ \<Rightarrow> Inr [])
       (\<lambda>bs. bind_result (backmatter_loop cs) (\<lambda>rest. Inr (bs @ rest)))"

fun frontmatter_loop :: "element list \<Rightarrow> block list result" where
  "frontmatter_loop [] = Inr []"
| "frontmatter_loop (c # cs) =
     bind_result
       (case c of
          Attribution sp ts fns \<Rightarrow> map_sum id (\<lambda>b. [b]) (attribution_block sp ts fns)
        | Blockquote sp es \<Rightarrow> blockquote_blocks es
        | Br \<Rightarrow> Inr [br_block]
        | Div \<Rightarrow> Inr [div_block]
        | Ol a es \<Rightarrow> ol_blocks es
        | P_elem a ts fns \<Rightarrow> map_sum id (\<lambda>b. [b]) (p_block a ts fns)
        | PageBreak \<Rightarrow> Inr [pagebreak_block]
        | Ul sp es \<Rightarrow> ul_blocks es
        | _ \<Rightarrow> Inr [])
       (\<lambda>bs. bind_result (frontmatter_loop cs) (\<lambda>rest. Inr (bs @ rest)))"

text \<open>\<open>From<ContainerElement<Backmatter>>\<close> and \<open>From<ContainerElement<Frontmatter>>\<close>:
  a centred heading on a new page, its one-line ToC entry, and the children.\<close>

definition matter_heading :: "string \<Rightarrow> block list result" where
  "matter_heading label =
     bind_result (center_line (line_of_segment (segment_of_string label))) (\<lambda>h.
       Inr [Block [h] [] Single (-1) CHAPTER_SKIP None, format_toc_label label])"

definition backmatter_blocks :: "string \<Rightarrow> element list \<Rightarrow> block list result" where
  "backmatter_blocks label cs =
     bind_result (matter_heading label) (\<lambda>hs. bind_result (backmatter_loop cs) (\<lambda>bs. Inr (hs @ bs)))"

definition frontmatter_blocks :: "string \<Rightarrow> element list \<Rightarrow> block list result" where
  "frontmatter_blocks label cs =
     bind_result (matter_heading label) (\<lambda>hs. bind_result (frontmatter_loop cs) (\<lambda>bs. Inr (hs @ bs)))"

text \<open>\<open>From<ContainerElement<Head>> for BlockList\<close>: the loop over the head's
  children keeps the last title, subtitle, authors and contact block and counts the
  rows below the title; the title is then padded so that the head matter sits about
  the middle of the page (\<open>MIDDLE_LINE - line_count\<close>, a \<open>usize\<close> subtraction).\<close>

record head_state =
  hs_title :: "block option"
  hs_subtitle :: "block option"
  hs_authors :: "block option"
  hs_contact :: "block option"
  hs_line_count :: nat

fun head_loop :: "nat \<Rightarrow> nat \<Rightarrow> element list \<Rightarrow> head_state \<Rightarrow> head_state result" where
  "head_loop n i [] st = Inr st"
| "head_loop n i (Authors sp cs # es) st =
     bind_result (authors_block sp cs) (\<lambda>b. bind_result (block_count_lines b) (\<lambda>k.
       head_loop n (Suc i) es (st\<lparr>hs_line_count := hs_line_count st + k, hs_authors := Some b\<rparr>)))"
| "head_loop n i (Contact_elem sp ts fns # es) st =
     bind_result (contact_block sp ts fns) (\<lambda>b. head_loop n (Suc i) es (st\<lparr>hs_contact := Some b\<rparr>))"
| "head_loop n i (Title sp ts fns # es) st =
     bind_result (title_block sp ts fns) (\<lambda>b.
     bind_result (if i < n - 1 then bind_result (block_count_lines b) (\<lambda>k. Inr (hs_line_count st + k + 2))
                  else Inr (hs_line_count st)) (\<lambda>lc.
       head_loop n (Suc i) es (st\<lparr>hs_line_count := lc, hs_title := Some b\<rparr>)))"
| "head_loop n i (Subtitle sp ts fns # es) st =
     bind_result (subtitle_block sp ts fns) (\<lambda>b.
     bind_result (if i < n - 1 then bind_result (block_count_lines b) (\<lambda>k. Inr (hs_line_count st + k + 2))
                  else Inr (hs_line_count st)) (\<lambda>lc.
       head_loop n (Suc i) es (st\<lparr>hs_line_count := lc, hs_subtitle := Some b\<rparr>)))"
| "head_loop n i (_ # es) st = head_loop n (Suc i) es st"

definition head_blocks :: "element list \<Rightarrow> block list result" where
  "head_blocks cs =
     bind_result (head_loop (length cs) 0 cs
                    \<lparr>hs_title = None, hs_subtitle = None, hs_authors = None, hs_contact = None, hs_line_count = 0\<rparr>)
       (\<lambda>st.
          bind_result
            (case hs_title st of
               Some b \<Rightarrow> bind_result (usize_sub MIDDLE_LINE (hs_line_count st))
                           (\<lambda>d. Inr [with_padding_before (int d) b])
             | None \<Rightarrow> Inr [])
            (\<lambda>title.
               Inr ((case hs_contact st of Some b \<Rightarrow> [b] | None \<Rightarrow> []) @ title
                    @ (case hs_subtitle st of Some b \<Rightarrow> [b] | None \<Rightarrow> [])
                    @ (case hs_authors st of Some b \<Rightarrow> [b] | None \<Rightarrow> []))))"

text \<open>\<open>From<ContainerElement<Manuscript>> for BlockList\<close>: the blocks of the
  head, front matter, body and back matter, in document order.\<close>

fun manuscript_blocks :: "roman_numerals \<Rightarrow> element list \<Rightarrow> block list result" where
  "manuscript_blocks rn [] = Inr []"
| "manuscript_blocks rn (c # cs) =
     bind_result
       (case c of
          Backmatter label es \<Rightarrow> backmatter_blocks label es
        | Body es \<Rightarrow> body_blocks rn es
        | Frontmatter label es \<Rightarrow> frontmatter_blocks label es
        | Head_elem es \<Rightarrow> head_blocks es
        | _ \<Rightarrow> Inr [])
       (\<lambda>bs. bind_result (manuscript_blocks rn cs) (\<lambda>rest. Inr (bs @ rest)))"

text \<open>A double-spaced paragraph at the margins, for the examples.\<close>

definition doc_para :: p_attrs where
  "doc_para = \<lparr>p_indent = 0, p_spacing = Double, p_left_margin = 10, p_right_margin = 74\<rparr>"

subsection \<open>Properties\<close>

text \<open>C17: a list item's label fills exactly two indents (ten columns) when the
  item number has at most three characters; for four or more, \<open>INDENT - w - 2\<close>
  underflows before \<open>max(.., 0)\<close> can clamp it, and formatting the item panics.\<close>

theorem li_prefix_width:
  "case li_prefix num of
     Inr p \<Rightarrow> length p = 2 * INDENT
   | Inl e \<Rightarrow> e = Subtract_Overflow \<and> (\<exists>n. num = Some n \<and> 3 < length (int_to_string n))"
  by (cases num) (auto simp: li_prefix_def Let_def usize_sub_def spaces_def INDENT_def)

text \<open>C18: a footnote label longer than \<open>INDENT\<close> characters makes
  \<open>format_footnotes\<close> panic on the footnote's first paragraph.\<close>

theorem footnote_long_label_panics:
  "INDENT < length (footnote_label a) \<Longrightarrow>
     format_footnotes (Footnote a (P_elem pa ts fns # cs) # es) = Inl Subtract_Overflow"
proof -
  assume "INDENT < length (footnote_label a)"
  then have "Suc 0 < length (footnote_label a)" "4 < length (footnote_label a) - Suc 0"
    by (simp_all add: INDENT_def)
  then show ?thesis
    by (simp add: usize_sub_def INDENT_def)
qed

theorem footnote_long_label_panics_witness:
  "INDENT < length (footnote_label \<lparr>footnote_label = ''abcdef'', footnote_spacing = Single\<rparr>)
   \<and> format_footnotes (Footnote \<lparr>footnote_label = ''abcdef'', footnote_spacing = Single\<rparr>
        (P_elem doc_para [word_token ''x''] [] # []) # []) = Inl Subtract_Overflow"
  using footnote_long_label_panics [of "\<lparr>footnote_label = ''abcdef'', footnote_spacing = Single\<rparr>" doc_para
      "[word_token ''x'']" "[]" "[]" "[]"]
  by (simp add: INDENT_def)

end
