(* ===== verification/Page_Frame.thy ===== *)
theory Page_Frame
  imports Compositor "HOL-Library.Sublist"
begin

text \<open>
  What every operation of the compositor does to the page list.  The state after an
  operation \<^emph>\<open>grows\<close> the state before it: the pages before the current one are
  unchanged, the current page keeps its number and height and only gains rows at the
  end of its content and footer areas, and every page started is numbered from
  \<open>next_page_no\<close> on, consecutively.  This is proved for every method of
  \<^verbatim>\<open>compositor.rs\<close> that mutates the pages and composed along the way the
  code calls them, up to \<open>run\<close>'s block loop; from it follows that a ToC entry
  records the page on which the preceding block's last line stays.
\<close>

subsection \<open>Auxiliary definitions for the proofs\<close>

text \<open>The page \<open>start_a_new_page\<close> pushes, rows appended to the current page, and
  the growth relations on pages and compositor states.\<close>

definition sample_line :: line where
  "sample_line = line_of_segment (segment_of_string ''a'')"

definition new_page :: "int \<Rightarrow> page" where
  "new_page n = \<lparr>number = n, height = TOP_LINE - BOTTOM_LINE + 1, page_lines = [], footer = []\<rparr>"

text \<open>The state \<open>start_a_new_page\<close> leaves when its \<open>i32\<close> increment does not
  overflow.\<close>

definition push_new_page :: "compositor \<Rightarrow> compositor" where
  "push_new_page c = c\<lparr>pages := pages c @ [new_page (next_page_no c)], next_page_no := next_page_no c + 1\<rparr>"

definition append_rows :: "line option list \<Rightarrow> compositor \<Rightarrow> compositor" where
  "append_rows rs c =
     c\<lparr>pages := butlast (pages c) @ [last (pages c)\<lparr>page_lines := page_lines (last (pages c)) @ rs\<rparr>]\<rparr>"

definition page_ext :: "page \<Rightarrow> page \<Rightarrow> bool" where
  "page_ext p q \<longleftrightarrow> number q = number p \<and> height q = height p
     \<and> prefix (page_lines p) (page_lines q) \<and> prefix (footer p) (footer q)"

fun consec :: "int \<Rightarrow> page list \<Rightarrow> bool" where
  "consec a [] = True"
| "consec a (p # qs) = (number p = a \<and> consec (a + 1) qs)"

definition grows :: "compositor \<Rightarrow> compositor \<Rightarrow> bool" where
  "grows c c' \<longleftrightarrow> pages c \<noteq> [] \<and> (\<exists>q rest. pages c' = butlast (pages c) @ q # rest
     \<and> page_ext (last (pages c)) q \<and> consec (next_page_no c) rest
     \<and> next_page_no c' = next_page_no c + int (length rest))"

definition footer_ext :: "page \<Rightarrow> page \<Rightarrow> bool" where
  "footer_ext p q \<longleftrightarrow> number q = number p \<and> height q = height p \<and> page_lines q = page_lines p
     \<and> prefix (footer p) (footer q)"

subsection \<open>Stepping the state\<close>

text \<open>\<open>cur_page\<close>, \<open>start_a_new_page\<close> and the pushes on a state with a page, and
  the branches of \<open>compose\<close>, \<open>compose_footnotes\<close> and \<open>compose_line\<close>.\<close>

lemma cur_page_last [simp]: "pages c \<noteq> [] \<Longrightarrow> cur_page c = Inr (last (pages c))"
  by (simp add: cur_page_def)

lemma update_cur_page_last:
  "pages c \<noteq> [] \<Longrightarrow> update_cur_page f c = Inr (c\<lparr>pages := butlast (pages c) @ [f (last (pages c))]\<rparr>)"
  by (simp add: update_cur_page_def)

lemma start_a_new_page_eq [simp]:
  "start_a_new_page c =
     (if - (2 ^ 31) \<le> next_page_no c + 1 \<and> next_page_no c + 1 < 2 ^ 31 then Inr (push_new_page c)
      else Inl Add_Overflow)"
  by (simp add: start_a_new_page_def push_new_page_def new_page_def i32_add_def Let_def)

lemma new_page_branch:
  "(if P then start_a_new_page c else Inr c) = Inr c1 \<Longrightarrow> c1 = c \<or> c1 = push_new_page c"
  by (auto split: if_splits)

lemma pages_push_new_page [simp]:
  "pages (push_new_page c) = pages c @ [new_page (next_page_no c)]"
  by (simp add: push_new_page_def)

lemma push_new_page_fields [simp]:
  "footnote_table (push_new_page c) = footnote_table c"
  "last_padding_after (push_new_page c) = last_padding_after c"
  "next_page_no (push_new_page c) = next_page_no c + 1"
  by (simp_all add: push_new_page_def)

lemma append_rows_pages_ne [simp]: "pages (append_rows rs c) \<noteq> []"
  by (simp add: append_rows_def)

lemma last_append_rows [simp]:
  "last (pages (append_rows rs c)) = last (pages c)\<lparr>page_lines := page_lines (last (pages c)) @ rs\<rparr>"
  by (simp add: append_rows_def)

lemma append_rows_append [simp]:
  "pages c \<noteq> [] \<Longrightarrow> append_rows ys (append_rows xs c) = append_rows (xs @ ys) c"
  by (simp add: append_rows_def)

lemma append_rows_Nil [simp]: "pages c \<noteq> [] \<Longrightarrow> append_rows [] c = c"
  by (simp add: append_rows_def)

lemma pages_append_rows:
  "pages (append_rows rs c) = butlast (pages c) @ [last (pages c)\<lparr>page_lines := page_lines (last (pages c)) @ rs\<rparr>]"
  by (simp add: append_rows_def)

lemma update_push_line [simp]:
  "pages c \<noteq> [] \<Longrightarrow> update_cur_page (push_line x) c = Inr (append_rows [x] c)"
  by (simp add: update_cur_page_def push_line_def append_rows_def)

lemma pad_rows_last:
  "pages c \<noteq> [] \<Longrightarrow> pad_rows n c =
     Inr (c\<lparr>pages := butlast (pages c) @ [last (pages c)\<lparr>page_lines := page_lines (last (pages c)) @ replicate n None\<rparr>]\<rparr>)"
proof (induction n arbitrary: c)
  case (Suc n)
  then show ?case by (simp add: update_cur_page_last push_line_def replicate_append_same)
qed simp

lemma pad_rows_append_rows: "pages c \<noteq> [] \<Longrightarrow> pad_rows n c = Inr (append_rows (replicate n None) c)"
  by (simp add: pad_rows_last append_rows_def)

lemma compose_nonneg:
  "pages c \<noteq> [] \<Longrightarrow> 0 \<le> padding_before b \<Longrightarrow>
     compose b c = compose_block b
       (c\<lparr>last_padding_after := padding_after b,
          pages := butlast (pages c) @ [last (pages c)\<lparr>page_lines := page_lines (last (pages c))
            @ replicate (max (nat (padding_before b)) (last_padding_after c)) None\<rparr>]\<rparr>)"
  by (simp add: compose_def pad_rows_last)

lemma compose_footnotes_no_refs [simp]: "note_refs l = [] \<Longrightarrow> compose_footnotes l c = Inr c"
  by (simp add: compose_footnotes_def)

lemma line_room_append_rows [simp]:
  "line_room (p\<lparr>page_lines := page_lines p @ rs\<rparr>) = line_room p - int (length rs)"
  by (simp add: line_room_def)

lemma line_room_height:
  "line_room p \<le> int (height p) - int (length (page_lines p)) - 1"
  by (simp add: line_room_def)

lemma compose_footnotes_refs:
  assumes "pages c \<noteq> []" "note_refs l \<noteq> []" "footer_height (footnote_table c) 0 0 (note_refs l) = Inr fh"
  shows "compose_footnotes l c =
    bind_result (if footnote_room (last (pages c)) fh < 1 then start_a_new_page c else Inr c) (\<lambda>c1.
      let r = place_footnotes (note_refs l) (footnote_table c1) (last (pages c1))
      in Inr (c1\<lparr>footnote_table := fst r, pages := butlast (pages c1) @ [snd r]\<rparr>))"
  using assms
  by (cases "footnote_room (last (pages c)) fh < 1")
    (simp_all add: compose_footnotes_def Let_def split_def update_cur_page_def)

lemma compose_line_room:
  assumes "compose_footnotes l c = Inr c2" "pages c2 \<noteq> []" "1 \<le> line_room (last (pages c2))"
  shows "compose_line sp h i l c =
     (if i < h - 1 \<and> sp = Double \<and> 1 < int (height (last (pages c2))) - int (length (page_lines (last (pages c2)))) - 1
      then Inr (append_rows [Some l, None] c2) else Inr (append_rows [Some l] c2))"
proof -
  have "length (page_lines (last (pages c2))) + 1 \<le> height (last (pages c2))"
    using assms(3) by (simp add: line_room_def split: if_splits)
  then show ?thesis
    using assms by (auto simp: compose_line_def usize_sub_def line_room_def split: if_splits)
qed

lemma compose_line_plain:
  assumes "pages c \<noteq> []" "note_refs l = []" "1 \<le> line_room (last (pages c))"
  shows "compose_line sp h i l c =
     (if i < h - 1 \<and> sp = Double \<and> 1 < int (height (last (pages c))) - int (length (page_lines (last (pages c)))) - 1
      then Inr (append_rows [Some l, None] c) else Inr (append_rows [Some l] c))"
  using assms by (simp add: compose_line_room)

subsection \<open>Footnote placement only extends the footer\<close>

lemma footer_ext_refl [simp]: "footer_ext p p"
  by (simp add: footer_ext_def)

lemma footer_ext_trans: "footer_ext p q \<Longrightarrow> footer_ext q r \<Longrightarrow> footer_ext p r"
  by (auto simp: footer_ext_def intro: prefix_order.trans)

lemma footer_ext_push [simp]: "footer_ext p (push_footer x p)"
  by (simp add: footer_ext_def push_footer_def)

lemma footer_ext_push_trans [intro]: "footer_ext p q \<Longrightarrow> footer_ext p (push_footer x q)"
  by (auto simp: footer_ext_def push_footer_def intro: prefix_order.trans)

lemma footer_ext_page_ext: "footer_ext p q \<Longrightarrow> page_ext p q"
  by (simp add: footer_ext_def page_ext_def)

lemma place_footnote_lines_ext: "footer_ext p (place_footnote_lines j m sp k n ls p)"
proof (induction j m sp k n ls p rule: place_footnote_lines.induct)
  case (2 j m sp k n l ls p)
  have "footer_ext p (if (j < m - 1 \<or> k < n - 1) \<and> sp = Double
      then push_footer None (push_footer (Some l) p) else push_footer (Some l) p)"
    by auto
  with 2 show ?case by (auto simp: Let_def intro: footer_ext_trans)
qed simp

lemma place_footnote_ext: "footer_ext p (place_footnote j m bs p)"
  by (induction j m bs p rule: place_footnote.induct) (auto intro: footer_ext_trans place_footnote_lines_ext)

lemma place_footnotes_ext: "footer_ext p (snd (place_footnotes labels tbl p))"
proof (induction labels tbl p rule: place_footnotes.induct)
  case (2 label labels tbl p)
  show ?case
  proof (cases "tbl label")
    case (Some bs)
    let ?q = "place_footnote 0 (length bs) bs (if footer p \<noteq> [] then push_footer None p else p)"
    have "footer_ext p ?q"
      by (auto intro: footer_ext_trans [OF _ place_footnote_ext])
    moreover have "footer_ext ?q (snd (place_footnotes labels (tbl(label := None)) ?q))"
      using "2.IH"(2) [OF Some refl] by (simp add: Let_def fun_upd_def)
    ultimately show ?thesis
      using Some by (simp add: Let_def footer_ext_trans)
  qed (use 2 in simp)
qed simp

subsection \<open>Every operation grows the state\<close>

lemma page_ext_refl [simp]: "page_ext p p"
  by (simp add: page_ext_def)

lemma page_ext_trans: "page_ext p q \<Longrightarrow> page_ext q r \<Longrightarrow> page_ext p r"
  by (auto simp: page_ext_def intro: prefix_order.trans)

lemma consec_append: "consec a (xs @ ys) \<longleftrightarrow> consec a xs \<and> consec (a + int (length xs)) ys"
  by (induction xs arbitrary: a) (auto simp: algebra_simps)

lemma grows_same: "pages c \<noteq> [] \<Longrightarrow> pages c' = pages c \<Longrightarrow> next_page_no c' = next_page_no c \<Longrightarrow> grows c c'"
  unfolding grows_def by (rule conjI, simp, rule exI [of _ "last (pages c)"], rule exI [of _ "[]"]) simp

lemma grows_refl: "pages c \<noteq> [] \<Longrightarrow> grows c c"
  by (simp add: grows_same)

lemma grows_update:
  "pages c \<noteq> [] \<Longrightarrow> page_ext (last (pages c)) (f (last (pages c))) \<Longrightarrow> update_cur_page f c = Inr c' \<Longrightarrow> grows c c'"
  unfolding grows_def update_cur_page_def by auto

lemma grows_new_page: "pages c \<noteq> [] \<Longrightarrow> grows c (push_new_page c)"
  unfolding grows_def
  by (rule conjI, simp, rule exI [of _ "last (pages c)"], rule exI [of _ "[new_page (next_page_no c)]"])
    (simp add: push_new_page_def new_page_def)

lemma grows_fields [simp]:
  "grows c (c'\<lparr>footnote_table := t\<rparr>) = grows c c'"
  "grows c (c'\<lparr>last_padding_after := x\<rparr>) = grows c c'"
  "grows (c\<lparr>footnote_table := t\<rparr>) c' = grows c c'"
  "grows (c\<lparr>last_padding_after := x\<rparr>) c' = grows c c'"
  "grows c (c'\<lparr>contact := y\<rparr>) = grows c c'"
  by (simp_all add: grows_def)

lemma grows_pages_ne: "grows c c' \<Longrightarrow> pages c' \<noteq> []"
  by (auto simp: grows_def)

lemma grows_trans:
  assumes "grows c c'" "grows c' c''"
  shows "grows c c''"
proof -
  obtain q rest where q: "pages c \<noteq> []" "pages c' = butlast (pages c) @ q # rest" "page_ext (last (pages c)) q"
      "consec (next_page_no c) rest" "next_page_no c' = next_page_no c + int (length rest)"
    using assms(1) by (auto simp: grows_def)
  obtain q' rest' where q': "pages c'' = butlast (pages c') @ q' # rest'" "page_ext (last (pages c')) q'"
      "consec (next_page_no c') rest'" "next_page_no c'' = next_page_no c' + int (length rest')"
    using assms(2) by (auto simp: grows_def)
  show ?thesis
  proof (cases rest rule: rev_cases)
    case Nil
    then show ?thesis
      using q q' page_ext_trans unfolding grows_def by auto
  next
    case (snoc rs r)
    have "pages c'' = butlast (pages c) @ q # (rs @ q' # rest')"
      using q(2) q'(1) snoc by (simp add: butlast_append)
    moreover have "consec (next_page_no c) (rs @ q' # rest')"
      using q(4,5) q'(2,3) q(2) snoc by (simp add: consec_append page_ext_def algebra_simps)
    moreover have "next_page_no c'' = next_page_no c + int (length (rs @ q' # rest'))"
      using q(5) q'(4) snoc by simp
    ultimately show ?thesis
      using q(1,3) unfolding grows_def by blast
  qed
qed

lemma grows_append_rows: "pages c \<noteq> [] \<Longrightarrow> grows c (append_rows rs c)"
  unfolding grows_def append_rows_def
  by (rule conjI, simp, rule exI [of _ "last (pages c)\<lparr>page_lines := page_lines (last (pages c)) @ rs\<rparr>"],
      rule exI [of _ "[]"]) (simp add: page_ext_def)

lemma compose_footnotes_shape:
  assumes "pages c \<noteq> []" "compose_footnotes l c = Inr c'"
  shows "\<exists>c1 q. (c1 = c \<or> c1 = push_new_page c) \<and> footer_ext (last (pages c1)) q
     \<and> pages c' = butlast (pages c1) @ [q] \<and> next_page_no c' = next_page_no c1"
proof (cases "note_refs l = []")
  case True
  then show ?thesis using assms by (intro exI [of _ c] exI [of _ "last (pages c)"]) simp
next
  case False
  then obtain fh where fh: "footer_height (footnote_table c) 0 0 (note_refs l) = Inr fh"
    using assms(2) by (cases "footer_height (footnote_table c) 0 0 (note_refs l)") (auto simp: compose_footnotes_def)
  obtain c1 where c1: "(if footnote_room (last (pages c)) fh < 1 then start_a_new_page c else Inr c) = Inr c1"
    and c': "c' = (let r = place_footnotes (note_refs l) (footnote_table c1) (last (pages c1))
                   in c1\<lparr>footnote_table := fst r, pages := butlast (pages c1) @ [snd r]\<rparr>)"
    using assms(2) compose_footnotes_refs [OF assms(1) False fh] by (auto simp: Let_def)
  define r where "r = place_footnotes (note_refs l) (footnote_table c1) (last (pages c1))"
  have c': "c' = c1\<lparr>footnote_table := fst r, pages := butlast (pages c1) @ [snd r]\<rparr>"
    using c' by (simp add: r_def Let_def)
  have "c1 = c \<or> c1 = push_new_page c"
    using c1 by (rule new_page_branch)
  moreover have "footer_ext (last (pages c1)) (snd r)"
    by (simp add: r_def place_footnotes_ext)
  ultimately show ?thesis
    using c' by auto
qed

lemma grows_compose_footnotes:
  assumes "pages c \<noteq> []" "compose_footnotes l c = Inr c'"
  shows "grows c c'"
proof -
  obtain c1 q where c1: "c1 = c \<or> c1 = push_new_page c" and q: "footer_ext (last (pages c1)) q"
      and c': "pages c' = butlast (pages c1) @ [q]" "next_page_no c' = next_page_no c1"
    using compose_footnotes_shape [OF assms] by blast
  have "grows c c1" "pages c1 \<noteq> []"
    using c1 assms(1) grows_refl grows_new_page by auto
  moreover have "grows c1 c'"
    using c' q \<open>pages c1 \<noteq> []\<close> footer_ext_page_ext unfolding grows_def
    by (intro conjI exI [of _ q] exI [of _ "[]"]) simp_all
  ultimately show ?thesis
    using grows_trans by blast
qed

lemma compose_line_shape:
  assumes "pages c \<noteq> []" "compose_line sp h i l c = Inr c'"
  shows "\<exists>c2 c3. compose_footnotes l c = Inr c2 \<and> pages c2 \<noteq> [] \<and> (c3 = c2 \<or> c3 = push_new_page c2)
     \<and> (c' = append_rows [Some l] c3 \<or> c' = append_rows [Some l, None] c3)"
proof -
  obtain c2 where c2: "compose_footnotes l c = Inr c2"
    and rest: "bind_result (cur_page c2) (\<lambda>p.
       bind_result (if line_room p < 1 then start_a_new_page c2 else Inr c2) (\<lambda>c3.
       bind_result (update_cur_page (push_line (Some l)) c3) (\<lambda>c4.
       bind_result (cur_page c4) (\<lambda>p4.
         if i < h - 1 \<and> sp = Double then
           bind_result (usize_sub (height p4) (length (page_lines p4))) (\<lambda>r.
             if 1 < r then update_cur_page (push_line None) c4 else Inr c4)
         else Inr c4)))) = Inr c'"
    using assms(2) unfolding compose_line_def by (cases "compose_footnotes l c") auto
  have ne2: "pages c2 \<noteq> []"
    using grows_compose_footnotes [OF assms(1) c2] grows_pages_ne by blast
  obtain c3 where c3: "(if line_room (last (pages c2)) < 1 then start_a_new_page c2 else Inr c2) = Inr c3"
    and rest3: "bind_result (update_cur_page (push_line (Some l)) c3) (\<lambda>c4.
       bind_result (cur_page c4) (\<lambda>p4.
         if i < h - 1 \<and> sp = Double then
           bind_result (usize_sub (height p4) (length (page_lines p4))) (\<lambda>r.
             if 1 < r then update_cur_page (push_line None) c4 else Inr c4)
         else Inr c4)) = Inr c'"
    using rest ne2 by auto
  have c3_cases: "c3 = c2 \<or> c3 = push_new_page c2"
    using c3 by (rule new_page_branch)
  have ne3: "pages c3 \<noteq> []"
    using ne2 c3_cases by auto
  have "c' = append_rows [Some l] c3 \<or> c' = append_rows [Some l, None] c3"
    using rest3 ne3 by (auto split: if_splits)
  moreover note c3_cases
  ultimately show ?thesis
    using c2 ne2 by blast
qed

lemma grows_compose_line:
  assumes "pages c \<noteq> []" "compose_line sp h i l c = Inr c'"
  shows "grows c c'"
proof -
  obtain c2 c3 where c2: "compose_footnotes l c = Inr c2" "pages c2 \<noteq> []"
      and c3: "c3 = c2 \<or> c3 = push_new_page c2"
      and c': "c' = append_rows [Some l] c3 \<or> c' = append_rows [Some l, None] c3"
    using compose_line_shape [OF assms] by blast
  have "grows c c3"
    using c3 grows_compose_footnotes [OF assms(1) c2(1)] grows_new_page [OF c2(2)] grows_trans by blast
  moreover have "grows c3 c'"
    using c' grows_append_rows grows_pages_ne [OF \<open>grows c c3\<close>] by blast
  ultimately show ?thesis
    by (rule grows_trans)
qed

lemma grows_compose_lines:
  "pages c \<noteq> [] \<Longrightarrow> compose_lines sp h i ls c = Inr c' \<Longrightarrow> grows c c'"
proof (induction ls arbitrary: i c)
  case Nil
  then show ?case by (simp add: grows_refl)
next
  case (Cons l ls)
  then obtain c1 where c1: "compose_line sp h i l c = Inr c1" "compose_lines sp h (Suc i) ls c1 = Inr c'"
    by auto
  have "grows c c1" using grows_compose_line [OF Cons.prems(1) c1(1)] .
  moreover have "grows c1 c'" using Cons.IH [OF grows_pages_ne [OF \<open>grows c c1\<close>] c1(2)] .
  ultimately show ?case by (rule grows_trans)
qed

lemma grows_compose_block: "pages c \<noteq> [] \<Longrightarrow> compose_block b c = Inr c' \<Longrightarrow> grows c c'"
  unfolding compose_block_def
  by (drule grows_compose_lines [rotated]) simp_all

lemma compose_unfold:
  assumes "pages c \<noteq> []" "compose b c = Inr c'"
  shows "\<exists>c1 k. (c1 = c \<or> c1 = push_new_page c)
     \<and> compose_block b (append_rows (replicate k None) (c1\<lparr>last_padding_after := padding_after b\<rparr>)) = Inr c'"
proof -
  obtain pb c1 where pc: "(if padding_before b < 0
        then bind_result (start_a_new_page c) (\<lambda>c0.
               if padding_before b = - (2 ^ 31) then Inl Negate_Overflow
               else Inr (- padding_before b - 1, c0\<lparr>last_padding_after := 0\<rparr>))
        else Inr (padding_before b, c)) = Inr (pb, c1)"
    and rest: "bind_result (pad_rows (max (nat pb) (last_padding_after c1)) (c1\<lparr>last_padding_after := padding_after b\<rparr>))
        (compose_block b) = Inr c'"
    using assms(2) unfolding compose_def by (fastforce simp: Let_def split_def)
  have c1: "c1 = c \<or> c1 = (push_new_page c)\<lparr>last_padding_after := 0\<rparr>"
    using pc by (auto split: if_splits)
  then have ne1: "pages c1 \<noteq> []"
    using assms(1) by auto
  have "compose_block b (append_rows (replicate (max (nat pb) (last_padding_after c1)) None)
      (c1\<lparr>last_padding_after := padding_after b\<rparr>)) = Inr c'"
    using rest ne1 by (simp add: pad_rows_append_rows)
  then show ?thesis
    using c1 by (elim disjE) fastforce+
qed

lemma grows_compose:
  assumes "pages c \<noteq> []" "compose b c = Inr c'"
  shows "grows c c'"
proof -
  obtain c1 k where c1: "c1 = c \<or> c1 = push_new_page c"
      and blk: "compose_block b (append_rows (replicate k None) (c1\<lparr>last_padding_after := padding_after b\<rparr>)) = Inr c'"
    using compose_unfold [OF assms] by blast
  have "grows c c1" "pages c1 \<noteq> []"
    using c1 assms(1) grows_refl grows_new_page by auto
  then have "grows c (append_rows (replicate k None) (c1\<lparr>last_padding_after := padding_after b\<rparr>))"
    using grows_append_rows [of "c1\<lparr>last_padding_after := padding_after b\<rparr>"] grows_trans by fastforce
  then show ?thesis
    using grows_compose_block [OF append_rows_pages_ne blk] grows_trans by blast
qed

lemma compose_line_last:
  "pages c \<noteq> [] \<Longrightarrow> compose_line sp h i l c = Inr c' \<Longrightarrow> Some l \<in> set (page_lines (last (pages c')))"
  by (drule (1) compose_line_shape) auto

lemma compose_lines_last:
  "pages c \<noteq> [] \<Longrightarrow> ls \<noteq> [] \<Longrightarrow> compose_lines sp h i ls c = Inr c' \<Longrightarrow>
     Some (last ls) \<in> set (page_lines (last (pages c')))"
proof (induction ls arbitrary: i c)
  case (Cons l ls)
  then obtain c1 where c1: "compose_line sp h i l c = Inr c1" "compose_lines sp h (Suc i) ls c1 = Inr c'"
    by auto
  show ?case
  proof (cases ls)
    case Nil
    then show ?thesis using c1 compose_line_last [OF Cons.prems(1) c1(1)] by simp
  next
    case (Cons l' ls')
    then show ?thesis
      using Cons.IH [OF grows_pages_ne [OF grows_compose_line [OF Cons.prems(1) c1(1)]] _ c1(2)] by simp
  qed
qed simp

lemma compose_last_line:
  assumes "pages c \<noteq> []" "lines b \<noteq> []" "compose b c = Inr c'"
  shows "Some (last (lines b)) \<in> set (page_lines (last (pages c')))"
proof -
  obtain c2 where "pages c2 \<noteq> []" "compose_block b c2 = Inr c'"
    using compose_unfold [OF assms(1,3)] append_rows_pages_ne by blast
  then show ?thesis
    using compose_lines_last [of "c2\<lparr>footnote_table := t\<rparr>" "lines b" for t] assms(2)
    by (simp add: compose_block_def)
qed

lemma run_blocks_grows:
  "pages c \<noteq> [] \<Longrightarrow> run_blocks bs (c, toc) = Inr (c', toc') \<Longrightarrow> grows c c' \<and> prefix toc toc'"
proof (induction bs arbitrary: c toc)
  case Nil
  then show ?case by (simp add: grows_refl)
next
  case (Cons b bs)
  show ?case
  proof (cases "tag b")
    case None
    then obtain c1 where c1: "compose b c = Inr c1" "run_blocks bs (c1, toc) = Inr (c', toc')"
      using Cons.prems by auto
    have "grows c c1" using grows_compose [OF Cons.prems(1) c1(1)] .
    with Cons.IH [OF grows_pages_ne c1(2)] show ?thesis by (blast intro: grows_trans)
  next
    case (Some t)
    show ?thesis
    proof (cases t)
      case Contact
      with Some Cons.prems Cons.IH [of "c\<lparr>contact := Some b\<rparr>" toc] show ?thesis by (simp add: grows_def)
    next
      case Head
      then obtain c1 where c1: "compose b c = Inr c1" "run_blocks bs (c1, toc) = Inr (c', toc')"
        using Cons.prems Some by auto
      have "grows c c1" using grows_compose [OF Cons.prems(1) c1(1)] .
      with Cons.IH [OF grows_pages_ne c1(2)] show ?thesis by (blast intro: grows_trans)
    next
      case ToC
      then have "run_blocks bs (c, toc @ [(number (last (pages c)), b)]) = Inr (c', toc')"
        using Cons.prems Some by simp
      moreover have "prefix toc (toc @ [(number (last (pages c)), b)])" by simp
      ultimately show ?thesis
        using Cons.IH [OF Cons.prems(1)] prefix_order.trans by blast
    qed
  qed
qed

lemma grows_page_ext: "grows c c' \<Longrightarrow> \<exists>q\<in>set (pages c'). page_ext (last (pages c)) q"
  by (auto simp: grows_def)

lemma consec_upto: "consec a xs \<Longrightarrow> map number xs = [a .. a + int (length xs) - 1]"
proof (induction xs arbitrary: a)
  case (Cons p xs)
  then have "map number xs = [a + 1 .. a + int (length xs)]"
    using Cons.IH [of "a + 1"] by simp
  then show ?case
    using Cons.prems by (simp add: upto_rec1)
qed simp

subsection \<open>Properties\<close>

text \<open>C4: composing a block never revisits the pages before the current one; the
  current page keeps its number and height and only gains content and footer rows; the
  pages the block starts are numbered consecutively from \<open>next_page_no\<close>, which
  ends one past the last of them.  A negative padding-before starts a page numbered like
  any other.\<close>

theorem compose_frame:
  assumes "pages c \<noteq> []" "compose b c = Inr c'"
  shows "\<exists>q rest. pages c' = butlast (pages c) @ q # rest
     \<and> number q = number (last (pages c)) \<and> height q = height (last (pages c))
     \<and> prefix (page_lines (last (pages c))) (page_lines q) \<and> prefix (footer (last (pages c))) (footer q)
     \<and> map number rest = [next_page_no c .. next_page_no c' - 1]
     \<and> next_page_no c' = next_page_no c + int (length rest)"
proof -
  obtain q rest where "pages c' = butlast (pages c) @ q # rest" "page_ext (last (pages c)) q"
      "consec (next_page_no c) rest" "next_page_no c' = next_page_no c + int (length rest)"
    using grows_compose [OF assms] by (auto simp: grows_def)
  then show ?thesis
    using consec_upto by (auto simp: page_ext_def)
qed

theorem compose_frame_witness:
  "\<exists>c'. compose (Block [sample_line] [] Single (-1) 0 None) (push_new_page (compositor_new 1 False)) = Inr c'
     \<and> (\<exists>q rest. pages c' = butlast (pages (push_new_page (compositor_new 1 False))) @ q # rest
     \<and> number q = number (last (pages (push_new_page (compositor_new 1 False))))
     \<and> height q = height (last (pages (push_new_page (compositor_new 1 False))))
     \<and> prefix (page_lines (last (pages (push_new_page (compositor_new 1 False))))) (page_lines q)
     \<and> prefix (footer (last (pages (push_new_page (compositor_new 1 False))))) (footer q)
     \<and> map number rest = [next_page_no (push_new_page (compositor_new 1 False)) .. next_page_no c' - 1]
     \<and> next_page_no c' = next_page_no (push_new_page (compositor_new 1 False)) + int (length rest))"
proof -
  have "\<not> isl (compose (Block [sample_line] [] Single (-1) 0 None) (push_new_page (compositor_new 1 False)))"
    by code_simp
  then obtain c' where c': "compose (Block [sample_line] [] Single (-1) 0 None) (push_new_page (compositor_new 1 False)) = Inr c'"
    using not_isl_Inr by blast
  show ?thesis
    using compose_frame [OF _ c'] c' by simp
qed

text \<open>C7: the page number \<open>run\<close> records with a ToC-tagged block is the number of a
  page of the output that holds the last line of the block composed just before it.\<close>

theorem toc_entry_records_page:
  assumes "pages c \<noteq> []" "tag b = None" "lines b \<noteq> []" "tag e = Some ToC"
    and "run_blocks (b # e # bs) (c, toc) = Inr (c', toc')"
  shows "\<exists>q\<in>set (pages c'). Some (last (lines b)) \<in> set (page_lines q) \<and> (number q, e) \<in> set toc'"
proof -
  obtain c1 where c1: "compose b c = Inr c1" "run_blocks (e # bs) (c1, toc) = Inr (c', toc')"
    using assms(2,5) by auto
  have ne1: "pages c1 \<noteq> []"
    using grows_pages_ne [OF grows_compose [OF assms(1) c1(1)]] .
  have run: "run_blocks bs (c1, toc @ [(number (last (pages c1)), e)]) = Inr (c', toc')"
    using c1(2) assms(4) ne1 by simp
  have line: "Some (last (lines b)) \<in> set (page_lines (last (pages c1)))"
    using compose_last_line [OF assms(1,3) c1(1)] .
  have g: "grows c1 c'" and pre: "prefix (toc @ [(number (last (pages c1)), e)]) toc'"
    using run_blocks_grows [OF ne1 run] by simp_all
  obtain q where q: "q \<in> set (pages c')" "page_ext (last (pages c1)) q"
    using grows_page_ext [OF g] by blast
  have "Some (last (lines b)) \<in> set (page_lines q)" "number q = number (last (pages c1))"
    using q(2) line set_mono_prefix by (auto simp: page_ext_def)
  moreover have "(number (last (pages c1)), e) \<in> set toc'"
    using pre set_mono_prefix by fastforce
  ultimately show ?thesis
    using q(1) by auto
qed

theorem toc_entry_records_page_witness:
  "\<exists>c' toc'. run_blocks [Block [sample_line] [] Single 0 0 None, Block [sample_line] [] Single 0 0 (Some ToC)]
       (push_new_page (compositor_new 1 False), []) = Inr (c', toc')
     \<and> (\<exists>q\<in>set (pages c'). Some sample_line \<in> set (page_lines q)
           \<and> (number q, Block [sample_line] [] Single 0 0 (Some ToC)) \<in> set toc')"
proof -
  have "\<not> isl (run_blocks [Block [sample_line] [] Single 0 0 None, Block [sample_line] [] Single 0 0 (Some ToC)]
       (push_new_page (compositor_new 1 False), []))"
    by code_simp
  then obtain c' toc' where r: "run_blocks [Block [sample_line] [] Single 0 0 None, Block [sample_line] [] Single 0 0 (Some ToC)]
       (push_new_page (compositor_new 1 False), []) = Inr (c', toc')"
    using not_isl_Inr by fastforce
  have "\<exists>q\<in>set (pages c'). Some (last (lines (Block [sample_line] [] Single 0 0 None))) \<in> set (page_lines q)
      \<and> (number q, Block [sample_line] [] Single 0 0 (Some ToC)) \<in> set toc'"
    by (rule toc_entry_records_page [OF _ _ _ _ r]) simp_all
  then show ?thesis using r by auto
qed

end
