(* ===== verification/Page_Placement.thy ===== *)
theory Page_Placement
  imports Page_Frame
begin

text \<open>
  Where \<^verbatim>\<open>compositor.rs\<close> puts rows: a block that fits lands on the current
  page as its padding (the larger of its padding-before and the previous block's
  padding-after) followed by its lines, double-spaced blocks with a blank row between
  two lines, so that it takes exactly \<open>Block::count_lines\<close> rows; a line whose
  footnotes do not fit starts a new page that receives the footnotes and the line; the
  ToC dot leader fills the line to the right margin; and where the \<open>i32\<close> page counter
  overflows.
\<close>

subsection \<open>Auxiliary definitions for the proofs\<close>

text \<open>The rows a block's lines occupy when the block is not split.\<close>

fun line_rows :: "line_spacing \<Rightarrow> line list \<Rightarrow> line option list" where
  "line_rows sp [] = []"
| "line_rows sp [l] = [Some l]"
| "line_rows sp (l # l' # ls) = Some l # (if sp = Double then [None] else []) @ line_rows sp (l' # ls)"

text \<open>A state whose current page has 52 rows used and a pending footnote of \<open>k\<close>
  single-spaced lines under the label \<open>1\<close>, and a line referencing it.\<close>

definition note_line :: line where
  "note_line = \<lparr>column = 0, segments = [], note_refs = [''1'']\<rparr>"

definition note_state :: "nat \<Rightarrow> compositor" where
  "note_state k = append_rows (replicate 52 None)
     ((push_new_page (compositor_new 1 False))\<lparr>footnote_table :=
        [''1'' \<mapsto> [Block (replicate k \<lparr>column = 0, segments = [], note_refs = []\<rparr>) [] Single 0 0 None]]\<rparr>)"

subsection \<open>Blocks that fit\<close>

lemma length_line_rows:
  "length (line_rows sp ls) = (if sp = Double then 2 * length ls - 1 else length ls)"
  by (induction sp ls rule: line_rows.induct) auto

lemma line_rows_Cons:
  "ls \<noteq> [] \<Longrightarrow> line_rows sp (l # ls) = Some l # (if sp = Double then [None] else []) @ line_rows sp ls"
  by (cases ls) auto

lemma compose_lines_fit:
  "pages c \<noteq> [] \<Longrightarrow> \<forall>l\<in>set ls. note_refs l = [] \<Longrightarrow>
     int (length (line_rows sp ls)) \<le> line_room (last (pages c)) \<Longrightarrow>
     compose_lines sp (i + length ls) i ls c = Inr (append_rows (line_rows sp ls) c)"
proof (induction ls arbitrary: i c)
  case (Cons l ls)
  show ?case
  proof (cases ls)
    case Nil
    with Cons.prems show ?thesis by (simp add: compose_line_plain)
  next
    case (Cons l' ls')
    note room = line_room_height [of "last (pages c)"]
    have ne: "ls \<noteq> []" using Cons by simp
    show ?thesis
    proof (cases sp)
      case Single
      have "compose_lines sp (Suc i + length ls) (Suc i) ls (append_rows [Some l] c)
          = Inr (append_rows (line_rows sp ls) (append_rows [Some l] c))"
        using Cons.prems Single ne by (intro Cons.IH) (auto simp: line_rows_Cons)
      then show ?thesis
        using Cons.prems Single ne by (simp add: compose_line_plain line_rows_Cons)
    next
      case Double
      have "compose_lines sp (Suc i + length ls) (Suc i) ls (append_rows [Some l, None] c)
          = Inr (append_rows (line_rows sp ls) (append_rows [Some l, None] c))"
        using Cons.prems Double ne by (intro Cons.IH) (auto simp: line_rows_Cons)
      then show ?thesis
        using Cons.prems Double ne room by (simp add: compose_line_plain line_rows_Cons)
    qed
  qed
qed simp

lemma length_block_rows:
  "block_count_lines b = Inr n \<Longrightarrow> length (line_rows (line_spacing b) (lines b)) = n"
  by (cases "line_spacing b") (auto simp: block_count_lines_def length_line_rows usize_sub_def split: if_splits)

lemma compose_block_fit:
  assumes "pages c \<noteq> []" "\<forall>l\<in>set (lines b). note_refs l = []" "block_count_lines b = Inr n"
    and "int n \<le> line_room (last (pages c))"
  shows "\<exists>c'. compose_block b c = Inr c' \<and> pages c' = pages (append_rows (line_rows (line_spacing b) (lines b)) c)
     \<and> last_padding_after c' = last_padding_after c"
  using assms compose_lines_fit [of "c\<lparr>footnote_table := t\<rparr>" "lines b" "line_spacing b" 0 for t]
  by (simp add: compose_block_def length_block_rows pages_append_rows append_rows_def)

subsection \<open>Footnotes that do not fit\<close>

lemma footer_ext_fields:
  "footer_ext p q \<Longrightarrow> number q = number p \<and> height q = height p \<and> page_lines q = page_lines p"
  by (simp add: footer_ext_def)

lemma compose_footnotes_overflow:
  assumes "pages c \<noteq> []" "note_refs l \<noteq> []"
    and "footer_height (footnote_table c) 0 0 (note_refs l) = Inr fh"
    and "footnote_room (last (pages c)) fh < 1"
    and "- (2 ^ 31) \<le> next_page_no c" "next_page_no c < 2 ^ 31 - 1"
    and "r = place_footnotes (note_refs l) (footnote_table c) (last (pages (push_new_page c)))"
  shows "compose_footnotes l c = Inr ((push_new_page c)\<lparr>footnote_table := fst r, pages := pages c @ [snd r]\<rparr>)"
    and "number (snd r) = next_page_no c" "height (snd r) = 54" "page_lines (snd r) = []"
proof -
  show "compose_footnotes l c = Inr ((push_new_page c)\<lparr>footnote_table := fst r, pages := pages c @ [snd r]\<rparr>)"
    using compose_footnotes_refs [OF assms(1-3)] assms(4-7) by (simp add: Let_def)
  show "number (snd r) = next_page_no c" "height (snd r) = 54" "page_lines (snd r) = []"
    using footer_ext_fields [OF place_footnotes_ext [of "last (pages (push_new_page c))"]] assms(7)
    by (simp_all add: new_page_def TOP_LINE_def BOTTOM_LINE_def)
qed

subsection \<open>The ToC dot leader\<close>

lemma length_concat_replicate_pair: "length (concat (replicate k ''. '')) = 2 * k"
  by (induction k) simp_all

lemma line_length_snoc:
  "line_length (l\<lparr>segments := segments l @ [s]\<rparr>) = line_length l + length (seg_text s)"
  by (simp add: line_length_def)

lemma leader_width:
  fixes n p :: nat
  assumes "n + p + (if odd n then 1 else 2) \<le> 65"
  shows "n + ((if odd n then 1 else 2) + 2 * ((65 - n - p - (if odd n then 1 else 2)) div 2)
           + (if even p then 1 else 0) + p) = 65"
  using assms by (cases "odd n"; cases "odd p") (auto, presburger+)

subsection \<open>Properties\<close>

text \<open>C5: a block with a non-negative padding-before, no footnote references and
  room on the current page is placed there as \<open>max(padding_before, last padding_after)\<close>
  blank rows (the paddings collapse, they do not add) followed by its rows, which are
  exactly \<open>Block::count_lines\<close> many: \<open>n\<close> single-spaced, \<open>2n - 1\<close> double-spaced.\<close>

theorem compose_places_block:
  assumes "pages c \<noteq> []" "0 \<le> padding_before b" "\<forall>l\<in>set (lines b). note_refs l = []"
    and "block_count_lines b = Inr n"
    and "int (max (nat (padding_before b)) (last_padding_after c) + n) \<le> line_room (last (pages c))"
  shows "\<exists>c'. compose b c = Inr c'
     \<and> pages c' = butlast (pages c) @ [last (pages c)\<lparr>page_lines := page_lines (last (pages c))
          @ replicate (max (nat (padding_before b)) (last_padding_after c)) None
          @ line_rows (line_spacing b) (lines b)\<rparr>]
     \<and> length (line_rows (line_spacing b) (lines b)) = n
     \<and> last_padding_after c' = padding_after b"
proof -
  let ?k = "max (nat (padding_before b)) (last_padding_after c)"
  let ?c1 = "append_rows (replicate ?k None) (c\<lparr>last_padding_after := padding_after b\<rparr>)"
  have c: "compose b c = compose_block b ?c1"
    using compose_nonneg [OF assms(1,2)] by (simp add: append_rows_def)
  obtain c' where c': "compose_block b ?c1 = Inr c'" "pages c' = pages (append_rows (line_rows (line_spacing b) (lines b)) ?c1)"
      "last_padding_after c' = padding_after b"
    using compose_block_fit [of ?c1 b n] assms by (auto simp: append_rows_def)
  then show ?thesis
    using c assms(1,4) length_block_rows by (simp add: pages_append_rows)
qed

theorem compose_places_block_witness:
  "\<exists>c'. compose (Block [sample_line, sample_line] [] Double 3 0 None)
        ((push_new_page (compositor_new 1 False))\<lparr>last_padding_after := 2\<rparr>) = Inr c'
     \<and> pages c' = butlast (pages ((push_new_page (compositor_new 1 False))\<lparr>last_padding_after := 2\<rparr>))
          @ [last (pages ((push_new_page (compositor_new 1 False))\<lparr>last_padding_after := 2\<rparr>))\<lparr>page_lines :=
               page_lines (last (pages ((push_new_page (compositor_new 1 False))\<lparr>last_padding_after := 2\<rparr>)))
               @ replicate (max (nat 3) 2) None @ line_rows Double [sample_line, sample_line]\<rparr>]
     \<and> length (line_rows Double [sample_line, sample_line]) = 3
     \<and> last_padding_after c' = 0"
  using compose_places_block [of "(push_new_page (compositor_new 1 False))\<lparr>last_padding_after := 2\<rparr>"
      "Block [sample_line, sample_line] [] Double 3 0 None" 3]
  by (simp add: block_count_lines_def push_new_page_def new_page_def compositor_new_def line_room_def sample_line_def
      line_of_segment_def TOP_LINE_def BOTTOM_LINE_def)

text \<open>C6: when the footnotes a line references do not fit on the current page, the
  line starts a new page, numbered \<open>next_page_no\<close>, before placing either: the earlier
  pages are unchanged, the footnotes fill the new page's footer and the line is the first
  row of its content (given that the footnotes leave a row for it and that the page
  counter does not overflow, which panics).\<close>

theorem footnote_overflow_new_page:
  assumes "pages c \<noteq> []" "note_refs l \<noteq> []"
    and "footer_height (footnote_table c) 0 0 (note_refs l) = Inr fh"
    and "footnote_room (last (pages c)) fh < 1"
    and "- (2 ^ 31) \<le> next_page_no c" "next_page_no c < 2 ^ 31 - 1"
    and "length (footer (snd (place_footnotes (note_refs l) (footnote_table c) (last (pages (push_new_page c)))))) \<le> 50"
  shows "\<exists>c'. compose_line sp h i l c = Inr c' \<and> butlast (pages c') = pages c
     \<and> number (last (pages c')) = next_page_no c
     \<and> hd (page_lines (last (pages c'))) = Some l
     \<and> footer (last (pages c'))
         = footer (snd (place_footnotes (note_refs l) (footnote_table c) (last (pages (push_new_page c)))))"
proof -
  define r where "r = place_footnotes (note_refs l) (footnote_table c) (last (pages (push_new_page c)))"
  define c2 where "c2 = (push_new_page c)\<lparr>footnote_table := fst r, pages := pages c @ [snd r]\<rparr>"
  note ov = compose_footnotes_overflow [OF assms(1-6) r_def]
  have room: "1 \<le> line_room (last (pages c2))"
    using ov(3,4) assms(7) by (simp add: c2_def line_room_def r_def)
  have "compose_line sp h i l c = Inr (append_rows [Some l, None] c2) \<or>
        compose_line sp h i l c = Inr (append_rows [Some l] c2)"
    using compose_line_room [OF ov(1) [folded c2_def] _ room] by (simp add: c2_def)
  then show ?thesis
    using ov(2,4) by (auto simp: c2_def pages_append_rows r_def)
qed

theorem footnote_overflow_new_page_witness:
  "\<exists>c'. compose_line Single 1 0 note_line (note_state 5) = Inr c'
     \<and> butlast (pages c') = pages (note_state 5)
     \<and> number (last (pages c')) = next_page_no (note_state 5)
     \<and> hd (page_lines (last (pages c'))) = Some note_line
     \<and> footer (last (pages c')) = footer (snd (place_footnotes (note_refs note_line)
          (footnote_table (note_state 5)) (last (pages (push_new_page (note_state 5))))))"
proof (rule footnote_overflow_new_page)
  show "footer_height (footnote_table (note_state 5)) 0 0 (note_refs note_line) = Inr 5"
    by code_simp
  show "pages (note_state 5) \<noteq> []" by (simp add: note_state_def)
  show "note_refs note_line \<noteq> []" by (simp add: note_line_def)
  show "footnote_room (last (pages (note_state 5))) 5 < 1"
    by (simp add: note_state_def push_new_page_def new_page_def compositor_new_def footnote_room_def TOP_LINE_def BOTTOM_LINE_def)
  show "- (2 ^ 31) \<le> next_page_no (note_state 5)" "next_page_no (note_state 5) < 2 ^ 31 - 1"
    by (simp_all add: note_state_def push_new_page_def compositor_new_def append_rows_def)
  show "length (footer (snd (place_footnotes (note_refs note_line) (footnote_table (note_state 5))
      (last (pages (push_new_page (note_state 5))))))) \<le> 50"
    by code_simp
qed

text \<open>C13: footnotes of more than 50 rows separate from their reference: the page
  started for them gets the footnotes and no content row, and the line goes to yet
  another page with an empty footer (both pages numbered without overflow).\<close>

theorem footnote_oversize_separates:
  assumes "pages c \<noteq> []" "note_refs l \<noteq> []"
    and "footer_height (footnote_table c) 0 0 (note_refs l) = Inr fh"
    and "footnote_room (last (pages c)) fh < 1"
    and "- (2 ^ 31) \<le> next_page_no c" "next_page_no c < 2 ^ 31 - 2"
    and "50 < length (footer (snd (place_footnotes (note_refs l) (footnote_table c) (last (pages (push_new_page c))))))"
  shows "\<exists>c'. compose_line sp h i l c = Inr c'
     \<and> pages c' = pages c @ [snd (place_footnotes (note_refs l) (footnote_table c) (last (pages (push_new_page c)))),
                            last (pages c')]
     \<and> page_lines (snd (place_footnotes (note_refs l) (footnote_table c) (last (pages (push_new_page c))))) = []
     \<and> hd (page_lines (last (pages c'))) = Some l \<and> footer (last (pages c')) = []"
proof -
  define r where "r = place_footnotes (note_refs l) (footnote_table c) (last (pages (push_new_page c)))"
  define c2 where "c2 = (push_new_page c)\<lparr>footnote_table := fst r, pages := pages c @ [snd r]\<rparr>"
  have nb: "next_page_no c < 2 ^ 31 - 1"
    using assms(6) by simp
  note ov = compose_footnotes_overflow [OF assms(1-5) nb r_def]
  have ne: "footer (snd r) \<noteq> []" and big: "50 < length (footer (snd r))"
    using assms(7) by (auto simp: r_def)
  have full: "line_room (last (pages c2)) < 1"
    using ov(3,4) ne big by (simp add: c2_def line_room_def)
  have "compose_line sp h i l c = Inr (append_rows [Some l, None] (push_new_page c2)) \<or>
        compose_line sp h i l c = Inr (append_rows [Some l] (push_new_page c2))"
    using ov(1) [folded c2_def] full assms(5,6)
    by (auto simp: compose_line_def usize_sub_def new_page_def TOP_LINE_def BOTTOM_LINE_def c2_def)
  then show ?thesis
    using ov(4) by (auto simp: c2_def pages_append_rows r_def new_page_def butlast_append)
qed

theorem footnote_oversize_separates_witness:
  "\<exists>c'. compose_line Single 1 0 note_line (note_state 51) = Inr c'
     \<and> pages c' = pages (note_state 51) @ [snd (place_footnotes (note_refs note_line) (footnote_table (note_state 51))
          (last (pages (push_new_page (note_state 51))))), last (pages c')]
     \<and> page_lines (snd (place_footnotes (note_refs note_line) (footnote_table (note_state 51))
          (last (pages (push_new_page (note_state 51)))))) = []
     \<and> hd (page_lines (last (pages c'))) = Some note_line \<and> footer (last (pages c')) = []"
proof (rule footnote_oversize_separates)
  show "footer_height (footnote_table (note_state 51)) 0 0 (note_refs note_line) = Inr 51"
    by code_simp
  show "pages (note_state 51) \<noteq> []" by (simp add: note_state_def)
  show "note_refs note_line \<noteq> []" by (simp add: note_line_def)
  show "footnote_room (last (pages (note_state 51))) 51 < 1"
    by (simp add: note_state_def push_new_page_def new_page_def compositor_new_def footnote_room_def TOP_LINE_def BOTTOM_LINE_def)
  show "- (2 ^ 31) \<le> next_page_no (note_state 51)" "next_page_no (note_state 51) < 2 ^ 31 - 2"
    by (simp_all add: note_state_def push_new_page_def compositor_new_def append_rows_def)
  show "50 < length (footer (snd (place_footnotes (note_refs note_line) (footnote_table (note_state 51))
      (last (pages (push_new_page (note_state 51)))))))"
    by code_simp
qed

text \<open>C16: the ToC entry line: when the entry, its page number and the one or two
  spaces before the leader fit in the 65 columns between the margins, the appended
  leader brings the line to exactly 65 characters and the entry's segments are kept;
  otherwise a \<open>usize\<close> subtraction underflows.\<close>

theorem toc_entry_line_width:
  "case toc_entry_line page_no l of
     Inr l' \<Rightarrow> line_length l' = RIGHT_MARGIN - LEFT_MARGIN + 1 \<and> butlast (segments l') = segments l
   | Inl e \<Rightarrow> e = Subtract_Overflow \<and> RIGHT_MARGIN - LEFT_MARGIN + 1
        < line_length l + length (int_to_string page_no) + (if odd (line_length l) then 1 else 2)"
  using leader_width [of "line_length l" "length (int_to_string page_no)"]
  by (auto simp: toc_entry_line_def Let_def usize_sub_def line_length_snoc length_concat_replicate_pair
      segment_of_string_def RIGHT_MARGIN_def LEFT_MARGIN_def odd_iff_mod_2_eq_one split: if_splits)


text \<open>C14: the page counter is an \<open>i32\<close>: when it is at \<open>i32::MAX\<close>, a block with a
  negative padding-before panics with an addition overflow when it starts its page,
  before the padding is negated (so also for \<open>padding_before = i32::MIN\<close>, whose
  negation would overflow too).\<close>

theorem compose_page_counter_overflow:
  assumes "padding_before b < 0" "next_page_no c = 2 ^ 31 - 1"
  shows "compose b c = Inl Add_Overflow"
  using assms by (simp add: compose_def)

theorem compose_page_counter_overflow_witness:
  "padding_before (Block [sample_line] [] Single (- (2 ^ 31)) 0 None) < 0
   \<and> next_page_no ((compositor_new 1 False)\<lparr>next_page_no := 2 ^ 31 - 1\<rparr>) = 2 ^ 31 - 1
   \<and> compose (Block [sample_line] [] Single (- (2 ^ 31)) 0 None) ((compositor_new 1 False)\<lparr>next_page_no := 2 ^ 31 - 1\<rparr>)
       = Inl Add_Overflow"
proof -
  have h: "padding_before (Block [sample_line] [] Single (- (2 ^ 31)) 0 None) < 0"
    "next_page_no ((compositor_new 1 False)\<lparr>next_page_no := 2 ^ 31 - 1\<rparr>) = 2 ^ 31 - 1"
    by simp_all
  show ?thesis
    using h compose_page_counter_overflow [OF h] by blast
qed

text \<open>C15: a document whose first page is numbered \<open>i32::MAX\<close> and that has no parts,
  chapters or sections makes \<open>run\<close> panic before it composes anything: the first
  page is started after \<open>next_page_no\<close> is set to the first page number, and the
  increment overflows.  The reader accepts any \<open>i32\<close> as \<open>firstPage\<close>.\<close>

theorem run_first_page_max_panics:
  "run bs (compositor_new (2 ^ 31 - 1) False) = Inl Add_Overflow"
  by (simp add: run_def compositor_new_def)

end
