(* ===== verification/Pipeline.thy ===== *)
theory Pipeline
  imports Formatter Page_Placement
begin

text \<open>
  Properties of the formatter and the compositor together, the way \<^verbatim>\<open>lib.rs\<close>
  chains them: the footnote blocks the formatter builds are exactly as tall as the
  compositor's \<open>count_lines\<close> estimate says, so the footer room it reserves is the
  room it uses; and a chapter heading always opens a new page.
\<close>

subsection \<open>Auxiliary definitions for the proofs\<close>

text \<open>The shape of a paragraph block, and the rows \<open>place_footnote\<close> appends for a
  list of blocks.\<close>

definition p_shaped :: "block \<Rightarrow> bool" where
  "p_shaped b \<longleftrightarrow> padding_before b = 0 \<and> padding_after b = (if line_spacing b = Double then 1 else 0)"

fun footnote_rows :: "block list \<Rightarrow> nat" where
  "footnote_rows [] = 0"
| "footnote_rows (b # bs) = length (lines b)
     + (if line_spacing b = Double \<and> lines b \<noteq> [] then (if bs \<noteq> [] then length (lines b) else length (lines b) - 1) else 0)
     + footnote_rows bs"

definition doc_footnote :: element where
  "doc_footnote = Footnote \<lparr>footnote_label = ''1'', footnote_spacing = Double\<rparr>
     [P_elem doc_para [word_token ''x''] [], P_elem doc_para [word_token ''y''] []]"

subsection \<open>Footnote paragraphs\<close>

lemma footnote_blocks_shaped: "footnote_blocks label i cs = Inr bs \<Longrightarrow> \<forall>b\<in>set bs. p_shaped b"
proof (induction cs arbitrary: i bs)
  case (Cons c cs)
  then show ?case
    by (cases c) (auto simp: p_shaped_def Let_def split: if_splits)
qed simp

lemma format_footnotes_shaped:
  "format_footnotes es = Inr fs \<Longrightarrow> (label, bs) \<in> set fs \<Longrightarrow> \<forall>b\<in>set bs. p_shaped b"
proof (induction es arbitrary: fs)
  case (Cons e es)
  then show ?case
    by (cases e) (auto dest!: footnote_blocks_shaped)
qed simp

lemma place_footnote_lines_length:
  "n = k + length ls \<Longrightarrow> length (footer (place_footnote_lines j m sp k n ls p))
     = length (footer p) + length ls + (if sp = Double \<and> ls \<noteq> [] then (if j < m - 1 then length ls else length ls - 1) else 0)"
proof (induction ls arbitrary: k p)
  case (Cons l ls)
  have n: "n = Suc k + length ls" using Cons.prems by simp
  have kn: "(k < n - Suc 0) = (ls \<noteq> [])" using n by auto
  show ?case
    by (cases "ls = []") (auto simp: Let_def push_footer_def kn Cons.IH [OF n])
qed simp

lemma place_footnote_length:
  "m = j + length bs \<Longrightarrow> length (footer (place_footnote j m bs p)) = length (footer p) + footnote_rows bs"
proof (induction bs arbitrary: j p)
  case (Cons b bs)
  then show ?case
    by (cases bs) (auto simp: place_footnote_lines_length)
qed simp

lemma count_lines_loop_shaped:
  "\<forall>b\<in>set bs. p_shaped b \<and> (line_spacing b = Double \<longrightarrow> lines b \<noteq> []) \<Longrightarrow>
     count_lines_loop i n lpa bs = Inr (n + (if 0 < i \<and> bs \<noteq> [] then lpa else 0) + footnote_rows bs)"
proof (induction bs arbitrary: i n lpa)
  case (Cons b bs)
  then show ?case
    by (cases "line_spacing b") (auto simp: p_shaped_def block_count_lines_def Let_def usize_sub_def)
qed simp

subsection \<open>Forced headings\<close>

lemma chapter_head:
  assumes "chapter_blocks a ts fns = Inr (b # bs)"
  shows "\<exists>h pa. b = Block [h] [] Single (-1) pa None \<and> note_refs h = []"
  using assms
  by (auto simp: chapter_blocks_def Let_def center_line_def line_of_segment_def split: if_splits sum.splits)

lemma push_new_page_table:
  "(push_new_page c)\<lparr>last_padding_after := x, footnote_table := footnote_table c\<rparr>
     = (push_new_page c)\<lparr>last_padding_after := x\<rparr>"
  by (simp add: push_new_page_def)

lemma compose_forced_heading:
  assumes "pages c \<noteq> []" "note_refs h = []" "- (2 ^ 31) \<le> next_page_no c" "next_page_no c < 2 ^ 31 - 1"
  shows "compose (Block [h] [] Single (-1) pa None) c
     = Inr (append_rows [Some h] ((push_new_page c)\<lparr>last_padding_after := pa\<rparr>))"
proof -
  let ?c1 = "(push_new_page c)\<lparr>last_padding_after := pa\<rparr>"
  have room: "1 \<le> line_room (last (pages ?c1))"
    by (simp add: line_room_def new_page_def TOP_LINE_def BOTTOM_LINE_def)
  have "compose_lines Single 1 0 [h] ?c1 = Inr (append_rows [Some h] ?c1)"
    using compose_line_plain [of ?c1 h Single 1 0, OF _ assms(2) room] by simp
  then show ?thesis
    using assms(1,3,4) by (simp add: compose_def pad_rows_append_rows compose_block_def push_new_page_table)
qed

subsection \<open>Properties\<close>

text \<open>C8: for the footnotes the formatter builds, \<open>count_lines\<close> (the estimate
  \<open>compose_block\<close> reserves in the footer) equals the number of rows
  \<open>place_footnote\<close> then appends, provided no double-spaced paragraph of the footnote
  is empty: the paragraph blocks' padding-after of 1 exactly pays for the blank row
  placed after a double-spaced paragraph that is not the last.\<close>

theorem footnote_rows_exact:
  assumes "format_footnotes es = Inr fs" "(label, bs) \<in> set fs"
    and "\<forall>b\<in>set bs. line_spacing b = Double \<longrightarrow> lines b \<noteq> []"
  shows "count_lines bs = Inr (length (footer (place_footnote 0 (length bs) bs p)) - length (footer p))"
  using count_lines_loop_shaped [of bs 0 0 0] format_footnotes_shaped [OF assms(1,2)] assms(3)
  by (simp add: count_lines_def place_footnote_length)

theorem footnote_rows_exact_witness:
  "\<exists>fs bs. format_footnotes [doc_footnote] = Inr fs \<and> (''1'', bs) \<in> set fs
     \<and> count_lines bs = Inr (length (footer (place_footnote 0 (length bs) bs (new_page 1))) - length (footer (new_page 1)))"
proof -
  have k: "map_sum id (map fst) (format_footnotes [doc_footnote]) = Inr [''1'']"
    by code_simp
  have d: "map_sum id (\<lambda>fs. \<forall>(l, bs)\<in>set fs. \<forall>b\<in>set bs. line_spacing b = Double \<longrightarrow> lines b \<noteq> [])
      (format_footnotes [doc_footnote]) = Inr True"
    by code_simp
  obtain fs where fs: "format_footnotes [doc_footnote] = Inr fs" "map fst fs = [''1'']"
    using k by (cases "format_footnotes [doc_footnote]") auto
  then obtain bs where bs: "fs = [(''1'', bs)]"
    by (cases fs) auto
  have ne: "\<forall>b\<in>set bs. line_spacing b = Double \<longrightarrow> lines b \<noteq> []"
    using d fs(1) bs by simp
  show ?thesis
    using footnote_rows_exact [OF fs(1) _ ne, of "''1''" "new_page 1"] fs(1) bs ne by simp
qed

text \<open>C11: the heading block of a chapter, composed on any state with a page,
  opens a new page numbered \<open>next_page_no\<close> whose only row is the heading line; the
  earlier pages are unchanged (when the page counter does not overflow, which panics).\<close>

theorem chapter_starts_page:
  assumes "chapter_blocks a ts fns = Inr (b # bs)" "pages c \<noteq> []"
    and "- (2 ^ 31) \<le> next_page_no c" "next_page_no c < 2 ^ 31 - 1"
  shows "\<exists>c'. compose b c = Inr c' \<and> butlast (pages c') = pages c
     \<and> number (last (pages c')) = next_page_no c \<and> page_lines (last (pages c')) = [Some (hd (lines b))]"
  using chapter_head [OF assms(1)] compose_forced_heading [OF assms(2) _ assms(3,4)]
  by (auto simp: pages_append_rows new_page_def)

theorem chapter_starts_page_witness:
  "\<exists>b bs c'. chapter_blocks \<lparr>chapter_number = 3, chapter_spacing = Single, chapter_depth = 0\<rparr> [word_token ''Storm''] []
       = Inr (b # bs)
     \<and> compose b (push_new_page (compositor_new 1 False)) = Inr c'
     \<and> butlast (pages c') = pages (push_new_page (compositor_new 1 False))
     \<and> number (last (pages c')) = next_page_no (push_new_page (compositor_new 1 False))
     \<and> page_lines (last (pages c')) = [Some (hd (lines b))]"
proof -
  have "map_sum id (\<lambda>bs. bs \<noteq> []) (chapter_blocks \<lparr>chapter_number = 3, chapter_spacing = Single, chapter_depth = 0\<rparr>
      [word_token ''Storm''] []) = Inr True"
    by code_simp
  then obtain b bs where r: "chapter_blocks \<lparr>chapter_number = 3, chapter_spacing = Single, chapter_depth = 0\<rparr>
      [word_token ''Storm''] [] = Inr (b # bs)"
    by (cases "chapter_blocks \<lparr>chapter_number = 3, chapter_spacing = Single, chapter_depth = 0\<rparr>
      [word_token ''Storm''] []") (auto simp: neq_Nil_conv)
  show ?thesis
    using chapter_starts_page [OF r, of "push_new_page (compositor_new 1 False)"] r
    by (auto simp: push_new_page_def compositor_new_def)
qed

end
