(* ===== verification/Page_Flow.thy ===== *)
theory Page_Flow
  imports Page_Frame
begin

text \<open>
  The compositor as a refinement of a simple contract: read in page order, the content
  rows of the output are exactly the lines of the blocks it was given, in order, each
  once (\<^verbatim>\<open>spec.md\<close>: the compositor may split a block's lines across two pages but
  never reorders or duplicates them).  The abstraction \<open>flow\<close> forgets the page breaks,
  the blank rows of padding and double spacing, and the footers; every compositor
  operation is proved to append to it exactly what the contract says: nothing for a new
  page, a padding or a footnote placement, one line for \<open>compose_line\<close>, the block's
  lines for \<open>compose\<close>, the non-ToC, non-contact blocks' lines for \<open>run\<close>'s block loop,
  and after them the ToC, a header line and one rewritten copy of each ToC block.
\<close>

subsection \<open>The abstraction\<close>

fun row_lines :: "line option list \<Rightarrow> line list" where
  "row_lines [] = []"
| "row_lines (None # rs) = row_lines rs"
| "row_lines (Some l # rs) = l # row_lines rs"

definition flow :: "page list \<Rightarrow> line list" where
  "flow pgs = concat (map (\<lambda>p. row_lines (page_lines p)) pgs)"

text \<open>The blocks \<open>run\<close> composes in its block loop, and those it records for the ToC.\<close>

definition body_lines :: "block list \<Rightarrow> line list" where
  "body_lines bs = concat (map lines (filter (\<lambda>b. tag b = None \<or> tag b = Some Head) bs))"

definition toc_blocks :: "block list \<Rightarrow> block list" where
  "toc_blocks bs = filter (\<lambda>b. tag b = Some ToC) bs"

text \<open>A ToC entry as composed: the block's lines with the first one rewritten.\<close>

definition toc_copies :: "line list list \<Rightarrow> block list \<Rightarrow> bool" where
  "toc_copies ls bs \<longleftrightarrow> list_all2 (\<lambda>l b. length l = length (lines b) \<and> tl l = tl (lines b)) ls bs"

subsection \<open>Each operation appends to the flow\<close>

lemma row_lines_append [simp]: "row_lines (xs @ ys) = row_lines xs @ row_lines ys"
  by (induction xs rule: row_lines.induct) simp_all

lemma row_lines_replicate_None [simp]: "row_lines (replicate n None) = []"
  by (induction n) simp_all

lemma flow_append [simp]: "flow (xs @ ys) = flow xs @ flow ys"
  and flow_Cons [simp]: "flow (p # pgs) = row_lines (page_lines p) @ flow pgs"
  and flow_Nil [simp]: "flow [] = []"
  by (simp_all add: flow_def)

lemma flow_butlast: "pgs \<noteq> [] \<Longrightarrow> flow pgs = flow (butlast pgs) @ row_lines (page_lines (last pgs))"
  by (metis append_butlast_last_id flow_Cons flow_Nil flow_append append_Nil2)

lemma flow_replace_last:
  "pgs \<noteq> [] \<Longrightarrow> flow (butlast pgs @ [q]) = flow pgs @ xs \<longleftrightarrow> row_lines (page_lines q) = row_lines (page_lines (last pgs)) @ xs"
  by (simp add: flow_butlast [of pgs])

lemma flow_append_rows: "pages c \<noteq> [] \<Longrightarrow> flow (pages (append_rows rs c)) = flow (pages c) @ row_lines rs"
  by (simp add: pages_append_rows flow_butlast [of "pages c"])

lemma page_lines_new_page [simp]: "page_lines (new_page n) = []"
  by (simp add: new_page_def)

lemma flow_new_page [simp]: "flow (pages (push_new_page c)) = flow (pages c)"
  by simp

lemma flow_compose_footnotes:
  assumes "pages c \<noteq> []" "compose_footnotes l c = Inr c'"
  shows "flow (pages c') = flow (pages c)"
proof -
  obtain c1 q where c1: "c1 = c \<or> c1 = push_new_page c" and q: "footer_ext (last (pages c1)) q"
      and c': "pages c' = butlast (pages c1) @ [q]"
    using compose_footnotes_shape [OF assms] by blast
  have "flow (pages c1) = flow (pages c)" "pages c1 \<noteq> []"
    using c1 assms(1) by auto
  then show ?thesis
    using c' q flow_replace_last [of "pages c1" q "[]"] by (simp add: footer_ext_def)
qed

lemma flow_compose_line:
  assumes "pages c \<noteq> []" "compose_line sp h i l c = Inr c'"
  shows "flow (pages c') = flow (pages c) @ [l]"
proof -
  obtain c2 c3 where c2: "compose_footnotes l c = Inr c2" "pages c2 \<noteq> []"
      and c3: "c3 = c2 \<or> c3 = push_new_page c2"
      and c': "c' = append_rows [Some l] c3 \<or> c' = append_rows [Some l, None] c3"
    using compose_line_shape [OF assms] by blast
  have "flow (pages c3) = flow (pages c)" "pages c3 \<noteq> []"
    using c3 c2(2) flow_compose_footnotes [OF assms(1) c2(1)] by auto
  then show ?thesis
    using c' flow_append_rows by auto
qed

lemma flow_compose_lines:
  "pages c \<noteq> [] \<Longrightarrow> compose_lines sp h i ls c = Inr c' \<Longrightarrow> flow (pages c') = flow (pages c) @ ls"
proof (induction ls arbitrary: i c)
  case (Cons l ls)
  then obtain c1 where c1: "compose_line sp h i l c = Inr c1" "compose_lines sp h (Suc i) ls c1 = Inr c'"
    by auto
  have "pages c1 \<noteq> []"
    using grows_pages_ne [OF grows_compose_line [OF Cons.prems(1) c1(1)]] .
  then show ?case
    using Cons.IH [OF _ c1(2)] flow_compose_line [OF Cons.prems(1) c1(1)] by simp
qed simp

lemma flow_compose_block:
  "pages c \<noteq> [] \<Longrightarrow> compose_block b c = Inr c' \<Longrightarrow> flow (pages c') = flow (pages c) @ lines b"
  unfolding compose_block_def by (drule flow_compose_lines [rotated]) simp_all

lemma flow_compose:
  assumes "pages c \<noteq> []" "compose b c = Inr c'"
  shows "flow (pages c') = flow (pages c) @ lines b"
proof -
  obtain c1 k where c1: "c1 = c \<or> c1 = push_new_page c"
      and blk: "compose_block b (append_rows (replicate k None) (c1\<lparr>last_padding_after := padding_after b\<rparr>)) = Inr c'"
    using compose_unfold [OF assms] by blast
  have "flow (pages (append_rows (replicate k None) (c1\<lparr>last_padding_after := padding_after b\<rparr>))) = flow (pages c)"
    using c1 assms(1) flow_append_rows [of "c1\<lparr>last_padding_after := padding_after b\<rparr>"] by auto
  then show ?thesis
    using flow_compose_block [OF append_rows_pages_ne blk] by simp
qed

lemma run_blocks_flow:
  "pages c \<noteq> [] \<Longrightarrow> run_blocks bs (c, toc) = Inr (c', toc') \<Longrightarrow>
     flow (pages c') = flow (pages c) @ body_lines bs \<and> map snd toc' = map snd toc @ toc_blocks bs"
proof (induction bs arbitrary: c toc)
  case Nil
  then show ?case by (simp add: body_lines_def toc_blocks_def)
next
  case (Cons b bs)
  show ?case
  proof (cases "tag b = None \<or> tag b = Some Head")
    case True
    then obtain c1 where c1: "compose b c = Inr c1" "run_blocks bs (c1, toc) = Inr (c', toc')"
      using Cons.prems by (auto split: option.splits tag.splits)
    have "pages c1 \<noteq> []"
      using grows_pages_ne [OF grows_compose [OF Cons.prems(1) c1(1)]] .
    then show ?thesis
      using Cons.IH [OF _ c1(2)] flow_compose [OF Cons.prems(1) c1(1)] True
      by (auto simp: body_lines_def toc_blocks_def)
  next
    case False
    then consider "tag b = Some Contact" | "tag b = Some ToC"
      by (metis option.exhaust tag.exhaust)
    then show ?thesis
    proof cases
      case 1
      then show ?thesis
        using Cons.prems Cons.IH [of "c\<lparr>contact := Some b\<rparr>" toc] by (simp add: body_lines_def toc_blocks_def)
    next
      case 2
      then show ?thesis
        using Cons.prems Cons.IH [of c "toc @ [(number (last (pages c)), b)]"] by (simp add: body_lines_def toc_blocks_def)
    qed
  qed
qed

lemma compose_toc_entries_flow:
  "pages c \<noteq> [] \<Longrightarrow> compose_toc_entries toc c = Inr c' \<Longrightarrow>
     \<exists>ls. flow (pages c') = flow (pages c) @ concat ls \<and> toc_copies ls (map snd toc)"
proof (induction toc arbitrary: c)
  case Nil
  then show ?case by (intro exI [of _ "[]"]) (simp add: toc_copies_def)
next
  case (Cons e rest)
  obtain page_no b where e: "e = (page_no, b)" by (cases e)
  show ?case
  proof (cases "lines b")
    case Nil
    then obtain ls where "flow (pages c') = flow (pages c) @ concat ls" "toc_copies ls (map snd rest)"
      using Cons e by auto
    then show ?thesis
      using Nil e by (intro exI [of _ "[] # ls"]) (simp add: toc_copies_def)
  next
    case (Cons l ls0)
    obtain l' c1 c2 where c1: "c1 = c \<or> c1 = (push_new_page c)\<lparr>last_padding_after := 0\<rparr>"
      and c2: "compose (Block (l' # ls0) (footnotes b) (line_spacing b) (padding_before b) (padding_after b) (tag b)) c1 = Inr c2"
      and r: "compose_toc_entries rest c2 = Inr c'"
      using Cons.prems e Cons by (fastforce simp: Let_def split: sum.splits if_splits)
    have "flow (pages c1) = flow (pages c)" "pages c1 \<noteq> []"
      using c1 Cons.prems(1) by auto
    then have "flow (pages c2) = flow (pages c) @ l' # ls0" "pages c2 \<noteq> []"
      using flow_compose [OF _ c2] grows_pages_ne [OF grows_compose [OF _ c2]] by simp_all
    moreover obtain ls where "flow (pages c') = flow (pages c2) @ concat ls" "toc_copies ls (map snd rest)"
      using Cons.IH [OF \<open>pages c2 \<noteq> []\<close> r] by blast
    ultimately show ?thesis
      using Cons e by (intro exI [of _ "(l' # ls0) # ls"]) (simp add: toc_copies_def)
  qed
qed

lemma compose_toc_flow:
  assumes "pages c \<noteq> []" "compose_toc toc c = Inr c'"
  shows "\<exists>ls. flow (pages c') = flow (pages c) @ toc_header # concat ls \<and> toc_copies ls (map snd toc)"
proof -
  obtain c1 where c1: "compose (Block [toc_header] [] Single (-1) CHAPTER_SKIP (Some ToC)) (c\<lparr>next_page_no := -1\<rparr>) = Inr c1"
      and r: "compose_toc_entries toc c1 = Inr c'"
    using assms(2) by (cases "compose (Block [toc_header] [] Single (-1) CHAPTER_SKIP (Some ToC)) (c\<lparr>next_page_no := -1\<rparr>)")
      (auto simp: compose_toc_def)
  have "flow (pages c1) = flow (pages c) @ [toc_header]" "pages c1 \<noteq> []"
    using flow_compose [OF _ c1] grows_pages_ne [OF grows_compose [OF _ c1]] assms(1) by simp_all
  then show ?thesis
    using compose_toc_entries_flow [OF _ r] by auto
qed

lemma run_flow_spec:
  assumes "run bs c = Inr c'"
  shows "\<exists>ts. flow (pages c') = flow (pages c) @ body_lines bs @ ts
     \<and> (if toc_blocks bs = [] then ts = []
        else (\<exists>ls. ts = toc_header # concat ls \<and> toc_copies ls (toc_blocks bs)))"
proof -
  obtain c1 where st: "(if pages c = []
        then (if has_structure c
              then bind_result (start_a_new_page c) (\<lambda>c0. Inr (c0\<lparr>next_page_no := first_page c\<rparr>))
              else start_a_new_page (c\<lparr>next_page_no := first_page c\<rparr>))
        else Inr c) = Inr c1"
    and rest: "bind_result (run_blocks bs (c1, [])) (\<lambda>(c2, toc). if toc \<noteq> [] then compose_toc toc c2 else Inr c2) = Inr c'"
    using assms unfolding run_def by auto
  have c1: "pages c1 \<noteq> []" "flow (pages c1) = flow (pages c)"
    using st by (auto split: if_splits)
  obtain c2 toc where c2: "run_blocks bs (c1, []) = Inr (c2, toc)"
      and fin: "(if toc \<noteq> [] then compose_toc toc c2 else Inr c2) = Inr c'"
    using rest by (cases "run_blocks bs (c1, [])") auto
  have flow2: "flow (pages c2) = flow (pages c) @ body_lines bs" and toc: "map snd toc = toc_blocks bs"
    using run_blocks_flow [OF c1(1) c2] c1(2) by simp_all
  have ne2: "pages c2 \<noteq> []"
    using run_blocks_grows [OF c1(1) c2] grows_pages_ne by blast
  show ?thesis
  proof (cases "toc = []")
    case True
    then show ?thesis using fin flow2 toc by simp
  next
    case False
    then obtain ls where "flow (pages c') = flow (pages c2) @ toc_header # concat ls" "toc_copies ls (map snd toc)"
      using compose_toc_flow [OF ne2] fin by auto
    then show ?thesis
      using False flow2 toc by auto
  qed
qed

subsection \<open>Properties\<close>

text \<open>C3: \<open>run\<close> refines the contract of the compositor.  Read in page order, the
  content rows of the output are the rows there were before, then the lines of every
  head-matter and untagged block in the order given, each exactly once, and then, if any
  block was tagged for the ToC, the ToC: its header line followed by one copy of each
  ToC block, in order, of the same length and with only the first line rewritten.
  Contact blocks are not composed.\<close>

theorem run_flow:
  assumes "run bs c = Inr c'"
  shows "\<exists>ts. flow (pages c') = flow (pages c) @ body_lines bs @ ts
     \<and> (if toc_blocks bs = [] then ts = []
        else (\<exists>ls. ts = toc_header # concat ls \<and> toc_copies ls (toc_blocks bs)))"
  using run_flow_spec [OF assms] .

theorem run_flow_witness:
  "\<exists>c'. run [Block [sample_line] [] Single 0 0 None, Block [sample_line] [] Single 0 0 (Some ToC),
        Block [sample_line] [] Single 0 0 (Some Contact)] (compositor_new 1 False) = Inr c'
     \<and> (\<exists>ts. flow (pages c') = [sample_line] @ ts
        \<and> (\<exists>ls. ts = toc_header # concat ls \<and> toc_copies ls [Block [sample_line] [] Single 0 0 (Some ToC)]))"
proof -
  have "\<not> isl (run [Block [sample_line] [] Single 0 0 None, Block [sample_line] [] Single 0 0 (Some ToC),
        Block [sample_line] [] Single 0 0 (Some Contact)] (compositor_new 1 False))"
    by code_simp
  then obtain c' where c': "run [Block [sample_line] [] Single 0 0 None, Block [sample_line] [] Single 0 0 (Some ToC),
        Block [sample_line] [] Single 0 0 (Some Contact)] (compositor_new 1 False) = Inr c'"
    using not_isl_Inr by blast
  show ?thesis
    using run_flow [OF c'] c' by (simp add: body_lines_def toc_blocks_def compositor_new_def)
qed

end
