(* ===== verification/Reader.thy ===== *)
theory Reader
  imports Elements
begin

text \<open>
  The XML reader of \<^verbatim>\<open>src/document/reader.rs\<close> and its attribute macros
  (\<^verbatim>\<open>reader/macros.rs\<close>): a pushdown automaton over the event stream of
  \<open>quick_xml\<close>.  The events are a datatype with the variants of \<open>quick_xml::events::Event\<close>
  that the reader distinguishes; a start or empty tag carries its local name and its
  attributes as (key, value) pairs, already decoded, and a text event its unescaped text.
  The stack alphabet \<open>State\<close> has one variant per element kind, wrapping the same data
  as the element it becomes; it is represented by \<open>element\<close> itself, the element
  under construction.  The \<open>Reader\<close> struct is a record; its stack is the Rust
  \<open>Vec\<close>, top at the end.  The text tokenizer \<open>crate::text::parser::Parser\<close> is
  not part of the repository: it is the parameter \<open>parser\<close> (text, tokens so far,
  display flags) \<mapsto> (words counted, tokens).  The counters are \<open>i32\<close> and every
  \<open>+ 1\<close> on them is checked.
\<close>

subsection \<open>Events and attributes\<close>

datatype xml_event =
    Start string "(string \<times> string) list"
  | End string
  | Empty string "(string \<times> string) list"
  | Text string
  | Comment
  | CData
  | Decl
  | PI
  | DocType
  | Eof

type_synonym attrs = "(string \<times> string) list"

type_synonym parser = "string \<Rightarrow> token_type list \<Rightarrow> display_flags \<Rightarrow> nat \<times> token_type list"

text \<open>The attribute macros scan every attribute and keep the last value that matches
  the key (and, for the typed ones, converts).\<close>

fun fetch_string_attr :: "attrs \<Rightarrow> string \<Rightarrow> string option" where
  "fetch_string_attr [] name = None"
| "fetch_string_attr ((k, v) # kvs) name =
     (case fetch_string_attr kvs name of
        None \<Rightarrow> (if k = name then Some v else None)
      | Some x \<Rightarrow> Some x)"

fun fetch_bool_attr :: "attrs \<Rightarrow> string \<Rightarrow> bool option" where
  "fetch_bool_attr [] name = None"
| "fetch_bool_attr ((k, v) # kvs) name =
     (case fetch_bool_attr kvs name of
        None \<Rightarrow> (if k = name \<and> v = ''true'' then Some True
                 else if k = name \<and> v = ''false'' then Some False else None)
      | Some x \<Rightarrow> Some x)"

definition fetch_enum_attr :: "(string \<Rightarrow> 'a) \<Rightarrow> attrs \<Rightarrow> string \<Rightarrow> 'a option" where
  "fetch_enum_attr f kvs name = map_option f (fetch_string_attr kvs name)"

fun fetch_numeric_attr :: "(string \<Rightarrow> 'a option) \<Rightarrow> attrs \<Rightarrow> string \<Rightarrow> 'a option" where
  "fetch_numeric_attr p [] name = None"
| "fetch_numeric_attr p ((k, v) # kvs) name =
     (case fetch_numeric_attr p kvs name of
        None \<Rightarrow> (if k = name then p v else None)
      | Some x \<Rightarrow> Some x)"

text \<open>\<open>str::parse\<close> for \<open>i32\<close> and \<open>usize\<close> (\<open>from_str_radix\<close> in base 10): an
  optional sign (\<open>-\<close> only for the signed type) followed by at least one decimal digit,
  rejected when the value is out of range.\<close>

definition is_digit :: "char \<Rightarrow> bool" where
  "is_digit c \<longleftrightarrow> (let k = (of_char c :: nat) in 48 \<le> k \<and> k \<le> 57)"

definition dec_digits :: "string \<Rightarrow> int option" where
  "dec_digits s =
     (if s \<noteq> [] \<and> list_all is_digit s
      then Some (foldl (\<lambda>n c. 10 * n + (of_char c - 48)) 0 s) else None)"

definition parse_i32 :: "string \<Rightarrow> int option" where
  "parse_i32 s =
     (case s of
        [] \<Rightarrow> None
      | c # r \<Rightarrow>
          if c = CHR ''-'' then
            Option.bind (dec_digits r) (\<lambda>n. if n \<le> 2 ^ 31 then Some (- n) else None)
          else
            Option.bind (dec_digits (if c = CHR ''+'' then r else s))
              (\<lambda>n. if n < 2 ^ 31 then Some n else None))"

definition parse_usize :: "string \<Rightarrow> nat option" where
  "parse_usize s =
     (case s of
        [] \<Rightarrow> None
      | c # r \<Rightarrow>
          Option.bind (dec_digits (if c = CHR ''+'' then r else s))
            (\<lambda>n. if n < 2 ^ 64 then Some (nat n) else None))"

definition line_spacing_attr :: "attrs \<Rightarrow> line_spacing option" where
  "line_spacing_attr kvs = fetch_enum_attr line_spacing_of_string kvs ''lineSpacing''"

definition spacing_or_single :: "attrs \<Rightarrow> line_spacing" where
  "spacing_or_single kvs = (case line_spacing_attr kvs of Some x \<Rightarrow> x | None \<Rightarrow> Single)"

subsection \<open>The reader state\<close>

record reader =
  stack :: "element list"
  next_note_no :: int
  next_part_no :: int
  next_chapter_no :: int
  next_section_no :: int
  next_li_no :: "int option"
  has_parts :: bool
  has_chapters :: bool
  has_sections :: bool
  root :: "element option"
  word_count :: nat

definition reader_new :: reader where
  "reader_new =
     \<lparr>stack = [], next_note_no = 1, next_part_no = 1, next_chapter_no = 1, next_section_no = 1,
      next_li_no = None, has_parts = False, has_chapters = False, has_sections = False,
      root = None, word_count = 0\<rparr>"

subsection \<open>The stack alphabet: leaving and resuming a state\<close>

fun is_space :: "token_type \<Rightarrow> bool" where
  "is_space (Space _) = True"
| "is_space _ = False"

text \<open>\<open>State::trim_whitespace\<close>: one leading and one trailing space token go.\<close>

definition trim_whitespace :: "token_type list \<Rightarrow> token_type list" where
  "trim_whitespace ts =
     (let ts1 = (case ts of t # r \<Rightarrow> if is_space t then r else ts | [] \<Rightarrow> [])
      in if ts1 \<noteq> [] \<and> is_space (last ts1) then butlast ts1 else ts1)"

definition contains_only_whitespace :: "token_type list \<Rightarrow> bool" where
  "contains_only_whitespace ts = list_all is_space ts"

fun trim_p :: "element \<Rightarrow> element" where
  "trim_p (P_elem a ts fns) = P_elem a (trim_whitespace ts) fns"
| "trim_p e = e"

text \<open>\<open>State::on_exit\<close>: the element a state becomes when its end tag is read.\<close>

fun on_exit :: "element \<Rightarrow> element" where
  "on_exit (Attribution sp ts fns) = Attribution sp (trim_whitespace ts) fns"
| "on_exit (BibRef sp ts fns) = BibRef sp (trim_whitespace ts) fns"
| "on_exit (Blockquote sp cs) = Blockquote sp (map trim_p cs)"
| "on_exit (Chapter a ts fns) = Chapter a (trim_whitespace ts) fns"
| "on_exit (Contact_elem sp ts fns) = Contact_elem sp (trim_whitespace ts) fns"
| "on_exit (Footnote a cs) = Footnote a (map trim_p cs)"
| "on_exit (Gn ts fns) = Gn (trim_whitespace ts) fns"
| "on_exit (Li a cs) = Li a (map trim_p cs)"
| "on_exit (P_elem a ts fns) = P_elem a (trim_whitespace ts) fns"
| "on_exit (Part a ts fns) = Part a (trim_whitespace ts) fns"
| "on_exit (Prefix ts fns) = Prefix (trim_whitespace ts) fns"
| "on_exit (Section a ts fns) = Section a (trim_whitespace ts) fns"
| "on_exit (Sn ts fns) = Sn (trim_whitespace ts) fns"
| "on_exit (Subtitle sp ts fns) = Subtitle sp (trim_whitespace ts) fns"
| "on_exit (Suffix c ts fns) = Suffix c (trim_whitespace ts) fns"
| "on_exit (Title sp ts fns) = Title sp (trim_whitespace ts) fns"
| "on_exit e = e"

text \<open>\<open>State::resume_text_element\<close> on the tokens and footnotes of a text element.\<close>

definition note_ref_token :: "string \<Rightarrow> token_type" where
  "note_ref_token label = NoteRef \<lparr>data = label, dpy = SUP_flag, frm = 0\<rparr>"

fun resume_text_element :: "token_type list \<times> element list \<Rightarrow> element \<Rightarrow> token_type list \<times> element list" where
  "resume_text_element (ts, fns) Br = (ts @ [line_break_token], fns)"
| "resume_text_element (ts, fns) (Em cts _) = (ts @ cts, fns)"
| "resume_text_element (ts, fns) (Footnote a cs) = (ts @ [note_ref_token (footnote_label a)], fns @ [Footnote a cs])"
| "resume_text_element (ts, fns) (NoteRef_elem label) = (ts @ [note_ref_token label], fns)"
| "resume_text_element (ts, fns) (Sub cts _) = (ts @ cts, fns)"
| "resume_text_element (ts, fns) (Sup_elem cts _) = (ts @ cts, fns)"
| "resume_text_element tf _ = tf"

fun resume_wrapper :: "element \<Rightarrow> element \<Rightarrow> element" where
  "resume_wrapper (P_elem a ts fns) child = (case resume_text_element (ts, fns) child of (ts', fns') \<Rightarrow> P_elem a ts' fns')"
| "resume_wrapper e child = e"

fun is_p :: "element \<Rightarrow> bool" where
  "is_p (P_elem _ _ _) = True"
| "is_p _ = False"

fun p_tokens :: "element \<Rightarrow> token_type list" where
  "p_tokens (P_elem _ ts _) = ts"
| "p_tokens _ = []"

text \<open>The macro \<open>resume_mixed_content!\<close> of the containers that take text directly
  (\<open>Blockquote\<close>, \<open>Footnote\<close>, \<open>Li\<close>): a \<open>p\<close> child replaces a trailing
  whitespace-only paragraph; any other child goes into the trailing paragraph, or into a
  new wrapper paragraph with the given margins.\<close>

definition resume_mixed_content :: "nat \<Rightarrow> nat \<Rightarrow> line_spacing \<Rightarrow> element list \<Rightarrow> element \<Rightarrow> element list" where
  "resume_mixed_content lm rm sp cs child =
     (if is_p child then
        (if cs \<noteq> [] \<and> is_p (last cs) \<and> contains_only_whitespace (p_tokens (last cs))
         then butlast cs @ [child] else cs @ [child])
      else if cs \<noteq> [] \<and> is_p (last cs) then butlast cs @ [resume_wrapper (last cs) child]
      else cs @ [resume_wrapper (P_elem \<lparr>p_indent = 0, p_spacing = sp, p_left_margin = lm, p_right_margin = rm\<rparr> [] []) child])"

text \<open>\<open>State::on_resume\<close>: a parent state receives the element its child became.\<close>

fun on_resume :: "element \<Rightarrow> element \<Rightarrow> element" where
  "on_resume (Attribution sp ts fns) ch = (case resume_text_element (ts, fns) ch of (ts', fns') \<Rightarrow> Attribution sp ts' fns')"
| "on_resume (Authors sp cs) ch = Authors sp (cs @ [ch])"
| "on_resume (Backmatter l cs) ch = Backmatter l (cs @ [ch])"
| "on_resume (BibRef sp ts fns) ch = (case resume_text_element (ts, fns) ch of (ts', fns') \<Rightarrow> BibRef sp ts' fns')"
| "on_resume (Blockquote sp cs) ch = Blockquote sp (resume_mixed_content (LEFT_MARGIN + INDENT) (RIGHT_MARGIN - INDENT) sp cs ch)"
| "on_resume (Body cs) ch = Body (cs @ [ch])"
| "on_resume (Chapter a ts fns) ch = (case resume_text_element (ts, fns) ch of (ts', fns') \<Rightarrow> Chapter a ts' fns')"
| "on_resume (Contact_elem sp ts fns) ch = (case resume_text_element (ts, fns) ch of (ts', fns') \<Rightarrow> Contact_elem sp ts' fns')"
| "on_resume (Em ts fns) ch = (case resume_text_element (ts, fns) ch of (ts', fns') \<Rightarrow> Em ts' fns')"
| "on_resume (Footnote a cs) ch = Footnote a (resume_mixed_content LEFT_MARGIN RIGHT_MARGIN (footnote_spacing a) cs ch)"
| "on_resume (Frontmatter l cs) ch = Frontmatter l (cs @ [ch])"
| "on_resume (Gn ts fns) ch = (case resume_text_element (ts, fns) ch of (ts', fns') \<Rightarrow> Gn ts' fns')"
| "on_resume (Head_elem cs) ch = Head_elem (cs @ [ch])"
| "on_resume (Li a cs) ch = Li a (resume_mixed_content (LEFT_MARGIN + INDENT) RIGHT_MARGIN (li_spacing a) cs ch)"
| "on_resume (Manuscript a cs) ch = Manuscript a (cs @ [ch])"
| "on_resume (Ol a cs) ch = Ol a (cs @ [ch])"
| "on_resume (P_elem a ts fns) ch = (case resume_text_element (ts, fns) ch of (ts', fns') \<Rightarrow> P_elem a ts' fns')"
| "on_resume (Part a ts fns) ch = (case resume_text_element (ts, fns) ch of (ts', fns') \<Rightarrow> Part a ts' fns')"
| "on_resume (Person cs) ch = Person (cs @ [ch])"
| "on_resume (Prefix ts fns) ch = (case resume_text_element (ts, fns) ch of (ts', fns') \<Rightarrow> Prefix ts' fns')"
| "on_resume (Section a ts fns) ch = (case resume_text_element (ts, fns) ch of (ts', fns') \<Rightarrow> Section a ts' fns')"
| "on_resume (Sn ts fns) ch = (case resume_text_element (ts, fns) ch of (ts', fns') \<Rightarrow> Sn ts' fns')"
| "on_resume (Subtitle sp ts fns) ch = (case resume_text_element (ts, fns) ch of (ts', fns') \<Rightarrow> Subtitle sp ts' fns')"
| "on_resume (Suffix c ts fns) ch = (case resume_text_element (ts, fns) ch of (ts', fns') \<Rightarrow> Suffix c ts' fns')"
| "on_resume (Title sp ts fns) ch = (case resume_text_element (ts, fns) ch of (ts', fns') \<Rightarrow> Title sp ts' fns')"
| "on_resume (Ul sp cs) ch = Ul sp (cs @ [ch])"
| "on_resume e ch = e"

text \<open>\<open>Reader::push\<close> and \<open>Reader::pop\<close> (the \<open>on_enter\<close> and \<open>on_pause\<close> hooks
  do nothing).\<close>

definition push :: "element \<Rightarrow> reader \<Rightarrow> reader" where
  "push e r = r\<lparr>stack := stack r @ [e]\<rparr>"

definition pop :: "reader \<Rightarrow> reader" where
  "pop r =
     (if stack r = [] then r
      else
        (let elem = on_exit (last (stack r)); s = butlast (stack r)
         in if s = [] then r\<lparr>stack := [], root := Some elem\<rparr>
            else r\<lparr>stack := butlast s @ [on_resume (last s) elem]\<rparr>))"

subsection \<open>Start tags\<close>

text \<open>The numbering shared by chapters, parts and sections: an explicit \<open>number\<close>
  attribute is taken and the counter continues after it, otherwise the counter is used
  and incremented; both \<open>+ 1\<close> are \<open>i32\<close> additions.\<close>

definition next_number :: "attrs \<Rightarrow> int \<Rightarrow> (int \<times> int) result" where
  "next_number kvs next =
     (case fetch_numeric_attr parse_i32 kvs ''number'' of
        Some n \<Rightarrow> bind_result (i32_add n 1) (\<lambda>n1. Inr (n, n1))
      | None \<Rightarrow> bind_result (i32_add next 1) (\<lambda>n1. Inr (next, n1)))"

definition start_attribution :: "attrs \<Rightarrow> reader \<Rightarrow> reader" where
  "start_attribution kvs r = push (Attribution (spacing_or_single kvs) [] []) r"

definition start_authors :: "attrs \<Rightarrow> reader \<Rightarrow> reader" where
  "start_authors kvs r = push (Authors (spacing_or_single kvs) []) r"

definition start_backmatter :: "attrs \<Rightarrow> reader \<Rightarrow> reader" where
  "start_backmatter kvs r =
     push (Backmatter (case fetch_string_attr kvs ''label'' of Some l \<Rightarrow> l | None \<Rightarrow> ''BACKMATTER'') []) r"

definition start_bibref :: "attrs \<Rightarrow> reader \<Rightarrow> reader" where
  "start_bibref kvs r = push (BibRef (spacing_or_single kvs) [] []) r"

definition start_blockquote :: "attrs \<Rightarrow> reader \<Rightarrow> reader" where
  "start_blockquote kvs r = push (Blockquote (spacing_or_single kvs) []) r"

definition start_body :: "reader \<Rightarrow> reader" where
  "start_body r = push (Body []) r"

text \<open>A chapter: its number, the section counter reset; shared by the start and the
  empty tag, which differ in recording that the document has chapters.\<close>

definition open_chapter :: "attrs \<Rightarrow> reader \<Rightarrow> (element \<times> reader) result" where
  "open_chapter kvs r =
     bind_result (next_number kvs (next_chapter_no r)) (\<lambda>(n, n1).
       Inr (Chapter \<lparr>chapter_number = n, chapter_spacing = spacing_or_single kvs, chapter_depth = -1\<rparr> [] [],
            r\<lparr>next_chapter_no := n1, next_section_no := 1\<rparr>))"

definition start_chapter :: "attrs \<Rightarrow> reader \<Rightarrow> reader result" where
  "start_chapter kvs r =
     bind_result (open_chapter kvs r) (\<lambda>(e, r1). Inr (push e (r1\<lparr>has_chapters := True\<rparr>)))"

definition start_contact :: "attrs \<Rightarrow> reader \<Rightarrow> reader" where
  "start_contact kvs r = push (Contact_elem (spacing_or_single kvs) [] []) r"

definition start_em :: "reader \<Rightarrow> reader" where
  "start_em r = push (Em [] []) r"

definition start_footnote :: "attrs \<Rightarrow> reader \<Rightarrow> reader result" where
  "start_footnote kvs r =
     bind_result
       (case fetch_string_attr kvs ''label'' of
          Some s \<Rightarrow>
            (case parse_i32 s of
               Some n \<Rightarrow> bind_result (i32_add n 1) (\<lambda>n1. Inr (s, r\<lparr>next_note_no := n1\<rparr>))
             | None \<Rightarrow> Inr (s, r))
        | None \<Rightarrow>
            bind_result (i32_add (next_note_no r) 1) (\<lambda>n1.
              Inr (int_to_string (next_note_no r), r\<lparr>next_note_no := n1\<rparr>)))
       (\<lambda>(label, r1).
          Inr (push (Footnote \<lparr>footnote_label = label, footnote_spacing = spacing_or_single kvs\<rparr> []) r1))"

definition start_frontmatter :: "attrs \<Rightarrow> reader \<Rightarrow> reader" where
  "start_frontmatter kvs r =
     push (Frontmatter (case fetch_string_attr kvs ''label'' of Some l \<Rightarrow> l | None \<Rightarrow> ''FRONTMATTER'') []) r"

definition start_gn :: "reader \<Rightarrow> reader" where
  "start_gn r = push (Gn [] []) r"

definition start_head :: "reader \<Rightarrow> reader" where
  "start_head r = push (Head_elem []) r"

text \<open>A list item is numbered only while \<open>next_li_no\<close> is set, which only \<open>ol\<close>
  does; its line spacing is the enclosing list's unless given.\<close>

fun list_spacing :: "element \<Rightarrow> line_spacing" where
  "list_spacing (Ol a _) = ol_spacing a"
| "list_spacing (Ul sp _) = sp"
| "list_spacing _ = Single"

definition start_li :: "attrs \<Rightarrow> reader \<Rightarrow> reader result" where
  "start_li kvs r =
     bind_result
       (case next_li_no r of
          None \<Rightarrow> Inr (None, r)
        | Some n \<Rightarrow>
            (case fetch_numeric_attr parse_i32 kvs ''number'' of
               Some m \<Rightarrow> bind_result (i32_add m 1) (\<lambda>m1. Inr (Some m, r\<lparr>next_li_no := Some m1\<rparr>))
             | None \<Rightarrow> bind_result (i32_add n 1) (\<lambda>n1. Inr (Some n, r\<lparr>next_li_no := Some n1\<rparr>))))
       (\<lambda>(num, r1).
          let sp0 = (if stack r1 = [] then Single else list_spacing (last (stack r1)));
              sp = (case line_spacing_attr kvs of Some v \<Rightarrow> v | None \<Rightarrow> sp0)
          in Inr (push (Li \<lparr>li_number = num, li_spacing = sp\<rparr> []) r1))"

definition start_manuscript :: "attrs \<Rightarrow> reader \<Rightarrow> reader" where
  "start_manuscript kvs r =
     push (Manuscript \<lparr>ms_first_page = (case fetch_numeric_attr parse_i32 kvs ''firstPage'' of Some n \<Rightarrow> n | None \<Rightarrow> 1),
                       ms_word_count = 0, ms_has_structure = False\<rparr> []) r"

definition start_ol :: "attrs \<Rightarrow> reader \<Rightarrow> reader" where
  "start_ol kvs r =
     (let start_no = (case fetch_numeric_attr parse_i32 kvs ''startNo'' of Some n \<Rightarrow> n | None \<Rightarrow> 1)
      in push (Ol \<lparr>ol_start_no = start_no, ol_spacing = spacing_or_single kvs\<rparr> []) (r\<lparr>next_li_no := Some start_no\<rparr>))"

text \<open>A paragraph takes its spacing and margins from a \<open>blockquote\<close>, \<open>footnote\<close>
  or \<open>li\<close> it is opened in, and is double-spaced elsewhere.\<close>

fun p_context :: "element \<Rightarrow> line_spacing \<times> nat \<times> nat" where
  "p_context (Blockquote sp _) = (sp, LEFT_MARGIN + INDENT, RIGHT_MARGIN - INDENT)"
| "p_context (Footnote a _) = (footnote_spacing a, LEFT_MARGIN, RIGHT_MARGIN)"
| "p_context (Li a _) = (li_spacing a, LEFT_MARGIN + INDENT * 2, RIGHT_MARGIN)"
| "p_context _ = (Double, LEFT_MARGIN, RIGHT_MARGIN)"

definition start_p :: "attrs \<Rightarrow> reader \<Rightarrow> reader" where
  "start_p kvs r =
     (let indent = (case fetch_numeric_attr parse_usize kvs ''indent'' of Some n \<Rightarrow> n | None \<Rightarrow> INDENT);
          (sp0, lm, rm) = (if stack r = [] then (Double, LEFT_MARGIN, RIGHT_MARGIN) else p_context (last (stack r)));
          sp = (case line_spacing_attr kvs of Some v \<Rightarrow> v | None \<Rightarrow> sp0)
      in push (P_elem \<lparr>p_indent = indent, p_spacing = sp, p_left_margin = lm, p_right_margin = rm\<rparr> [] []) r)"

definition open_part :: "attrs \<Rightarrow> reader \<Rightarrow> (element \<times> reader) result" where
  "open_part kvs r =
     bind_result (next_number kvs (next_part_no r)) (\<lambda>(n, n1).
       Inr (Part \<lparr>part_number = n, part_spacing = spacing_or_single kvs, part_depth = -1\<rparr> [] [],
            r\<lparr>next_part_no := n1, next_chapter_no := 1, next_section_no := 1\<rparr>))"

definition start_part :: "attrs \<Rightarrow> reader \<Rightarrow> reader result" where
  "start_part kvs r =
     bind_result (open_part kvs r) (\<lambda>(e, r1). Inr (push e (r1\<lparr>has_parts := True\<rparr>)))"

definition start_person :: "reader \<Rightarrow> reader" where
  "start_person r = push (Person []) r"

definition start_prefix :: "reader \<Rightarrow> reader" where
  "start_prefix r = push (Prefix [] []) r"

text \<open>A section directly after a chapter heading in the body does not force a page.\<close>

fun is_chapter :: "element \<Rightarrow> bool" where
  "is_chapter (Chapter _ _ _) = True"
| "is_chapter _ = False"

fun follows_chapter :: "element \<Rightarrow> bool" where
  "follows_chapter (Body cs) = (cs \<noteq> [] \<and> is_chapter (last cs))"
| "follows_chapter _ = False"

definition open_section :: "attrs \<Rightarrow> reader \<Rightarrow> (element \<times> reader) result" where
  "open_section kvs r =
     (let pb = (if stack r \<noteq> [] \<and> follows_chapter (last (stack r)) then 0 else -1)
      in bind_result (next_number kvs (next_section_no r)) (\<lambda>(n, n1).
           Inr (Section \<lparr>section_number = n, section_spacing = spacing_or_single kvs,
                         section_padding_before = pb, section_depth = -1\<rparr> [] [],
                r\<lparr>next_section_no := n1\<rparr>)))"

definition start_section :: "attrs \<Rightarrow> reader \<Rightarrow> reader result" where
  "start_section kvs r =
     bind_result (open_section kvs r) (\<lambda>(e, r1). Inr (push e (r1\<lparr>has_sections := True\<rparr>)))"

definition start_sn :: "reader \<Rightarrow> reader" where
  "start_sn r = push (Sn [] []) r"

definition start_sub :: "reader \<Rightarrow> reader" where
  "start_sub r = push (Sub [] []) r"

definition start_subtitle :: "attrs \<Rightarrow> reader \<Rightarrow> reader" where
  "start_subtitle kvs r = push (Subtitle (spacing_or_single kvs) [] []) r"

definition start_suffix :: "attrs \<Rightarrow> reader \<Rightarrow> reader" where
  "start_suffix kvs r =
     push (Suffix (case fetch_bool_attr kvs ''comma'' of Some b \<Rightarrow> b | None \<Rightarrow> False) [] []) r"

definition start_sup :: "reader \<Rightarrow> reader" where
  "start_sup r = push (Sup_elem [] []) r"

definition start_title :: "attrs \<Rightarrow> reader \<Rightarrow> reader" where
  "start_title kvs r = push (Title (spacing_or_single kvs) [] []) r"

definition start_ul :: "attrs \<Rightarrow> reader \<Rightarrow> reader" where
  "start_ul kvs r = push (Ul (spacing_or_single kvs) []) r"

text \<open>The dispatch on the local name of a start tag; an unknown name is ignored.\<close>

definition start_event :: "string \<Rightarrow> attrs \<Rightarrow> reader \<Rightarrow> reader result" where
  "start_event name kvs r =
     (if name = ''attribution'' then Inr (start_attribution kvs r)
      else if name = ''authors'' then Inr (start_authors kvs r)
      else if name = ''backmatter'' then Inr (start_backmatter kvs r)
      else if name = ''bibRef'' then Inr (start_bibref kvs r)
      else if name = ''blockquote'' then Inr (start_blockquote kvs r)
      else if name = ''body'' then Inr (start_body r)
      else if name = ''chapter'' then start_chapter kvs r
      else if name = ''contact'' then Inr (start_contact kvs r)
      else if name = ''em'' then Inr (start_em r)
      else if name = ''footnote'' then start_footnote kvs r
      else if name = ''frontmatter'' then Inr (start_frontmatter kvs r)
      else if name = ''gn'' then Inr (start_gn r)
      else if name = ''head'' then Inr (start_head r)
      else if name = ''li'' then start_li kvs r
      else if name = ''manuscript'' then Inr (start_manuscript kvs r)
      else if name = ''ol'' then Inr (start_ol kvs r)
      else if name = ''p'' then Inr (start_p kvs r)
      else if name = ''part'' then start_part kvs r
      else if name = ''person'' then Inr (start_person r)
      else if name = ''prefix'' then Inr (start_prefix r)
      else if name = ''section'' then start_section kvs r
      else if name = ''sn'' then Inr (start_sn r)
      else if name = ''sub'' then Inr (start_sub r)
      else if name = ''subtitle'' then Inr (start_subtitle kvs r)
      else if name = ''suffix'' then Inr (start_suffix kvs r)
      else if name = ''sup'' then Inr (start_sup r)
      else if name = ''title'' then Inr (start_title kvs r)
      else if name = ''ul'' then Inr (start_ul kvs r)
      else Inr r)"

definition start_names :: "string list" where
  "start_names = [''attribution'', ''authors'', ''backmatter'', ''bibRef'', ''blockquote'', ''body'',
     ''chapter'', ''contact'', ''em'', ''footnote'', ''frontmatter'', ''gn'', ''head'', ''li'',
     ''manuscript'', ''ol'', ''p'', ''part'', ''person'', ''prefix'', ''section'', ''sn'', ''sub'',
     ''subtitle'', ''suffix'', ''sup'', ''title'', ''ul'']"

subsection \<open>Empty tags\<close>

text \<open>An empty tag is pushed and popped at once.  The empty \<open>chapter\<close>, \<open>part\<close>
  and \<open>section\<close> do not set \<open>has_chapters\<close>, \<open>has_parts\<close>, \<open>has_sections\<close>.\<close>

definition empty_event :: "string \<Rightarrow> attrs \<Rightarrow> reader \<Rightarrow> reader result" where
  "empty_event name kvs r =
     (if name = ''br'' then Inr (pop (push Br r))
      else if name = ''chapter'' then bind_result (open_chapter kvs r) (\<lambda>(e, r1). Inr (pop (push e r1)))
      else if name = ''div'' then Inr (pop (push Div r))
      else if name = ''noteRef'' then
        Inr (pop (push (NoteRef_elem (case fetch_string_attr kvs ''label'' of Some l \<Rightarrow> l | None \<Rightarrow> ''*'')) r))
      else if name = ''pageBreak'' then Inr (pop (push PageBreak r))
      else if name = ''part'' then bind_result (open_part kvs r) (\<lambda>(e, r1). Inr (pop (push e r1)))
      else if name = ''section'' then bind_result (open_section kvs r) (\<lambda>(e, r1). Inr (pop (push e r1)))
      else Inr r)"


subsection \<open>Text\<close>

text \<open>Text inside a container that takes text directly goes into its trailing
  paragraph, or into a new wrapper paragraph.\<close>

definition text_mixed :: "parser \<Rightarrow> string \<Rightarrow> nat \<Rightarrow> nat \<Rightarrow> line_spacing \<Rightarrow> element list \<Rightarrow> nat \<times> element list" where
  "text_mixed parser t lm rm sp cs =
     (if cs \<noteq> [] \<and> is_p (last cs) then
        (case last cs of
           P_elem a ts fns \<Rightarrow> (case parser t ts 0 of (n, ts') \<Rightarrow> (n, butlast cs @ [P_elem a ts' fns]))
         | _ \<Rightarrow> (0, cs))
      else
        (case parser t [] 0 of
           (n, ts') \<Rightarrow> (n, cs @ [P_elem \<lparr>p_indent = 0, p_spacing = sp, p_left_margin = lm, p_right_margin = rm\<rparr> ts' []])))"

text \<open>The state on top of the stack receives a text event if it takes text, with the
  display flags of \<open>em\<close>, \<open>sub\<close> and \<open>sup\<close>; any other state ignores it.\<close>

fun text_into :: "parser \<Rightarrow> string \<Rightarrow> element \<Rightarrow> (nat \<times> element) option" where
  "text_into parser t (Attribution sp ts fns) = (case parser t ts 0 of (n, ts') \<Rightarrow> Some (n, Attribution sp ts' fns))"
| "text_into parser t (BibRef sp ts fns) = (case parser t ts 0 of (n, ts') \<Rightarrow> Some (n, BibRef sp ts' fns))"
| "text_into parser t (Blockquote sp cs) =
     (case text_mixed parser t (LEFT_MARGIN + INDENT) (RIGHT_MARGIN - INDENT) sp cs of (n, cs') \<Rightarrow> Some (n, Blockquote sp cs'))"
| "text_into parser t (Chapter a ts fns) = (case parser t ts 0 of (n, ts') \<Rightarrow> Some (n, Chapter a ts' fns))"
| "text_into parser t (Contact_elem sp ts fns) = (case parser t ts 0 of (n, ts') \<Rightarrow> Some (n, Contact_elem sp ts' fns))"
| "text_into parser t (Em ts fns) = (case parser t ts EM of (n, ts') \<Rightarrow> Some (n, Em ts' fns))"
| "text_into parser t (Footnote a cs) =
     (case text_mixed parser t LEFT_MARGIN RIGHT_MARGIN (footnote_spacing a) cs of (n, cs') \<Rightarrow> Some (n, Footnote a cs'))"
| "text_into parser t (Gn ts fns) = (case parser t ts 0 of (n, ts') \<Rightarrow> Some (n, Gn ts' fns))"
| "text_into parser t (Li a cs) =
     (case text_mixed parser t (LEFT_MARGIN + 2 * INDENT) RIGHT_MARGIN (li_spacing a) cs of (n, cs') \<Rightarrow> Some (n, Li a cs'))"
| "text_into parser t (P_elem a ts fns) = (case parser t ts 0 of (n, ts') \<Rightarrow> Some (n, P_elem a ts' fns))"
| "text_into parser t (Part a ts fns) = (case parser t ts 0 of (n, ts') \<Rightarrow> Some (n, Part a ts' fns))"
| "text_into parser t (Prefix ts fns) = (case parser t ts 0 of (n, ts') \<Rightarrow> Some (n, Prefix ts' fns))"
| "text_into parser t (Section a ts fns) = (case parser t ts 0 of (n, ts') \<Rightarrow> Some (n, Section a ts' fns))"
| "text_into parser t (Sub ts fns) = (case parser t ts SUB of (n, ts') \<Rightarrow> Some (n, Sub ts' fns))"
| "text_into parser t (Suffix c ts fns) = (case parser t ts 0 of (n, ts') \<Rightarrow> Some (n, Suffix c ts' fns))"
| "text_into parser t (Sn ts fns) = (case parser t ts 0 of (n, ts') \<Rightarrow> Some (n, Sn ts' fns))"
| "text_into parser t (Subtitle sp ts fns) = (case parser t ts 0 of (n, ts') \<Rightarrow> Some (n, Subtitle sp ts' fns))"
| "text_into parser t (Sup_elem ts fns) = (case parser t ts SUP_flag of (n, ts') \<Rightarrow> Some (n, Sup_elem ts' fns))"
| "text_into parser t (Title sp ts fns) = (case parser t ts 0 of (n, ts') \<Rightarrow> Some (n, Title sp ts' fns))"
| "text_into parser t _ = None"

definition text_event :: "parser \<Rightarrow> string \<Rightarrow> reader \<Rightarrow> reader" where
  "text_event parser t r =
     (if stack r = [] then r
      else
        (case text_into parser t (last (stack r)) of
           None \<Rightarrow> r
         | Some (n, e) \<Rightarrow> r\<lparr>stack := butlast (stack r) @ [e], word_count := word_count r + n\<rparr>))"

subsection \<open>The event loop and the post-processing\<close>

text \<open>The loop of \<open>Reader::run\<close>; the event list stands for the rest of the input,
  whose end is \<open>Eof\<close>.  An end tag pops whatever is on top, whatever its name.\<close>

fun read_events :: "parser \<Rightarrow> xml_event list \<Rightarrow> reader \<Rightarrow> reader result" where
  "read_events parser [] r = Inr r"
| "read_events parser (Start name kvs # evs) r = bind_result (start_event name kvs r) (read_events parser evs)"
| "read_events parser (End _ # evs) r = read_events parser evs (pop r)"
| "read_events parser (Empty name kvs # evs) r = bind_result (empty_event name kvs r) (read_events parser evs)"
| "read_events parser (Text t # evs) r = read_events parser evs (text_event parser t r)"
| "read_events parser (Eof # evs) r = Inr r"
| "read_events parser (_ # evs) r = read_events parser evs r"

text \<open>The depths of the structural headings, set on the children of the first body.\<close>

fun set_depth :: "int \<Rightarrow> int \<Rightarrow> int \<Rightarrow> element \<Rightarrow> element" where
  "set_depth pd cd sd (Chapter a ts fns) = Chapter (a\<lparr>chapter_depth := cd\<rparr>) ts fns"
| "set_depth pd cd sd (Part a ts fns) = Part (a\<lparr>part_depth := pd\<rparr>) ts fns"
| "set_depth pd cd sd (Section a ts fns) = Section (a\<lparr>section_depth := sd\<rparr>) ts fns"
| "set_depth pd cd sd e = e"

fun set_body_depths :: "int \<Rightarrow> int \<Rightarrow> int \<Rightarrow> element list \<Rightarrow> element list" where
  "set_body_depths pd cd sd [] = []"
| "set_body_depths pd cd sd (Body bcs # cs) = Body (map (set_depth pd cd sd) bcs) # cs"
| "set_body_depths pd cd sd (c # cs) = c # set_body_depths pd cd sd cs"

definition post_process :: "reader \<Rightarrow> reader" where
  "post_process r =
     (case root r of
        Some (Manuscript a cs) \<Rightarrow>
          (let pd = (if has_parts r then 0 else -1);
               cd = (if has_chapters r then (if 0 \<le> pd then 1 else 0) else -1);
               sd = (if has_sections r then (if 0 \<le> pd \<and> 0 \<le> cd then 2 else 1) else -1);
               a' = a\<lparr>ms_word_count := word_count r,
                      ms_has_structure := (ms_has_structure a \<or> has_parts r \<or> has_chapters r \<or> has_sections r)\<rparr>
           in r\<lparr>root := Some (Manuscript a' (set_body_depths pd cd sd cs))\<rparr>)
      | _ \<Rightarrow> r)"

text \<open>\<open>Reader::run\<close>: the root element, if the input closed one.\<close>

definition reader_run :: "parser \<Rightarrow> xml_event list \<Rightarrow> element option result" where
  "reader_run parser evs = bind_result (read_events parser evs reader_new) (\<lambda>r. Inr (root (post_process r)))"

end
