(* ===== verification/Reader_Props.thy ===== *)
theory Reader_Props
  imports Reader
begin

text \<open>
  Properties of the reader.  The stack discipline: a known start tag pushes one state,
  an end tag pops one, an empty tag, a text event and the ignored events leave the
  depth unchanged, so a well-nested document of known elements is read back to an empty
  stack with its root element; the only panic is an \<open>i32\<close> counter overflow.  The
  numbering of empty chapter tags, the overflow of a chapter number, and the behaviours
  the automaton has on inputs outside the schema: an unknown element's end tag closes
  its parent, list items after an ordered list stay numbered.
\<close>

subsection \<open>Well-nested event sequences\<close>

inductive nested :: "xml_event list \<Rightarrow> bool" where
  nested_Nil: "nested []"
| nested_Text: "nested es \<Longrightarrow> nested (Text t # es)"
| nested_Empty: "nested es \<Longrightarrow> nested (Empty n kvs # es)"
| nested_Comment: "nested es \<Longrightarrow> nested (Comment # es)"
| nested_Elem: "n \<in> set start_names \<Longrightarrow> nested body \<Longrightarrow> nested es \<Longrightarrow> nested (Start n kvs # body @ End m # es)"

text \<open>A stand-in for the tokenizer in the examples: each text event is one word.\<close>

definition sample_parser :: parser where
  "sample_parser t ts d = (1, ts @ [Word \<lparr>data = t, dpy = d, frm = 0\<rparr>])"

subsection \<open>Stack depth\<close>

lemma length_push [simp]: "stack (push e r) = stack r @ [e]"
  by (simp add: push_def)

lemma push_fields [simp]:
  "root (push e r) = root r" "next_li_no (push e r) = next_li_no r" "word_count (push e r) = word_count r"
  "next_chapter_no (push e r) = next_chapter_no r" "next_section_no (push e r) = next_section_no r"
  "next_part_no (push e r) = next_part_no r" "next_note_no (push e r) = next_note_no r"
  "has_chapters (push e r) = has_chapters r" "has_parts (push e r) = has_parts r"
  "has_sections (push e r) = has_sections r"
  by (simp_all add: push_def)

lemma length_stack_pop [simp]: "length (stack (pop r)) = length (stack r) - 1"
  by (cases "stack r" rule: rev_cases) (auto simp: pop_def Let_def)

lemma pop_fields [simp]:
  "next_li_no (pop r) = next_li_no r" "next_chapter_no (pop r) = next_chapter_no r"
  "next_section_no (pop r) = next_section_no r" "has_chapters (pop r) = has_chapters r"
  by (simp_all add: pop_def Let_def)

lemma pop_push_root: "stack r = [] \<Longrightarrow> pop (push e r) = r\<lparr>root := Some (on_exit e)\<rparr>"
  by (simp add: pop_def push_def)

lemma pop_push_nonempty:
  "stack r \<noteq> [] \<Longrightarrow> stack (pop (push e r)) = butlast (stack r) @ [on_resume (last (stack r)) (on_exit e)]"
  by (simp add: pop_def push_def Let_def)

lemma length_pop_push [simp]: "length (stack (pop (push e r))) = length (stack r)"
  by (cases "stack r = []") (simp_all add: pop_push_root pop_push_nonempty)

lemma length_text_event [simp]: "length (stack (text_event p t r)) = length (stack r)"
  by (auto simp: text_event_def split: option.splits)

lemma text_event_fields [simp]:
  "next_li_no (text_event p t r) = next_li_no r" "root (text_event p t r) = root r"
  by (auto simp: text_event_def split: option.splits)

lemmas start_defs = start_attribution_def start_authors_def start_backmatter_def start_bibref_def
  start_blockquote_def start_body_def start_contact_def start_em_def start_frontmatter_def
  start_gn_def start_head_def start_manuscript_def start_ol_def start_person_def
  start_prefix_def start_sn_def start_sub_def start_subtitle_def start_suffix_def start_sup_def
  start_title_def start_ul_def

lemma start_p_fields [simp]:
  "length (stack (start_p kvs r)) = Suc (length (stack r))" "root (start_p kvs r) = root r"
  "next_li_no (start_p kvs r) = next_li_no r"
  by (simp_all add: start_p_def Let_def split: prod.split)

lemma open_chapter_stack: "open_chapter kvs r = Inr (e, r1) \<Longrightarrow> stack r1 = stack r"
  and open_part_stack: "open_part kvs r = Inr (e, r1) \<Longrightarrow> stack r1 = stack r"
  and open_section_stack: "open_section kvs r = Inr (e, r1) \<Longrightarrow> stack r1 = stack r"
  by (auto simp: open_chapter_def open_part_def open_section_def Let_def next_number_def
      split: option.splits prod.splits)

lemma start_footnote_stack: "start_footnote kvs r = Inr r' \<Longrightarrow> length (stack r') = Suc (length (stack r))"
  and start_li_stack: "start_li kvs r = Inr r' \<Longrightarrow> length (stack r') = Suc (length (stack r))"
  by (auto simp: start_footnote_def start_li_def Let_def split: option.splits prod.splits)

lemma start_event_stack:
  assumes "start_event n kvs r = Inr r'"
  shows "length (stack r') = (if n \<in> set start_names then Suc (length (stack r)) else length (stack r))"
  using assms start_footnote_stack start_li_stack open_chapter_stack open_part_stack open_section_stack
  by (auto simp: start_event_def start_names_def start_defs start_chapter_def start_part_def
      start_section_def Let_def split: if_splits prod.splits)

lemma open_frame:
  "open_chapter kvs r = Inr (e, r1) \<Longrightarrow> root r1 = root r \<and> next_li_no r1 = next_li_no r"
  "open_part kvs r = Inr (e, r1) \<Longrightarrow> root r1 = root r \<and> next_li_no r1 = next_li_no r"
  "open_section kvs r = Inr (e, r1) \<Longrightarrow> root r1 = root r \<and> next_li_no r1 = next_li_no r"
  by (auto simp: open_chapter_def open_part_def open_section_def Let_def split: prod.splits)

lemma start_counted_frame:
  "start_chapter kvs r = Inr r' \<Longrightarrow> root r' = root r \<and> next_li_no r' = next_li_no r"
  "start_part kvs r = Inr r' \<Longrightarrow> root r' = root r \<and> next_li_no r' = next_li_no r"
  "start_section kvs r = Inr r' \<Longrightarrow> root r' = root r \<and> next_li_no r' = next_li_no r"
  "start_footnote kvs r = Inr r' \<Longrightarrow> root r' = root r \<and> next_li_no r' = next_li_no r"
  using open_frame
  by (auto simp: start_chapter_def start_part_def start_section_def start_footnote_def split: prod.splits option.splits)

lemma start_li_frame:
  "start_li kvs r = Inr r' \<Longrightarrow> root r' = root r \<and> (next_li_no r \<noteq> None \<longrightarrow> next_li_no r' \<noteq> None)"
  by (auto simp: start_li_def Let_def split: prod.splits option.splits)

lemma start_event_frame:
  assumes "start_event n kvs r = Inr r'"
  shows "root r' = root r \<and> (next_li_no r \<noteq> None \<longrightarrow> next_li_no r' \<noteq> None)"
  using assms start_counted_frame start_li_frame
  unfolding start_event_def by (auto simp: start_defs Let_def split: if_split_asm)
lemma empty_event_stack: "empty_event n kvs r = Inr r' \<Longrightarrow> length (stack r') = length (stack r)"
  using open_chapter_stack open_part_stack open_section_stack
  by (auto simp: empty_event_def split: if_splits prod.splits)

lemma read_events_append:
  "Eof \<notin> set xs \<Longrightarrow> read_events p (xs @ ys) r = bind_result (read_events p xs r) (read_events p ys)"
  by (induction p xs r rule: read_events.induct) (simp_all add: bind_result_case split: sum.split)

lemma nested_no_Eof: "nested es \<Longrightarrow> Eof \<notin> set es"
  by (induction rule: nested.induct) auto

lemma read_nested_depth:
  "nested es \<Longrightarrow> read_events p es r = Inr r' \<Longrightarrow> length (stack r') = length (stack r)"
proof (induction es arbitrary: r r' rule: nested.induct)
  case (nested_Elem n body es kvs m)
  obtain r1 where r1: "start_event n kvs r = Inr r1"
    and rest: "read_events p (body @ End m # es) r1 = Inr r'"
    using nested_Elem.prems by (cases "start_event n kvs r") auto
  obtain r2 where r2: "read_events p body r1 = Inr r2" and r3: "read_events p es (pop r2) = Inr r'"
    using rest by (auto simp: read_events_append [OF nested_no_Eof [OF nested_Elem.hyps(2)]])
  have "length (stack r1) = Suc (length (stack r))"
    using start_event_stack [OF r1] nested_Elem.hyps(1) by simp
  then show ?case
    using nested_Elem.IH(1) [OF r2] nested_Elem.IH(2) [OF r3] by simp
qed (auto dest: empty_event_stack)

subsection \<open>Panics\<close>

lemma next_number_panic: "next_number kvs k = Inl e \<Longrightarrow> e = Add_Overflow"
  by (auto simp: next_number_def i32_add_def split: option.splits if_splits)

lemma open_panic:
  "open_chapter kvs r = Inl e \<Longrightarrow> e = Add_Overflow"
  "open_part kvs r = Inl e \<Longrightarrow> e = Add_Overflow"
  "open_section kvs r = Inl e \<Longrightarrow> e = Add_Overflow"
  by (auto simp: open_chapter_def open_part_def open_section_def Let_def bind_result_Inl_iff
      dest: next_number_panic split: prod.splits)

lemma start_event_panic: "start_event n kvs r = Inl e \<Longrightarrow> e = Add_Overflow"
  using open_panic
  by (auto simp: start_event_def start_chapter_def start_part_def start_section_def start_footnote_def
      start_li_def i32_add_def bind_result_Inl_iff split: if_splits option.splits prod.splits)

lemma empty_event_panic: "empty_event n kvs r = Inl e \<Longrightarrow> e = Add_Overflow"
  using open_panic by (auto simp: empty_event_def bind_result_Inl_iff split: if_splits prod.splits)

lemma read_events_panic: "read_events p es r = Inl e \<Longrightarrow> e = Add_Overflow"
  by (induction p es r rule: read_events.induct)
    (auto simp: bind_result_Inl_iff dest: start_event_panic empty_event_panic)

subsection \<open>What the loop keeps\<close>

lemma start_event_unknown: "n \<notin> set start_names \<Longrightarrow> start_event n kvs r = Inr r"
  by (simp add: start_event_def start_names_def)

lemma pop_root: "root r \<noteq> None \<Longrightarrow> root (pop r) \<noteq> None"
  by (simp add: pop_def Let_def)

lemma pop_single_root: "length (stack r) = 1 \<Longrightarrow> root (pop r) \<noteq> None \<and> stack (pop r) = []"
  by (cases "stack r" rule: rev_cases) (auto simp: pop_def Let_def)

lemma empty_event_frame:
  "empty_event n kvs r = Inr r' \<Longrightarrow> (root r \<noteq> None \<longrightarrow> root r' \<noteq> None) \<and> next_li_no r' = next_li_no r"
  using open_frame by (auto simp: empty_event_def pop_def Let_def split: if_splits prod.splits)

lemma read_events_frame:
  "read_events p es r = Inr r' \<Longrightarrow>
     (root r \<noteq> None \<longrightarrow> root r' \<noteq> None) \<and> (next_li_no r \<noteq> None \<longrightarrow> next_li_no r' \<noteq> None)"
proof (induction p es r rule: read_events.induct)
  case (2 parser name kvs evs r)
  then show ?case using start_event_frame by fastforce
next
  case (3 parser uu evs r)
  then show ?case using pop_root [of r] by auto
next
  case (4 parser name kvs evs r)
  then show ?case using empty_event_frame by fastforce
qed auto

lemma post_process_root: "root (post_process r) = None \<longleftrightarrow> root r = None"
  by (auto simp: post_process_def Let_def split: option.splits element.splits)

lemma empty_chapter_step:
  assumes "- (2 ^ 31) \<le> next_chapter_no r" "next_chapter_no r + 1 < 2 ^ 31" "stack r = s @ [Body cs]"
  shows "\<exists>r1. empty_event ''chapter'' [] r = Inr r1
     \<and> stack r1 = s @ [Body (cs @ [Chapter \<lparr>chapter_number = next_chapter_no r, chapter_spacing = Single, chapter_depth = -1\<rparr> [] []])]
     \<and> next_chapter_no r1 = next_chapter_no r + 1"
  using assms
  by (simp add: empty_event_def open_chapter_def next_number_def spacing_or_single_def line_spacing_attr_def
      fetch_enum_attr_def pop_def push_def Let_def trim_whitespace_def)

lemma open_chapter_has_chapters: "open_chapter kvs r = Inr (e, r1) \<Longrightarrow> has_chapters r1 = has_chapters r"
  by (auto simp: open_chapter_def split: prod.splits)

subsection \<open>Properties\<close>

text \<open>C9: a well-nested element of known kinds is read into a root element,
  whatever events follow it; the only panic is a counter overflow.\<close>

theorem read_nested_root:
  assumes "n \<in> set start_names" "nested body"
  shows "case reader_run p (Start n kvs # body @ End m # rest) of
           Inl e \<Rightarrow> e = Add_Overflow
         | Inr res \<Rightarrow> res \<noteq> None"
proof (cases "read_events p (Start n kvs # body @ End m # rest) reader_new")
  case (Inl e)
  then show ?thesis using read_events_panic [OF Inl] by (simp add: reader_run_def)
next
  case (Inr r')
  obtain r1 where r1: "start_event n kvs reader_new = Inr r1"
    and rest1: "read_events p (body @ End m # rest) r1 = Inr r'"
    using Inr by (cases "start_event n kvs reader_new") auto
  obtain r2 where r2: "read_events p body r1 = Inr r2" and r3: "read_events p rest (pop r2) = Inr r'"
    using rest1 by (auto simp: read_events_append [OF nested_no_Eof [OF assms(2)]])
  have "length (stack r2) = 1"
    using read_nested_depth [OF assms(2) r2] start_event_stack [OF r1] assms(1) by (simp add: reader_new_def)
  then have "root r' \<noteq> None"
    using pop_single_root read_events_frame [OF r3] by blast
  moreover have "reader_run p (Start n kvs # body @ End m # rest) = Inr (root (post_process r'))"
    by (simp only: reader_run_def Inr bind_result.simps)
  ultimately show ?thesis
    by (simp add: post_process_root)
qed

theorem read_nested_root_witness:
  "''manuscript'' \<in> set start_names \<and> nested [Start ''body'' [], End ''body'']
   \<and> (case reader_run sample_parser (Start ''manuscript'' [] # [Start ''body'' [], End ''body''] @ End ''manuscript'' # [Eof]) of
        Inl e \<Rightarrow> e = Add_Overflow
      | Inr res \<Rightarrow> res \<noteq> None)"
proof -
  have h1: "''manuscript'' \<in> set start_names" by (simp add: start_names_def)
  have h2: "nested [Start ''body'' [], End ''body'']"
    using nested_Elem [OF _ nested_Nil nested_Nil, of "''body''" "[]" "''body''"] by (simp add: start_names_def)
  show ?thesis
    using h1 h2 read_nested_root [OF h1 h2, where p = sample_parser and kvs = "[]" and m = "''manuscript''" and rest = "[Eof]"]
    by (simp only: simp_thms)
qed

text \<open>C22: the end tag of an element the reader does not know pops the state
  of its parent: the parent is closed early, and what follows goes to the grandparent.\<close>

theorem unknown_end_tag_pops_parent:
  "n \<notin> set start_names \<Longrightarrow> read_events p (Start n kvs # End m # es) r = read_events p es (pop r)"
  by (simp add: start_event_unknown)

theorem unknown_end_tag_pops_parent_witness:
  "''foo'' \<notin> set start_names
   \<and> read_events sample_parser [Start ''foo'' [], End ''foo'', Text ''c''] (reader_new\<lparr>stack := [Body [], P_elem \<lparr>p_indent = 5, p_spacing = Double, p_left_margin = 10, p_right_margin = 74\<rparr> [] []]\<rparr>)
     = read_events sample_parser [Text ''c''] (pop (reader_new\<lparr>stack := [Body [], P_elem \<lparr>p_indent = 5, p_spacing = Double, p_left_margin = 10, p_right_margin = 74\<rparr> [] []]\<rparr>))"
proof -
  have h: "''foo'' \<notin> set start_names" by (simp add: start_names_def)
  show ?thesis using h unknown_end_tag_pops_parent [OF h] by (simp only: simp_thms)
qed

text \<open>C23: a run of \<open>k\<close> empty \<open><chapter/>\<close> tags without attributes, read
  inside a body, appends \<open>k\<close> chapters to the body numbered consecutively from the
  chapter counter \<open>n\<close> (\<open>n, n + 1, ..., n + k - 1\<close>, single-spaced, depth unset) and
  leaves the counter at \<open>n + k\<close>, as long as the counter stays an \<open>i32\<close>.\<close>

theorem empty_chapters_numbered:
  assumes "- (2 ^ 31) \<le> next_chapter_no r" "next_chapter_no r + int k < 2 ^ 31" "stack r = s @ [Body cs]"
  shows "\<exists>r'. read_events p (replicate k (Empty ''chapter'' [])) r = Inr r'
     \<and> stack r' = s @ [Body (cs @ map (\<lambda>i. Chapter \<lparr>chapter_number = next_chapter_no r + int i,
                     chapter_spacing = Single, chapter_depth = -1\<rparr> [] []) [0..<k])]
     \<and> next_chapter_no r' = next_chapter_no r + int k"
  using assms
proof (induction k arbitrary: r cs)
  case 0
  then show ?case by simp
next
  case (Suc k)
  obtain r1 where r1: "empty_event ''chapter'' [] r = Inr r1"
    "stack r1 = s @ [Body (cs @ [Chapter \<lparr>chapter_number = next_chapter_no r, chapter_spacing = Single, chapter_depth = -1\<rparr> [] []])]"
    "next_chapter_no r1 = next_chapter_no r + 1"
    using empty_chapter_step [OF Suc.prems(1) _ Suc.prems(3)] Suc.prems(2) by fastforce
  obtain r' where r': "read_events p (replicate k (Empty ''chapter'' [])) r1 = Inr r'"
    "stack r' = s @ [Body ((cs @ [Chapter \<lparr>chapter_number = next_chapter_no r, chapter_spacing = Single, chapter_depth = -1\<rparr> [] []])
        @ map (\<lambda>i. Chapter \<lparr>chapter_number = next_chapter_no r1 + int i, chapter_spacing = Single, chapter_depth = -1\<rparr> [] []) [0..<k])]"
    "next_chapter_no r' = next_chapter_no r1 + int k"
    using Suc.IH [OF _ _ r1(2)] Suc.prems(1,2) r1(3) by fastforce
  have ups: "[0..<Suc k] = 0 # map Suc [0..<k]"
    by (simp add: map_Suc_upt upt_conv_Cons del: upt_Suc)
  have "map (\<lambda>i. Chapter \<lparr>chapter_number = next_chapter_no r + int i, chapter_spacing = Single, chapter_depth = -1\<rparr> [] []) [0..<Suc k]
      = Chapter \<lparr>chapter_number = next_chapter_no r, chapter_spacing = Single, chapter_depth = -1\<rparr> [] []
        # map (\<lambda>i. Chapter \<lparr>chapter_number = next_chapter_no r1 + int i, chapter_spacing = Single, chapter_depth = -1\<rparr> [] []) [0..<k]"
    unfolding ups list.map(2) map_map by (simp add: r1(3) comp_def algebra_simps)
  then show ?case
    using r1(1,3) r' by simp
qed

theorem empty_chapters_numbered_witness:
  "- (2 ^ 31) \<le> next_chapter_no (reader_new\<lparr>stack := [Body []]\<rparr>)
   \<and> next_chapter_no (reader_new\<lparr>stack := [Body []]\<rparr>) + int 3 < 2 ^ 31
   \<and> stack (reader_new\<lparr>stack := [Body []]\<rparr>) = [] @ [Body []]
   \<and> (\<exists>r'. read_events sample_parser (replicate 3 (Empty ''chapter'' [])) (reader_new\<lparr>stack := [Body []]\<rparr>) = Inr r'
     \<and> stack r' = [] @ [Body ([] @ map (\<lambda>i. Chapter \<lparr>chapter_number = next_chapter_no (reader_new\<lparr>stack := [Body []]\<rparr>) + int i,
                     chapter_spacing = Single, chapter_depth = -1\<rparr> [] []) [0..<3])]
     \<and> next_chapter_no r' = next_chapter_no (reader_new\<lparr>stack := [Body []]\<rparr>) + int 3)"
proof -
  have h: "- (2 ^ 31) \<le> next_chapter_no (reader_new\<lparr>stack := [Body []]\<rparr>)"
    "next_chapter_no (reader_new\<lparr>stack := [Body []]\<rparr>) + int 3 < 2 ^ 31"
    "stack (reader_new\<lparr>stack := [Body []]\<rparr>) = [] @ [Body []]"
    by (simp_all add: reader_new_def)
  show ?thesis
    using h empty_chapters_numbered [OF h, where p = sample_parser] by blast
qed

text \<open>C24: a \<open>number\<close> attribute of \<open>i32::MAX\<close> on a chapter makes the
  reader panic on the counter increment, for the start tag and the empty tag alike.\<close>

theorem chapter_number_overflow:
  "fetch_numeric_attr parse_i32 kvs ''number'' = Some (2 ^ 31 - 1) \<Longrightarrow>
     start_event ''chapter'' kvs r = Inl Add_Overflow \<and> empty_event ''chapter'' kvs r = Inl Add_Overflow"
  by (simp add: start_event_def empty_event_def start_chapter_def open_chapter_def next_number_def i32_add_def)

theorem chapter_number_overflow_witness:
  "fetch_numeric_attr parse_i32 [(''number'', ''2147483647'')] ''number'' = Some (2 ^ 31 - 1)
   \<and> start_event ''chapter'' [(''number'', ''2147483647'')] reader_new = Inl Add_Overflow
   \<and> empty_event ''chapter'' [(''number'', ''2147483647'')] reader_new = Inl Add_Overflow"
proof -
  have h: "fetch_numeric_attr parse_i32 [(''number'', ''2147483647'')] ''number'' = Some (2 ^ 31 - 1)"
    by code_simp
  show ?thesis using h chapter_number_overflow [OF h, of reader_new] by (simp only: simp_thms)
qed

text \<open>C25: the wrapper paragraph a list item opens for loose content has a left
  margin of \<open>LEFT_MARGIN + 2 * INDENT\<close> when the content is text but
  \<open>LEFT_MARGIN + INDENT\<close> when it is an inline element such as \<open>em\<close>.\<close>

theorem li_wrapper_margins:
  "(\<exists>n ts. text_into p t (Li a []) = Some (n, Li a [P_elem \<lparr>p_indent = 0, p_spacing = li_spacing a,
       p_left_margin = LEFT_MARGIN + 2 * INDENT, p_right_margin = RIGHT_MARGIN\<rparr> ts []]))
   \<and> on_resume (Li a []) (Em ets efns) = Li a [P_elem \<lparr>p_indent = 0, p_spacing = li_spacing a,
       p_left_margin = LEFT_MARGIN + INDENT, p_right_margin = RIGHT_MARGIN\<rparr> ets []]"
  by (simp add: text_mixed_def resume_mixed_content_def split: prod.split)

subsection \<open>Behaviour that the documentation describes otherwise\<close>

text \<open>The following facts back findings: each proves what the code does where a
  comment of the source says something else.\<close>

text \<open>Item numbers: once an ordered list has been opened, every list item read after it is
  numbered, also one in a later unordered list: \<open>next_li_no\<close> is never reset.\<close>

theorem li_numbered_after_ol:
  assumes "Eof \<notin> set mid" "read_events p (Start ''ol'' okvs # mid @ [Start ''li'' kvs]) r = Inr r'"
  shows "\<exists>a cs. last (stack r') = Li a cs \<and> li_number a \<noteq> None"
proof -
  have r1: "read_events p (mid @ [Start ''li'' kvs]) (start_ol okvs r) = Inr r'"
    using assms(2) by (simp add: start_event_def)
  obtain r2 where r2: "read_events p mid (start_ol okvs r) = Inr r2" and r3: "start_li kvs r2 = Inr r'"
    using r1 by (auto simp: read_events_append [OF assms(1)] start_event_def)
  have "next_li_no r2 \<noteq> None"
    using read_events_frame [OF r2] by (simp add: start_ol_def Let_def push_def)
  then show ?thesis
    using r3 by (auto simp: start_li_def Let_def split: option.splits prod.splits)
qed

theorem li_numbered_after_ol_witness:
  "Eof \<notin> set [Start ''li'' [], End ''li'', End ''ol'', Start ''ul'' []]
   \<and> (\<exists>r'. read_events sample_parser (Start ''ol'' [] # [Start ''li'' [], End ''li'', End ''ol'', Start ''ul'' []] @ [Start ''li'' []])
          (reader_new\<lparr>stack := [Body []]\<rparr>) = Inr r'
     \<and> (\<exists>a cs. last (stack r') = Li a cs \<and> li_number a \<noteq> None))"
proof -
  have h: "Eof \<notin> set [Start ''li'' [], End ''li'', End ''ol'', Start ''ul'' []]" by simp
  have "\<not> isl (read_events sample_parser (Start ''ol'' [] # [Start ''li'' [], End ''li'', End ''ol'', Start ''ul'' []] @ [Start ''li'' []])
          (reader_new\<lparr>stack := [Body []]\<rparr>))"
    by code_simp
  then obtain r' where r': "read_events sample_parser (Start ''ol'' [] # [Start ''li'' [], End ''li'', End ''ol'', Start ''ul'' []] @ [Start ''li'' []])
          (reader_new\<lparr>stack := [Body []]\<rparr>) = Inr r'"
    using not_isl_Inr by blast
  show ?thesis
    using h r' li_numbered_after_ol [OF h r'] by blast
qed

text \<open>Footnotes in emphasis: a footnote inside \<open>em\<close> is lost: the paragraph receives the
  emphasis's tokens, the note reference among them, but not the footnote element.\<close>

theorem em_footnote_dropped:
  "on_resume (P_elem a ts fns) (on_resume (Em ets efns) (Footnote fa fcs))
     = P_elem a (ts @ ets @ [note_ref_token (footnote_label fa)]) fns"
  by simp

text \<open>Empty chapters: a chapter written as an empty tag is numbered like any other but does
  not count as document structure; the start tag does.\<close>

theorem empty_chapter_not_structure:
  "(case start_event ''chapter'' kvs r of Inr r1 \<Rightarrow> has_chapters r1 | Inl e \<Rightarrow> e = Add_Overflow)
   \<and> (case empty_event ''chapter'' kvs r of Inr r2 \<Rightarrow> has_chapters r2 = has_chapters r | Inl e \<Rightarrow> e = Add_Overflow)"
  using open_panic(1) [of kvs r]
  by (auto simp: start_event_def empty_event_def start_chapter_def bind_result_case pop_def Let_def
      dest: open_chapter_has_chapters split: sum.split prod.split)

end
