(* ===== verification/Writer.thy ===== *)
theory Writer
  imports Compositor
begin

text \<open>
  The PostScript writer of \<^verbatim>\<open>src/document/writer.rs\<close> and the \<open>Typescript\<close> it
  reads (\<^verbatim>\<open>src/document.rs\<close>).  The standard output is a string: \<open>write\<close> appends its
  text encoded to ISO 8859-15 (a HOL character is a Latin-1 code point; the eight code
  points where Latin-9 differs from Latin-1 are not encodable and become \<open>?\<close>, the
  encoder's replacement), \<open>writeln\<close> also a newline.  The prologue file and the program
  name are parameters (file and environment I/O).  The coordinates are \<open>f32\<close>
  products rounded half away from zero: \<open>LINE_HEIGHT = 12\<close> is exact, and
  \<open>column * 7.2\<close> has a fractional part that is a multiple of 0.2, far from the
  rounding tie, so the integer formula \<open>(72 * column + 5) div 10\<close> is exact.  The
  word count is rounded by \<open>math::round::half_to_even\<close> on an \<open>f64\<close> quotient;
  the model rounds the exact quotient half to even (an \<open>f64\<close> quotient at an exact
  tie may round either way).  Write errors on the output are not modelled.
\<close>

subsection \<open>The typescript\<close>

record typescript =
  ts_contact :: "block option"
  ts_word_count :: "nat option"
  ts_has_structure :: bool
  ts_short_title :: segment
  ts_short_author_name :: segment
  ts_pages :: "page list"

subsection \<open>Output\<close>

definition latin9 :: "char \<Rightarrow> char" where
  "latin9 c = (if of_char c \<in> {164, 166, 168, 180, 184, 188, 189, 190 :: nat} then CHR ''?'' else c)"

definition write_text :: "string \<Rightarrow> string" where
  "write_text text = map latin9 text"

definition writeln_text :: "string \<Rightarrow> string" where
  "writeln_text text = map latin9 text @ [CHR ''\<newline>'']"

definition x_pos :: "nat \<Rightarrow> int" where
  "x_pos col = (72 * int col + 5) div 10"

definition line_height :: int where
  "line_height = 12"

definition moveto :: "int \<Rightarrow> int \<Rightarrow> string \<Rightarrow> string" where
  "moveto x y s = int_to_string x @ '' '' @ int_to_string y @ '' moveto '' @ s"

subsection \<open>The prologue\<close>

text \<open>\<open>Regex::replace\<close> replaces the first match, expanding the replacement: \<open>$$\<close>
  is a dollar sign, \<open>$name\<close> or \<open>${name}\<close> the capture group of that name or
  number (here only group 0, the match itself, exists, named by any run of zeros; any
  other is empty), and a
  dollar sign not followed by a name is literal.\<close>

definition is_name_char :: "char \<Rightarrow> bool" where
  "is_name_char c \<longleftrightarrow> (let k = (of_char c :: nat) in
     (48 \<le> k \<and> k \<le> 57) \<or> (65 \<le> k \<and> k \<le> 90) \<or> (97 \<le> k \<and> k \<le> 122) \<or> k = 95)"

definition group_text :: "string \<Rightarrow> string \<Rightarrow> string" where
  "group_text m name = (if name \<noteq> [] \<and> list_all (\<lambda>c. c = CHR ''0'') name then m else [])"

function (sequential) expand :: "string \<Rightarrow> string \<Rightarrow> string" where
  "expand m [] = []"
| "expand m (c # cs) =
     (if c = CHR ''$'' then
        (case cs of
           [] \<Rightarrow> [c]
         | d # ds \<Rightarrow>
             if d = CHR ''$'' then CHR ''$'' # expand m ds
             else if d = CHR ''{'' \<and> CHR ''}'' \<in> set ds then
               group_text m (takeWhile (\<lambda>x. x \<noteq> CHR ''}'') ds) @ expand m (tl (dropWhile (\<lambda>x. x \<noteq> CHR ''}'') ds))
             else if is_name_char d then
               group_text m (takeWhile is_name_char cs) @ expand m (dropWhile is_name_char cs)
             else c # expand m cs)
      else c # expand m cs)"
  by pat_completeness auto
termination
  by (relation "measure (\<lambda>(m, s). length s)")
    (auto simp: less_Suc_eq_le le_SucI [OF length_dropWhile_le] le_SucI [OF le_trans [OF diff_le_self length_dropWhile_le]])

fun replace_first :: "string \<Rightarrow> string \<Rightarrow> string \<Rightarrow> string" where
  "replace_first pat rep [] = []"
| "replace_first pat rep (c # cs) =
     (if take (length pat) (c # cs) = pat then expand pat rep @ drop (length pat) (c # cs)
      else c # replace_first pat rep cs)"

definition write_prologue :: "string \<Rightarrow> string \<Rightarrow> typescript \<Rightarrow> string" where
  "write_prologue prologue_file creator ts =
     (let num_pages = nat_digits (length (ts_pages ts));
          p1 = replace_first ''@title@'' (seg_text (ts_short_title ts)) prologue_file;
          p2 = replace_first ''@creator@'' creator p1;
          p3 = replace_first ''@pages@'' num_pages p2
      in write_text p3)"

subsection \<open>The title page\<close>

fun contact_lines :: "line_spacing \<Rightarrow> int \<Rightarrow> nat \<Rightarrow> line list \<Rightarrow> string" where
  "contact_lines sp y i [] = []"
| "contact_lines sp y i (l # ls) =
     (let y1 = (if 0 < i \<and> sp = Double then y - line_height else y)
      in write_text (moveto (x_pos (column l)) y1 (line_ps l)) @ contact_lines sp (y1 - line_height) (Suc i) ls)"

definition write_contact :: "typescript \<Rightarrow> string" where
  "write_contact ts =
     (case ts_contact ts of
        Some b \<Rightarrow> contact_lines (line_spacing b) (int TOP_LINE * line_height) 0 (lines b)
      | None \<Rightarrow> [])"

text \<open>\<open>round::half_to_even\<close> of a quotient of naturals, and \<open>separate_with_commas\<close>.\<close>

definition half_even_div :: "nat \<Rightarrow> nat \<Rightarrow> nat" where
  "half_even_div a d =
     (let q = a div d; r = a mod d
      in if 2 * r < d then q else if d < 2 * r then q + 1 else if even q then q else q + 1)"

fun group_digits :: "string \<Rightarrow> string" where
  "group_digits ds =
     (if length ds \<le> 3 then ds
      else group_digits (take (length ds - 3) ds) @ CHR '','' # drop (length ds - 3) ds)"

definition separate_with_commas :: "int \<Rightarrow> string" where
  "separate_with_commas n =
     (if n < 0 then CHR ''-'' # group_digits (nat_digits (nat (- n))) else group_digits (nat_digits (nat n)))"

definition word_count_text :: "nat \<Rightarrow> string" where
  "word_count_text wc =
     (let k = (if 1000 < wc then 1000 * half_even_div wc 1000 else 100 * half_even_div wc 100);
          n = min (int k) (2 ^ 31 - 1)
      in ''Approx. '' @ separate_with_commas n @ '' words'')"

definition write_word_count :: "typescript \<Rightarrow> string result" where
  "write_word_count ts =
     (case ts_word_count ts of
        Some wc \<Rightarrow>
          (let s = word_count_text wc
           in bind_result (usize_sub RIGHT_MARGIN (length s)) (\<lambda>col.
                Inr (write_text (moveto (x_pos col) (int TOP_LINE * line_height) (line_ps (line_of_segment (segment_of_string s)))))))
      | None \<Rightarrow> Inr [])"

subsection \<open>Pages\<close>

text \<open>\<open>Writer::start_a_new_page\<close>: the page comments, and the slug line on pages numbered
  above 1, and on page 1 when the document has structure or no title-page matter.\<close>

definition slug_wanted :: "typescript \<Rightarrow> int \<Rightarrow> bool" where
  "slug_wanted ts page_no \<longleftrightarrow>
     1 < page_no \<or> (page_no = 1 \<and> ts_has_structure ts)
     \<or> (page_no = 1 \<and> \<not> ts_has_structure ts \<and> ts_contact ts = None \<and> ts_word_count ts = None)"

definition writer_start_page :: "typescript \<Rightarrow> nat \<Rightarrow> int \<Rightarrow> string \<times> nat" where
  "writer_start_page ts real_page_no page_no =
     (writeln_text (''%%Page: '' @ nat_digits real_page_no @ '' '' @ nat_digits real_page_no) @ writeln_text ''page-begin''
      @ (if slug_wanted ts page_no
         then write_text (int_to_string (x_pos LEFT_MARGIN) @ '' '' @ int_to_string (int SLUG_LINE * line_height) @ '' moveto '')
              @ write_text (ps (ts_short_author_name ts)) @ write_text ''(/) show '' @ write_text (ps (ts_short_title ts))
              @ writeln_text (''(/'' @ int_to_string page_no @ '') show '')
         else []),
      Suc real_page_no)"

text \<open>The content rows from the top line down, a blank row only moving the pen, and
  the footer under its rule.\<close>

fun write_rows :: "int \<Rightarrow> line option list \<Rightarrow> string" where
  "write_rows y [] = []"
| "write_rows y (None # rs) = write_rows (y - line_height) rs"
| "write_rows y (Some l # rs) = writeln_text (moveto (x_pos (column l)) y (line_ps l)) @ write_rows (y - line_height) rs"

fun footer_rows :: "int \<Rightarrow> int \<Rightarrow> line option list \<Rightarrow> string" where
  "footer_rows x y [] = []"
| "footer_rows x y (None # rs) = footer_rows x (y - line_height) rs"
| "footer_rows x y (Some l # rs) = writeln_text (moveto x y (line_ps l)) @ footer_rows x (y - line_height) rs"

definition write_footer :: "page \<Rightarrow> string" where
  "write_footer p =
     (if footer p = [] then []
      else
        (let x = x_pos LEFT_MARGIN;
             y = int (BOTTOM_LINE + length (footer p) + 2) * line_height
         in writeln_text (moveto x y ''(____________________) show '')
            @ footer_rows x (y - 2 * line_height) (footer p)))"

fun write_pages :: "typescript \<Rightarrow> nat \<Rightarrow> nat \<Rightarrow> page list \<Rightarrow> string result" where
  "write_pages ts real_page_no i [] = Inr []"
| "write_pages ts real_page_no i (p # pgs) =
     (case writer_start_page ts real_page_no (number p) of
        (head, real') \<Rightarrow>
          bind_result (if i = 0 then bind_result (write_word_count ts) (\<lambda>wc.
                          Inr ((if ts_contact ts \<noteq> None then write_contact ts else []) @ wc))
                       else Inr []) (\<lambda>title.
          bind_result (write_pages ts real' (Suc i) pgs) (\<lambda>rest.
            Inr (head @ title @ write_rows (int TOP_LINE * line_height) (page_lines p)
                 @ write_footer p @ writeln_text ''page-end'' @ rest))))"

text \<open>\<open>Writer::new\<close> and \<open>Writer::run\<close>.\<close>

definition writer_run :: "string \<Rightarrow> string \<Rightarrow> typescript \<Rightarrow> string result" where
  "writer_run prologue_file creator ts =
     bind_result (write_pages ts 1 0 (ts_pages ts)) (\<lambda>body.
       Inr (write_prologue prologue_file creator ts @ body @ writeln_text ''%%Trailer''))"

end
