(* ===== verification/Typeset.thy ===== *)
theory Typeset
  imports Pipeline Page_Flow Reader_Props Writer
begin

text \<open>
  The whole program as \<^verbatim>\<open>src/lib.rs\<close> composes it: \<open>read\<close> runs the reader on the
  input, \<open>write\<close> dispatches on the root element.  A manuscript is formatted into
  blocks, composed by a compositor that starts at its first page, and written with its
  slug-line title and author; any other root is formatted alone and composed from page 1
  under a slug line naming the element (the macros \<open>write_block!\<close> and
  \<open>write_container!\<close> of \<^verbatim>\<open>src/fragments.rs\<close>).  The command-line flags that dump the
  element or block structure in Rust's debug format instead of writing are not
  modelled: the model is the run with both flags off.  The parameter \<open>creator\<close> is
  \<open>PROGRAM_NAME\<close>, modelled as \<open>program_name\<close> of the executable's path.  The properties are about the
  writer: where it draws rows and footers, when it writes the slug line, and what the
  prologue's title becomes.
\<close>

subsection \<open>The pipeline\<close>

definition write_fragment :: "string \<Rightarrow> string \<Rightarrow> string \<Rightarrow> block list \<Rightarrow> string result" where
  "write_fragment prologue_file creator name bs =
     bind_result (run bs (compositor_new 1 False)) (\<lambda>c.
       writer_run prologue_file creator
         \<lparr>ts_contact = None, ts_word_count = None, ts_has_structure = False,
          ts_short_title = segment_of_string name, ts_short_author_name = segment_of_string creator,
          ts_pages = pages c\<rparr>)"

definition write_manuscript ::
  "roman_numerals \<Rightarrow> (string \<Rightarrow> string) \<Rightarrow> string \<Rightarrow> string \<Rightarrow> manuscript_attrs \<Rightarrow> element list \<Rightarrow> string result" where
  "write_manuscript rn upper prologue_file creator a cs =
     (let short_title = (case manuscript_short_title upper cs of
                           Some s \<Rightarrow> s
                         | None \<Rightarrow> \<lparr>seg_text = ''Working Title'', ps = ''(WORKING TITLE) show ''\<rparr>);
          short_author_name = (case manuscript_short_author_name upper cs of
                                 Some s \<Rightarrow> s
                               | None \<Rightarrow> segment_of_string ''ANONYMOUS'')
      in bind_result (manuscript_blocks rn cs) (\<lambda>bs.
           bind_result (run bs (compositor_new (ms_first_page a) (ms_has_structure a))) (\<lambda>c.
             writer_run prologue_file creator
               \<lparr>ts_contact = contact c, ts_word_count = Some (ms_word_count a),
                ts_has_structure = ms_has_structure a, ts_short_title = short_title,
                ts_short_author_name = short_author_name, ts_pages = pages c\<rparr>)))"

definition write_one :: "string \<Rightarrow> string \<Rightarrow> string \<Rightarrow> block result \<Rightarrow> string result" where
  "write_one prologue_file creator name r = bind_result r (\<lambda>b. write_fragment prologue_file creator name [b])"

definition write_many :: "string \<Rightarrow> string \<Rightarrow> string \<Rightarrow> block list result \<Rightarrow> string result" where
  "write_many prologue_file creator name r = bind_result r (write_fragment prologue_file creator name)"

text \<open>\<open>write\<close>: one arm per element kind.  A footnote root is wrapped in a paragraph
  holding only its reference.\<close>

fun write_element ::
  "roman_numerals \<Rightarrow> (string \<Rightarrow> string) \<Rightarrow> string \<Rightarrow> string \<Rightarrow> element \<Rightarrow> string result" where
  "write_element rn upper pf cr (Attribution sp ts fns) = write_one pf cr ''attribution'' (attribution_block sp ts fns)"
| "write_element rn upper pf cr (Authors sp cs) = write_one pf cr ''authors'' (authors_block sp cs)"
| "write_element rn upper pf cr (Backmatter l cs) = write_many pf cr ''backmatter'' (backmatter_blocks l cs)"
| "write_element rn upper pf cr (BibRef sp ts fns) = write_one pf cr ''bibRef'' (bibref_block sp ts fns)"
| "write_element rn upper pf cr (Blockquote sp cs) = write_many pf cr ''blockquote'' (blockquote_blocks cs)"
| "write_element rn upper pf cr (Body cs) = write_many pf cr ''body'' (body_blocks rn cs)"
| "write_element rn upper pf cr Br = write_one pf cr ''br'' (Inr br_block)"
| "write_element rn upper pf cr (Chapter a ts fns) = write_many pf cr ''chapter'' (chapter_blocks a ts fns)"
| "write_element rn upper pf cr (Contact_elem sp ts fns) = write_one pf cr ''contact'' (contact_block sp ts fns)"
| "write_element rn upper pf cr Div = write_one pf cr ''div'' (Inr div_block)"
| "write_element rn upper pf cr (Em ts fns) = write_one pf cr ''em'' (em_block ts fns)"
| "write_element rn upper pf cr (Footnote a cs) =
     write_one pf cr ''footnote''
       (p_block \<lparr>p_indent = 0, p_spacing = Double, p_left_margin = LEFT_MARGIN, p_right_margin = RIGHT_MARGIN\<rparr>
          [NoteRef \<lparr>data = footnote_label a, dpy = SUP_flag, frm = 0\<rparr>] [Footnote a cs])"
| "write_element rn upper pf cr (Frontmatter l cs) = write_many pf cr ''frontmatter'' (frontmatter_blocks l cs)"
| "write_element rn upper pf cr (Gn ts fns) = write_one pf cr ''gn'' (gn_block ts fns)"
| "write_element rn upper pf cr (Head_elem cs) = write_many pf cr ''head'' (head_blocks cs)"
| "write_element rn upper pf cr (Li a cs) = write_many pf cr ''li'' (li_blocks a cs)"
| "write_element rn upper pf cr (Manuscript a cs) = write_manuscript rn upper pf cr a cs"
| "write_element rn upper pf cr (NoteRef_elem l) = write_one pf cr ''noteRef'' (Inr (noteref_block l))"
| "write_element rn upper pf cr (Ol a cs) = write_many pf cr ''ol'' (ol_blocks cs)"
| "write_element rn upper pf cr (P_elem a ts fns) = write_one pf cr ''p'' (p_block a ts fns)"
| "write_element rn upper pf cr PageBreak = write_one pf cr ''pageBreak'' (Inr pagebreak_block)"
| "write_element rn upper pf cr (Part a ts fns) = write_many pf cr ''part'' (part_blocks rn a ts fns)"
| "write_element rn upper pf cr (Person cs) = write_many pf cr ''person'' (person_blocks cs)"
| "write_element rn upper pf cr (Prefix ts fns) = write_one pf cr ''prefix'' (prefix_block ts fns)"
| "write_element rn upper pf cr (Section a ts fns) = write_many pf cr ''section'' (section_blocks a ts fns)"
| "write_element rn upper pf cr (Sn ts fns) = write_one pf cr ''sn'' (sn_block ts fns)"
| "write_element rn upper pf cr (Sub ts fns) = write_one pf cr ''sub'' (sub_block ts fns)"
| "write_element rn upper pf cr (Subtitle sp ts fns) = write_one pf cr ''subtitle'' (subtitle_block sp ts fns)"
| "write_element rn upper pf cr (Suffix c ts fns) = write_one pf cr ''prefix'' (suffix_block c ts fns)"
| "write_element rn upper pf cr (Sup_elem ts fns) = write_one pf cr ''sup'' (sup_block ts fns)"
| "write_element rn upper pf cr (Title sp ts fns) = write_one pf cr ''title'' (title_block sp ts fns)"
| "write_element rn upper pf cr (Ul sp cs) = write_many pf cr ''ul'' (ul_blocks cs)"

text \<open>\<open>read\<close> then \<open>write\<close>: \<open>None\<close> is the error \<open>"No elements!"\<close> of \<open>read\<close>.\<close>

definition typeset ::
  "parser \<Rightarrow> roman_numerals \<Rightarrow> (string \<Rightarrow> string) \<Rightarrow> string \<Rightarrow> string \<Rightarrow> xml_event list \<Rightarrow> string option result" where
  "typeset parser rn upper prologue_file creator evs =
     bind_result (reader_run parser evs) (\<lambda>root.
       case root of
         None \<Rightarrow> Inr None
       | Some e \<Rightarrow> bind_result (write_element rn upper prologue_file creator e) (\<lambda>out. Inr (Some out)))"


subsection \<open>The program name\<close>

text \<open>\<open>get_program_name\<close>: the file name of the running executable's path, as
  \<open>Path::file_name\<close> reads a Unix path (its last component, ignoring empty and
  \<open>.\<close> components; none when that is \<open>..\<close> or there is none); the path itself,
  \<open>env::current_exe()\<close>, is the parameter (\<open>None\<close> when it fails).  \<open>PROGRAM_NAME\<close>
  falls back to \<open>kosik\<close>.  The model's strings are always valid UTF-8, so
  \<open>OsStr::to_str\<close> does not fail.\<close>

fun split_path :: "string \<Rightarrow> string list" where
  "split_path [] = [[]]"
| "split_path (c # cs) =
     (if c = CHR ''/'' then [] # split_path cs
      else (case split_path cs of w # ws \<Rightarrow> (c # w) # ws | [] \<Rightarrow> [[c]]))"

definition path_file_name :: "string \<Rightarrow> string option" where
  "path_file_name p =
     (let cs = filter (\<lambda>w. w \<noteq> [] \<and> w \<noteq> ''.'') (split_path p)
      in if cs = [] \<or> last cs = ''..'' then None else Some (last cs))"

definition get_program_name :: "string option \<Rightarrow> string option" where
  "get_program_name current_exe = (case current_exe of Some p \<Rightarrow> path_file_name p | None \<Rightarrow> None)"

definition program_name :: "string option \<Rightarrow> string" where
  "program_name current_exe = (case get_program_name current_exe of Some name \<Rightarrow> name | None \<Rightarrow> ''kosik'')"

text \<open>Where the writer puts the content rows, stated without the running pen: row
  \<open>k\<close> of a page, if it holds a line, is drawn \<open>k\<close> line heights below the top.\<close>

definition row_draw :: "int \<Rightarrow> nat \<Rightarrow> line option \<Rightarrow> string" where
  "row_draw y k r = (case r of
                       None \<Rightarrow> []
                     | Some l \<Rightarrow> writeln_text (moveto (x_pos (column l)) (y - line_height * int k) (line_ps l)))"

definition content_draws :: "int \<Rightarrow> line option list \<Rightarrow> string" where
  "content_draws y rows = concat (map (\<lambda>(k, r). row_draw y k r) (enumerate 0 rows))"

subsection \<open>Lemmas\<close>

lemma row_draw_Suc: "row_draw y (Suc k) r = row_draw (y - line_height) k r"
  by (cases r) (simp_all add: row_draw_def algebra_simps)

lemma content_draws_Cons:
  "content_draws y (r # rows) = row_draw y 0 r @ content_draws (y - line_height) rows"
proof -
  have "(\<lambda>(k, r). row_draw y k r) \<circ> apfst Suc = (\<lambda>(k, r). row_draw (y - line_height) k r)"
    by (auto simp: fun_eq_iff row_draw_Suc)
  then show ?thesis
    by (simp add: content_draws_def enumerate_Suc_eq)
qed

lemma line_ps_column [simp]: "line_ps (l\<lparr>column := c\<rparr>) = line_ps l"
  by (simp add: line_ps_def)

lemma footer_rows_column:
  "footer_rows x y (map (map_option (\<lambda>l. l\<lparr>column := c\<rparr>)) rs) = footer_rows x y rs"
proof (induction rs arbitrary: y)
  case (Cons r rs)
  then show ?case by (cases r) simp_all
qed simp

lemma expand_no_dollar: "CHR ''$'' \<notin> set s \<Longrightarrow> expand m s = s"
  by (induction m s rule: expand.induct) auto

lemma expand_dollar_name:
  assumes "CHR ''$'' \<notin> set p" "w \<noteq> []" "list_all is_name_char w" "s = [] \<or> \<not> is_name_char (hd s)"
  shows "expand m (p @ CHR ''$'' # w @ s) = p @ group_text m w @ expand m s"
  using assms(1)
proof (induction p)
  case Nil
  obtain d ds where w: "w = d # ds"
    using assms(2) by (cases w) auto
  have d: "is_name_char d" "d \<noteq> CHR ''$''" "d \<noteq> CHR ''{''"
    using assms(3) w by (auto simp: is_name_char_def)
  have tw: "takeWhile is_name_char (w @ s) = w"
    using assms(3,4) by (cases s) (auto simp: list_all_iff takeWhile_append2)
  have dw: "dropWhile is_name_char (w @ s) = s"
    using assms(3,4) by (cases s) (auto simp: list_all_iff dropWhile_append2 dropWhile_eq_Nil_conv)
  show ?case
    using d tw dw by (simp add: w)
qed auto

lemma replace_first_absent: "pat \<noteq> [] \<Longrightarrow> hd pat \<notin> set s \<Longrightarrow> replace_first pat rep s = s"
proof (induction s)
  case (Cons c cs)
  have "take (length pat) (c # cs) \<noteq> pat"
    using Cons.prems by (cases pat) auto
  with Cons show ?case by simp
qed simp

subsection \<open>Properties\<close>

text \<open>C10: the writer's loop over the content rows, which moves the pen down one
  line height per row, blank or not, draws row \<open>k\<close> at \<open>k\<close> line heights below
  the top line, at the x position of the line's column.\<close>

theorem write_rows_positions: "write_rows y rows = content_draws y rows"
proof (induction y rows rule: write_rows.induct)
  case (1 y)
  then show ?case by (simp add: content_draws_def)
qed (simp_all add: content_draws_Cons row_draw_def)

text \<open>C26: the footer is drawn at the left margin whatever the columns of its
  lines: a footnote line indented by its column (a quotation in a footnote) is printed
  unindented.\<close>

theorem footer_ignores_column:
  "write_footer (p\<lparr>footer := map (map_option (\<lambda>l. l\<lparr>column := c\<rparr>)) (footer p)\<rparr>) = write_footer p"
  by (simp add: write_footer_def footer_rows_column)

text \<open>C27: a page numbered 0 or below is unnumbered: the writer gives it the page
  comments and no slug line.\<close>

theorem unnumbered_page_no_slug:
  "page_no \<le> 0 \<Longrightarrow>
     writer_start_page ts r page_no
       = (writeln_text (''%%Page: '' @ nat_digits r @ '' '' @ nat_digits r) @ writeln_text ''page-begin'', Suc r)"
  by (simp add: writer_start_page_def slug_wanted_def)

theorem unnumbered_page_no_slug_witness:
  "(0::int) \<le> 0 \<and>
     writer_start_page \<lparr>ts_contact = None, ts_word_count = None, ts_has_structure = True,
         ts_short_title = segment_of_string ''T'', ts_short_author_name = segment_of_string ''A'', ts_pages = []\<rparr> 1 0
       = (writeln_text (''%%Page: '' @ nat_digits 1 @ '' '' @ nat_digits 1) @ writeln_text ''page-begin'', Suc 1)"
  using unnumbered_page_no_slug [of 0] by simp

text \<open>C28: the title is put into the prologue as a regular-expression replacement,
  so a dollar sign followed by a name in it is expanded as a capture-group reference:
  for every title \<open>p $w s\<close> (no other dollar sign, no \<open>@\<close>, \<open>w\<close> a run of name
  characters that is not a run of zeros, \<open>s\<close> not continuing it) the \<open>%%Title\<close>
  comment loses \<open>$w\<close>: \<open>Price $5\<close> becomes \<open>Price \<close>.\<close>

theorem title_dollar_expanded:
  assumes "CHR ''$'' \<notin> set p" "CHR ''$'' \<notin> set s" "CHR ''@'' \<notin> set p" "CHR ''@'' \<notin> set s"
    and "w \<noteq> []" "list_all is_name_char w" "\<not> list_all (\<lambda>c. c = CHR ''0'') w"
    and "s = [] \<or> \<not> is_name_char (hd s)"
  shows "write_prologue ''%%Title: @title@'' creator (ts\<lparr>ts_short_title := segment_of_string (p @ CHR ''$'' # w @ s)\<rparr>)
     = write_text (''%%Title: '' @ p @ s)"
proof -
  have e: "expand ''@title@'' (p @ CHR ''$'' # w @ s) = p @ s"
    using expand_dollar_name [OF assms(1,5,6,8)] expand_no_dollar [OF assms(2)] assms(5,7)
    by (simp add: group_text_def)
  have t: "replace_first ''@title@'' (p @ CHR ''$'' # w @ s) ''%%Title: @title@'' = ''%%Title: '' @ p @ s"
    using e by simp
  have no_at: "CHR ''@'' \<notin> set (''%%Title: '' @ p @ s)"
    using assms(3,4) by simp
  have r: "replace_first ''@creator@'' rep (''%%Title: '' @ p @ s) = ''%%Title: '' @ p @ s"
    "replace_first ''@pages@'' rep (''%%Title: '' @ p @ s) = ''%%Title: '' @ p @ s" for rep
    using no_at by (simp_all add: replace_first_absent)
  have st: "seg_text (ts_short_title (ts\<lparr>ts_short_title := segment_of_string (p @ CHR ''$'' # w @ s)\<rparr>))
      = p @ CHR ''$'' # w @ s"
    by (simp add: segment_of_string_def)
  show ?thesis
    by (simp only: write_prologue_def Let_def st t r)
qed

theorem title_dollar_expanded_witness:
  "CHR ''$'' \<notin> set ''Price '' \<and> CHR ''$'' \<notin> set [] \<and> CHR ''@'' \<notin> set ''Price '' \<and> CHR ''@'' \<notin> set []
   \<and> ''5'' \<noteq> [] \<and> list_all is_name_char ''5'' \<and> \<not> list_all (\<lambda>c. c = CHR ''0'') ''5''
   \<and> ([] = [] \<or> \<not> is_name_char (hd []))
   \<and> write_prologue ''%%Title: @title@'' ''kosik''
       (\<lparr>ts_contact = None, ts_word_count = None, ts_has_structure = True, ts_short_title = segment_of_string ''T'',
          ts_short_author_name = segment_of_string ''A'', ts_pages = []\<rparr>\<lparr>ts_short_title :=
            segment_of_string (''Price '' @ CHR ''$'' # ''5'' @ [])\<rparr>)
     = write_text (''%%Title: '' @ ''Price '' @ [])"
proof -
  have h: "CHR ''$'' \<notin> set ''Price ''" "CHR ''$'' \<notin> set []" "CHR ''@'' \<notin> set ''Price ''" "CHR ''@'' \<notin> set []"
    "''5'' \<noteq> []" "list_all is_name_char ''5''" "\<not> list_all (\<lambda>c. c = CHR ''0'') ''5''"
    "[] = [] \<or> \<not> is_name_char (hd [])"
    by (simp_all add: is_name_char_def)
  show ?thesis
    using h title_dollar_expanded [OF h] by blast
qed

end
