(* ===== verification/Spec2Isabelle.thy ===== *)
theory Spec2Isabelle
  imports Line_Breaking Lookahead_Loop Pipeline Page_Flow Reader_Props Typeset
begin

text \<open>
  \<^bold>\<open>Kosik: a verification development of the layout and pagination engine.\<close>

  Kosik turns an XML manuscript into PostScript pages in the fixed typewriter
  manuscript format.  The pipeline (\<^verbatim>\<open>src/lib.rs\<close>) is: the reader parses the XML
  into an element tree whose text is token sequences; the formatter turns each element
  into blocks of lines, calling a line breaker on its tokens; the compositor flows the
  blocks into pages of 54 rows, reserving footer rows for footnotes and deferring the
  table of contents; the writer prints the pages.  This development models the XML
  reader, the token and line model, the three line breakers, the element tree, the
  formatter, the compositor, the PostScript writer, the \<open>read\<close>/\<open>write\<close> dispatch of
  \<^verbatim>\<open>lib.rs\<close> and the Roman numeral table, as a shallow embedding: every Rust function is a HOL
  function of the same name (renamed only where HOL has the name), a struct is a record,
  an enum a datatype, and every panic the code can raise (\<open>usize\<close> underflow, \<open>u32\<close>
  overflow, \<open>i32\<close> addition and negation, division by zero, slice bounds, \<open>assert!\<close>) is a value
  of the datatype \<open>panic\<close> in the result type \<open>panic + 'a\<close>.

  \<^bold>\<open>Theories.\<close>
  \<^item> \<open>Kosik_Prelude\<close>: the result type and its bind, checked \<open>usize\<close> subtraction and
    division, slices \<open>&xs[i..j]\<close>, a loop that may panic (\<open>map_result\<close>), shared list
    lemmas.
  \<^item> \<open>Tokens\<close> (\<^verbatim>\<open>src/text/tokens.rs\<close>): \<open>Token<Data>\<close> as a record, \<open>TokenType\<close>
    as a datatype, the display and format flags as \<open>32 word\<close> with \<open>intersects\<close> as a
    bitwise AND, the token constructors.
  \<^item> \<open>Text_Lines\<close> (\<^verbatim>\<open>src/text.rs\<close>, \<open>Segment\<close> and \<open>Line\<close>): PostScript escaping, a
    segment from a string or a token run, a line from tokens (cut where the display
    flags change), with the PostScript literal round trip and its failure for note labels.
  \<^item> \<open>Line_Breaking\<close> (\<^verbatim>\<open>src/text.rs\<close>, \<open>next_word_fits\<close>, \<open>linebreak_fill\<close>,
    \<open>linebreak_balance\<close>, \<open>linebreak_hang\<close>): each breaker is its split-collecting walk
    (\<open>fill_splits\<close>, \<open>balance_splits\<close>, \<open>hang_splits\<close>) and the shared
    \<open>windows(2)\<close> loop \<open>split_lines\<close>; proved: fill never panics, keeps the text in
    order except for dropped break tokens, drops every mandatory break, and exceeds
    the budget only on an unbreakable run.
  \<^item> \<open>Lookahead_Loop\<close>: the \<open>while\<close> loop of \<open>next_word_fits\<close> as written, with its
    index and early returns, as \<open>while_option\<close>; proved: it terminates on every input
    with the value of the structural recursion \<open>nwf_scan\<close> used above.
  \<^item> \<open>Blocks\<close> and \<open>Elements\<close> (\<^verbatim>\<open>src/document.rs\<close>): the layout constants, \<open>Block\<close>
    (a datatype, since blocks nest in footnotes), \<open>Page\<close>, both \<open>count_lines\<close>, the
    element tree (\<open>ElementType\<close> with its generic wrappers and attribute records) and
    the slug-line extraction.
  \<^item> \<open>Reader\<close> (\<^verbatim>\<open>src/document/reader.rs\<close>, \<^verbatim>\<open>reader/macros.rs\<close>):
    \<open>Reader::run\<close> as \<open>read_events\<close>, a function over a list of \<open>quick_xml\<close> events
    and the \<open>Reader\<close> record; the stack alphabet \<open>State\<close> is the element under
    construction, with \<open>on_exit\<close>, \<open>on_resume\<close>, \<open>push\<close>, \<open>pop\<close>; one
    function per start-tag arm (\<open>start_chapter\<close>, \<open>start_li\<close>, ...), the empty-tag and
    text arms, the depth post-processing, the attribute macros and \<open>str::parse\<close>.
  \<^item> \<open>Reader_Props\<close>: a known start tag pushes, an end tag pops, everything else keeps
    the depth, so a well-nested document yields a root; a run of empty chapter tags is
    numbered consecutively; a chapter number of \<open>i32::MAX\<close> panics; an unknown
    element's end tag closes its parent; the two wrapper margins of a list item differ.
    A last group of facts backs findings where a comment of the source says otherwise:
    items after an \<open>ol\<close> stay numbered, a footnote in \<open>em\<close> is lost, an empty chapter
    tag is not structure.
  \<^item> \<open>Lut\<close> (\<^verbatim>\<open>src/lut.rs\<close>): the Roman numeral table and its lookup, with the
    fact (backing a finding) that the last entry is out of the lookup's range.
  \<^item> \<open>Formatter\<close> (\<^verbatim>\<open>src/document/formatter.rs\<close> and \<^verbatim>\<open>formatter/macros.rs\<close>): one
    function per \<open>From\<close> conversion, \<open>format_footnotes\<close> (mutually recursive with the
    paragraph conversion, terminating by the size of the footnote elements), the ToC
    entry macro; proved: list labels and footnote labels that are too long panic.
  \<^item> \<open>Compositor\<close> (\<^verbatim>\<open>src/document/compositor.rs\<close>): the \<open>Compositor\<close> struct as a
    record, its pending-footnote \<open>HashMap\<close> as a map; \<open>start_a_new_page\<close> (whose
    \<open>i32\<close> increment of \<open>next_page_no\<close> panics at \<open>i32::MAX\<close>),
    \<open>cur_page\<close> (its \<open>assert!\<close>), \<open>compose\<close>, \<open>compose_block\<close> (split into the
    footnote phase \<open>compose_footnotes\<close>, the line step \<open>compose_line\<close> and the loop
    \<open>compose_lines\<close>), \<open>compose_toc\<close> and \<open>run\<close> as functions from the state to a
    result, composed as the code calls them.
  \<^item> \<open>Page_Frame\<close>: every compositor operation \<^emph>\<open>grows\<close> the state (earlier pages
    untouched, the current page only extended, new pages numbered consecutively), proved
    operation by operation and composed by transitivity up to \<open>run\<close>'s block loop;
    from it, a ToC entry records a page that really holds the preceding block's last line.
    The proofs name \<open>push_new_page\<close>, the state \<open>start_a_new_page\<close> returns when
    its increment does not overflow.
  \<^item> \<open>Page_Placement\<close>: a block that fits lands as the collapsed padding
    (\<open>max\<close>, not sum) and exactly \<open>Block::count_lines\<close> rows; footnotes that do not fit
    force a new page that receives them and the line, except beyond 50 rows; the ToC dot
    leader fills the line to 65 columns or underflows; a page counter at \<open>i32::MAX\<close>
    makes a forced page panic, and a document without structure whose first page is
    \<open>i32::MAX\<close> panics before anything is composed.
  \<^item> \<open>Page_Flow\<close>: a refinement: read in page order, the content rows of \<open>run\<close>'s
    output are the composed blocks' lines, in order and each once, followed by the ToC; the
    abstraction \<open>flow\<close> forgets page breaks, blank rows and footers.
  \<^item> \<open>Pipeline\<close>: formatter and compositor together: the footnote estimate equals the
    rows placed, and chapters open pages.
  \<^item> \<open>Writer\<close> (\<^verbatim>\<open>src/document/writer.rs\<close>, \<open>Typescript\<close> of
    \<^verbatim>\<open>src/document.rs\<close>): \<open>Writer::run\<close> as \<open>writer_run\<close>, returning the standard
    output as a string; \<open>write\<close>/\<open>writeln\<close> with the ISO 8859-15 replacement encoder,
    \<open>write_prologue\<close> with the expansion that \<open>Regex::replace\<close> applies to its
    replacement, \<open>write_contact\<close>, \<open>write_word_count\<close> (half-to-even rounding, comma
    grouping), \<open>start_a_new_page\<close> and the row loops of the page body and footer.
  \<^item> \<open>Typeset\<close> (\<^verbatim>\<open>src/lib.rs\<close>, \<^verbatim>\<open>src/fragments.rs\<close>): \<open>read\<close> then \<open>write\<close>
    with every arm of its match, the \<open>write_block!\<close>/\<open>write_container!\<close> macros, the
    manuscript arm, and \<open>PROGRAM_NAME\<close> (the writer's \<open>creator\<close>) from the executable's
    path; proved: the rows are drawn at the closed-form positions, unnumbered pages have
    no slug line, the footer ignores the lines' columns, and a \<open>$\<close> followed by a name
    in a title is expanded away by the regular-expression replacement.

  \<^bold>\<open>Integers and bounds.\<close>  \<open>usize\<close> is \<open>nat\<close> with every subtraction checked
  (\<open>usize_sub\<close>), as in a debug build, where underflow panics; the compositor's \<open>i32\<close>
  values are \<open>int\<close> with the operations that can overflow checked: the increment of the
  page counter \<open>next_page_no\<close> (\<open>i32_add\<close>, which can be reached through the
  \<open>firstPage\<close> attribute) and the negation of a negative padding.  The remainders
  computed from page and footer lengths are unchecked \<open>int\<close>s: they stay far below
  \<open>2^31\<close>, as do the paddings the formatter sets.  Page height is \<open>TOP_LINE - BOTTOM_LINE + 1 = 54\<close>.
  No loop of the program can run forever: every recursion is structural or by a size
  measure, so no fuel is needed; the \<open>while\<close> loop of \<open>next_word_fits\<close>, which the
  breakers' model replaces by a recursion on the remaining tokens, is also modelled
  with its index as \<open>while_option\<close> and proved to terminate (\<open>Lookahead_Loop\<close>).

  \<^bold>\<open>Not modelled.\<close>  The XML lexer of \<open>quick_xml\<close> (tags, attribute decoding,
  unescaping) is a library: the reader model starts from its decoded events.  The text
  tokenizer \<open>crate::text::parser::Parser\<close> that the reader calls is not in the
  repository; it is the parameter \<open>parser\<close> of the reader, and the reader's word count
  is unbounded (\<open>usize\<close> does not overflow on real input); the end-to-end example
  uses \<open>sample_parser\<close>, which reads a text event as one word.  The command line
  (\<open>Arguments\<close>, \<open>clap\<close>), reading the input, prologue and numeral files, the
  executable's path itself (\<open>env::current_exe\<close>), and the \<open>--elements\<close>/\<open>--blocks\<close> debug dumps of
  \<open>write\<close> are I/O: the prologue text and the executable's path are parameters, and \<open>write\<close> is modelled with both dump flags off.  Write errors on the
  standard output are not modelled.  The writer's \<open>f32\<close> coordinates are exact
  integers in the model: \<open>LINE_HEIGHT = 12\<close>, and \<open>column * 7.2\<close> is never at a
  rounding tie.  \<open>Scroll\<close> is a data carrier that no code path fills.  A HOL
  character is one Latin-1 code point: \<open>String::to_uppercase\<close> is a parameter of the
  slug-line functions, and a section letter beyond Latin-1 (section 192 and above)
  becomes the decimal number.
\<close>

end
